theory Spec2Isabelle
  imports Complex_Main
begin

section \<open>JavaScript values\<close>

text \<open>
  The graph class of \<^verbatim>\<open>src/server/index.js\<close> receives untyped JavaScript values, so
  the arguments of its methods are values of \<open>jsval\<close>: the JSON values and
  \<open>undefined\<close>. A JavaScript number is a \<open>jsnum\<close>: a finite number, one of the two
  infinities or NaN. A finite number is written as a real. The language holds it as an
  IEEE double, so a number is read through \<open>to_double\<close> below, which gives the nearest
  double, and the numbers the program computes and stores are values of doubles. The
  negative zero is identified with zero: comparison, \<^verbatim>\<open>Math.floor\<close>, \<^verbatim>\<open>||\<close> and
  the JSON text of a number do not tell them apart. Where the code has already excluded
  NaN and the infinities by a range test, the number is kept as a \<open>real\<close>.
  Strings are lists of 8-bit characters, read as code units below 256.
  Time stamps and random identifiers are left out. A log line is left out unless it
  renders a value of the caller in a template, which can raise.
\<close>

datatype jsnum = Fin real | PosInf | NegInf | NaN

datatype jsval =
    JUndefined
  | JNull
  | JBool bool
  | JNum jsnum
  | JStr string
  | JArr "jsval list"
  | JObj "(string \<times> jsval) list"

text \<open>\<^verbatim>\<open>typeof v === 'string'\<close>, \<^verbatim>\<open>Array.isArray(v)\<close> and friends.\<close>

fun is_string :: "jsval \<Rightarrow> bool" where
  "is_string (JStr s) = True"
| "is_string v = False"

fun is_array :: "jsval \<Rightarrow> bool" where
  "is_array (JArr xs) = True"
| "is_array v = False"

text \<open>\<^verbatim>\<open>typeof v === 'object'\<close>: objects, arrays and null.\<close>

fun typeof_object :: "jsval \<Rightarrow> bool" where
  "typeof_object (JObj kvs) = True"
| "typeof_object (JArr xs) = True"
| "typeof_object JNull = True"
| "typeof_object v = False"

text \<open>
  Property access \<^verbatim>\<open>v.k\<close> for the keys the code reads (none of them is inherited from
  a prototype): an own property of an object, \<open>undefined\<close> otherwise.
\<close>

fun get_prop :: "jsval \<Rightarrow> string \<Rightarrow> jsval" where
  "get_prop (JObj kvs) k = (case map_of kvs k of Some v \<Rightarrow> v | None \<Rightarrow> JUndefined)"
| "get_prop v k = JUndefined"

text \<open>A parameter with a default value: the default replaces \<open>undefined\<close> only.\<close>

definition with_default :: "jsval \<Rightarrow> jsval \<Rightarrow> jsval" where
  "with_default v d = (if v = JUndefined then d else v)"

subsection \<open>Errors\<close>

text \<open>
  A raised exception is a value of \<open>error\<close>. \<open>InvalidParams field expected received\<close>
  is the error built by \<^verbatim>\<open>_createValidationError\<close> (an \<^verbatim>\<open>McpError\<close> with the code
  for invalid parameters): it keeps the field name, the expected shape and the received
  value instead of the rendered message. \<open>McpInvalidParams\<close> is an \<^verbatim>\<open>McpError\<close>
  of the same code built in place, \<open>Error\<close> a plain \<^verbatim>\<open>Error\<close> with its message,
  \<open>TypeError\<close> an error of the runtime with its message: a property read of
  \<open>undefined\<close>, a call of something that is not a function, or a value without a
  primitive value. \<open>NoHypotheses errors\<close> is the \<^verbatim>\<open>Error\<close> of
  \<^verbatim>\<open>generateHypotheses\<close> whose message lists the item errors, each with the 1-based
  number of its item.
\<close>

datatype error =
    InvalidParams string string jsval
  | McpInvalidParams string
  | Error string
  | TypeError string
  | NoHypotheses "(nat \<times> error) list"

text \<open>\<^verbatim>\<open>error instanceof McpError\<close>\<close>

fun is_McpError :: "error \<Rightarrow> bool" where
  "is_McpError (InvalidParams field expected received) = True"
| "is_McpError (McpInvalidParams msg) = True"
| "is_McpError e = False"

text \<open>
  \<^verbatim>\<open>array.map(f)\<close> and the like for a callback that may raise: the first error
  leaves the loop.
\<close>

fun map_result :: "('a \<Rightarrow> error + 'b) \<Rightarrow> 'a list \<Rightarrow> error + 'b list" where
  "map_result f [] = Inr []"
| "map_result f (x # xs) =
     (case f x of
        Inl e \<Rightarrow> Inl e
      | Inr y \<Rightarrow> (case map_result f xs of Inl e \<Rightarrow> Inl e | Inr ys \<Rightarrow> Inr (y # ys)))"

subsection \<open>Strings\<close>

text \<open>White space and line terminators below code unit 256, as \<^verbatim>\<open>trim\<close> sees them.\<close>

definition is_ws :: "char \<Rightarrow> bool" where
  "is_ws c = (c \<in> set [CHR 0x09, CHR 0x0A, CHR 0x0B, CHR 0x0C, CHR 0x0D, CHR 0x20, CHR 0xA0])"

definition trim :: "string \<Rightarrow> string" where
  "trim s = rev (dropWhile is_ws (rev (dropWhile is_ws s)))"

definition lower_char :: "char \<Rightarrow> char" where
  "lower_char c =
     (let n = (of_char c :: nat)
      in if (65 \<le> n \<and> n \<le> 90) \<or> (192 \<le> n \<and> n \<le> 222 \<and> n \<noteq> 215)
         then char_of (n + 32) else c)"

definition toLowerCase :: "string \<Rightarrow> string" where
  "toLowerCase s = map lower_char s"

fun starts_with :: "string \<Rightarrow> string \<Rightarrow> bool" where
  "starts_with s [] = True"
| "starts_with [] (p # ps) = False"
| "starts_with (c # cs) (p # ps) = (c = p \<and> starts_with cs ps)"

text \<open>\<^verbatim>\<open>s.includes(sub)\<close>.\<close>

fun str_includes :: "string \<Rightarrow> string \<Rightarrow> bool" where
  "str_includes [] sub = (sub = [])"
| "str_includes (c # cs) sub = (starts_with (c # cs) sub \<or> str_includes cs sub)"

definition is_digit :: "char \<Rightarrow> bool" where
  "is_digit c = (c \<in> set ''0123456789'')"

definition digit_val :: "char \<Rightarrow> nat" where
  "digit_val c = (of_char c :: nat) - 48"

text \<open>The decimal rendering of a non-negative integer in a template string.\<close>

definition digit_char :: "nat \<Rightarrow> char" where
  "digit_char d = ''0123456789'' ! d"

function show_nat :: "nat \<Rightarrow> string" where
  "show_nat n = (if n < 10 then [digit_char n] else show_nat (n div 10) @ [digit_char (n mod 10)])"
  by pat_completeness auto
termination
  by (relation "measure id") auto

declare show_nat.simps [simp del]

text \<open>\<^verbatim>\<open>s.split('.')\<close>\<close>

fun split_on :: "char \<Rightarrow> string \<Rightarrow> string list" where
  "split_on d [] = [[]]"
| "split_on d (c # cs) =
     (case split_on d cs of
        [] \<Rightarrow> [[]]
      | p # ps \<Rightarrow> if c = d then [] # p # ps else (c # p) # ps)"

subsection \<open>Doubles\<close>

text \<open>
  The double nearest to a real. \<open>binade\<close> is the exponent of the binade the magnitude
  lies in, the largest \<open>e\<close> with \<open>2 ^ e \<le> x\<close>, kept between -1022 (where the subnormal
  numbers begin) and 1023. The magnitude is rounded to a multiple of the spacing
  \<open>2 ^ (e - 52)\<close> of that binade, a tie going to the even multiple, and a result that
  reaches \<open>2 ^ 1024\<close> is infinite.
\<close>

definition pow2 :: "int \<Rightarrow> real" where
  "pow2 e = (if 0 \<le> e then 2 ^ nat e else 1 / 2 ^ nat (- e))"

definition binade :: "real \<Rightarrow> int" where
  "binade x =
     (case find (\<lambda>e. pow2 e \<le> x) (map (\<lambda>n. 1023 - int n) [0..<2046]) of
        Some e \<Rightarrow> e
      | None \<Rightarrow> - 1022)"

definition round_half_even :: "real \<Rightarrow> int" where
  "round_half_even q =
     (let n = \<lfloor>q\<rfloor>
      in if q - of_int n < 1 / 2 then n
         else if 1 / 2 < q - of_int n then n + 1
         else if even n then n else n + 1)"

definition to_double :: "real \<Rightarrow> jsnum" where
  "to_double x =
     (let a = \<bar>x\<bar>;
          u = pow2 (binade a - 52);
          m = of_int (round_half_even (a / u)) * u
      in if pow2 1024 \<le> m then (if x < 0 then NegInf else PosInf)
         else Fin (if x < 0 then - m else m))"

text \<open>
  The value of a numeric literal of the source, such as \<^verbatim>\<open>0.8\<close>, and of an arithmetic
  result that stays in the range of the finite doubles. The literals 0, 0.25, 0.5 and 1
  are doubles and are written as they are.
\<close>

definition dbl :: "real \<Rightarrow> real" where
  "dbl x = (case to_double x of Fin r \<Rightarrow> r | _ \<Rightarrow> 0)"

subsection \<open>Number coercion\<close>

text \<open>
  \<^verbatim>\<open>Number(v)\<close>. A string is trimmed and read as a numeric literal of the language:
  the empty string is 0, a signed decimal literal with optional fraction and exponent or
  \<open>Infinity\<close> has the double nearest to its value, an unsigned hexadecimal, octal or
  binary integer literal likewise, and anything else is NaN.
\<close>

definition digits_val :: "nat \<Rightarrow> (char \<Rightarrow> nat) \<Rightarrow> string \<Rightarrow> nat" where
  "digits_val base dv ds = foldl (\<lambda>acc c. acc * base + dv c) 0 ds"

definition is_hex_digit :: "char \<Rightarrow> bool" where
  "is_hex_digit c = (c \<in> set ''0123456789abcdefABCDEF'')"

definition hex_val :: "char \<Rightarrow> nat" where
  "hex_val c =
     (let n = (of_char c :: nat)
      in if is_digit c then n - 48 else if 97 \<le> n then n - 87 else n - 55)"

text \<open>The exponent part: nothing, or \<open>e\<close>, an optional sign and at least one digit.\<close>

definition parse_exponent :: "string \<Rightarrow> int option" where
  "parse_exponent s =
     (case s of
        [] \<Rightarrow> Some 0
      | c # r \<Rightarrow>
          if c = CHR ''e'' \<or> c = CHR ''E'' then
            (let (neg, ds) = (case r of
                   [] \<Rightarrow> (False, [])
                 | x # r' \<Rightarrow> if x = CHR ''-'' then (True, r')
                             else if x = CHR ''+'' then (False, r') else (False, r))
             in if ds \<noteq> [] \<and> list_all is_digit ds
                then Some ((if neg then - 1 else 1) * int (digits_val 10 digit_val ds))
                else None)
          else None)"

text \<open>
  The mathematical value of an unsigned decimal literal: digits, an optional fraction
  and an optional exponent, with a digit before or after the point. The value is exact
  here and rounded once, by \<open>StringToNumber\<close>.
\<close>

definition parse_unsigned_decimal :: "string \<Rightarrow> real option" where
  "parse_unsigned_decimal s =
     (let ip = takeWhile is_digit s;
          r1 = dropWhile is_digit s;
          (fp, r2) = (case r1 of
                        [] \<Rightarrow> ([], [])
                      | c # r \<Rightarrow> if c = CHR ''.''
                                  then (takeWhile is_digit r, dropWhile is_digit r)
                                  else ([], r1))
      in if ip = [] \<and> fp = [] then None
         else (case parse_exponent r2 of
                 None \<Rightarrow> None
               | Some e \<Rightarrow>
                   Some ((real (digits_val 10 digit_val ip)
                          + real (digits_val 10 digit_val fp) / 10 ^ length fp)
                         * (if e < 0 then 1 / 10 ^ nat (- e) else 10 ^ nat e))))"

definition parse_radix :: "string \<Rightarrow> nat option" where
  "parse_radix s =
     (case s of
        z # x # ds \<Rightarrow>
          if z = CHR ''0'' \<and> ds \<noteq> [] then
            (if (x = CHR ''x'' \<or> x = CHR ''X'') \<and> list_all is_hex_digit ds
               then Some (digits_val 16 hex_val ds)
             else if (x = CHR ''o'' \<or> x = CHR ''O'') \<and> list_all (\<lambda>c. c \<in> set ''01234567'') ds
               then Some (digits_val 8 digit_val ds)
             else if (x = CHR ''b'' \<or> x = CHR ''B'') \<and> list_all (\<lambda>c. c \<in> set ''01'') ds
               then Some (digits_val 2 digit_val ds)
             else None)
          else None
      | _ \<Rightarrow> None)"

definition StringToNumber :: "string \<Rightarrow> jsnum" where
  "StringToNumber s =
     (let t = trim s
      in if t = [] then Fin 0
         else (case parse_radix t of
                 Some n \<Rightarrow> to_double (real n)
               | None \<Rightarrow>
                   (let (neg, u) = (case t of
                          [] \<Rightarrow> (False, [])
                        | c # r \<Rightarrow> if c = CHR ''-'' then (True, r)
                                    else if c = CHR ''+'' then (False, r) else (False, t))
                    in if u = ''Infinity'' then (if neg then NegInf else PosInf)
                       else (case parse_unsigned_decimal u of
                               None \<Rightarrow> NaN
                             | Some r \<Rightarrow> to_double (if neg then - r else r)))))"

text \<open>
  The conversion of an object to a primitive value calls its \<^verbatim>\<open>toString\<close> and
  \<^verbatim>\<open>valueOf\<close>. An object of \<open>jsval\<close> inherits both from \<^verbatim>\<open>Object.prototype\<close>,
  where \<^verbatim>\<open>valueOf\<close> returns the object itself and \<^verbatim>\<open>toString\<close> a string. An own
  property \<open>toString\<close> hides the inherited function and is not a function itself, so the
  conversion of such an object finds no primitive value and raises a \<^verbatim>\<open>TypeError\<close>.
  An array is converted by joining the strings of its elements, which raises when the
  conversion of an element does. This holds for \<^verbatim>\<open>Number(v)\<close> and for a template
  string that renders \<open>v\<close> alike.
\<close>

fun conversion_raises :: "jsval \<Rightarrow> bool" where
  "conversion_raises (JObj kvs) = (''toString'' \<in> set (map fst kvs))"
| "conversion_raises (JArr xs) = list_ex conversion_raises xs"
| "conversion_raises v = False"

text \<open>
  The number a value converts to when the conversion does not raise. A number is read as
  the double it denotes. An array is coerced through its string form: the empty array is
  the empty string, a one-element array is the string of its element (empty for \<open>null\<close>
  and \<open>undefined\<close>), a longer one contains a comma. A plain object is
  \<^verbatim>\<open>[object Object]\<close>.
\<close>

fun ToNumber :: "jsval \<Rightarrow> jsnum" where
  "ToNumber JUndefined = NaN"
| "ToNumber JNull = Fin 0"
| "ToNumber (JBool b) = Fin (if b then 1 else 0)"
| "ToNumber (JNum (Fin r)) = to_double r"
| "ToNumber (JNum n) = n"
| "ToNumber (JStr s) = StringToNumber s"
| "ToNumber (JArr []) = Fin 0"
| "ToNumber (JArr [x]) =
     (case x of
        JUndefined \<Rightarrow> Fin 0
      | JNull \<Rightarrow> Fin 0
      | JBool b \<Rightarrow> NaN
      | JObj kvs \<Rightarrow> NaN
      | _ \<Rightarrow> ToNumber x)"
| "ToNumber (JArr (x # y # zs)) = NaN"
| "ToNumber (JObj kvs) = NaN"

definition cannot_convert :: error where
  "cannot_convert = TypeError ''Cannot convert object to primitive value''"

definition Number_js :: "jsval \<Rightarrow> error + jsnum" where
  "Number_js v = (if conversion_raises v then Inl cannot_convert else Inr (ToNumber v))"

text \<open>
  Division of two finite numbers: \<^verbatim>\<open>0 / 0\<close> is NaN, \<^verbatim>\<open>x / 0\<close> is infinite, and any
  other quotient is rounded.
\<close>

definition js_div :: "real \<Rightarrow> real \<Rightarrow> jsnum" where
  "js_div a b =
     (if b = 0 then (if a = 0 then NaN else if 0 < a then PosInf else NegInf)
      else to_double (a / b))"

section \<open>Confidence distributions\<close>

record distribution =
  dist_type :: string
  means :: "real list"
  variances :: "real list"
  distribution_type :: string
  samples :: nat
  confidence_interval :: real

text \<open>
  The callback of \<^verbatim>\<open>means.map\<close> in \<^verbatim>\<open>_createProbabilityDistribution\<close>:
  \<^verbatim>\<open>Number(m)\<close> may raise, and \<^verbatim>\<open>isNaN(num) || num < 0 || num > 1\<close> gives 0.5. NaN
  fails the first test, the infinities the other two, so what is kept is a finite number
  of the unit interval.
\<close>

definition valid_mean :: "jsval \<Rightarrow> error + real" where
  "valid_mean m =
     (case Number_js m of
        Inl e \<Rightarrow> Inl e
      | Inr (Fin r) \<Rightarrow> Inr (if r < 0 \<or> r > 1 then 0.5 else r)
      | Inr num \<Rightarrow> Inr 0.5)"

text \<open>
  The record built from the valid means. A mean lies in the unit interval, so neither
  \<^verbatim>\<open>1 - m\<close> nor the product leaves the range of the finite doubles.
\<close>

definition distribution_of :: "real list \<Rightarrow> distribution" where
  "distribution_of validMeans =
     \<lparr> dist_type = ''probability_distribution'',
       means = validMeans,
       variances = map (\<lambda>m. dbl (m * dbl (1 - m))) validMeans,
       distribution_type = ''beta'',
       samples = 1000,
       confidence_interval = dbl 0.95 \<rparr>"

text \<open>
  The body of the \<^verbatim>\<open>try\<close> block of \<^verbatim>\<open>_createProbabilityDistribution(means)\<close>. For
  an argument that is not an array the warning renders the argument, which may raise,
  before the default means replace it.
\<close>

definition createProbabilityDistribution_try :: "jsval \<Rightarrow> error + distribution" where
  "createProbabilityDistribution_try ms =
     (case ms of
        JArr ys \<Rightarrow>
          (case map_result valid_mean ys of
             Inl e \<Rightarrow> Inl e
           | Inr validMeans \<Rightarrow> Inr (distribution_of validMeans))
      | _ \<Rightarrow>
          if conversion_raises ms then Inl cannot_convert
          else (case map_result valid_mean
                       [JNum (Fin 0.5), JNum (Fin 0.5), JNum (Fin 0.5), JNum (Fin 0.5)] of
                  Inl e \<Rightarrow> Inl e
                | Inr validMeans \<Rightarrow> Inr (distribution_of validMeans)))"

text \<open>The distribution that the \<^verbatim>\<open>catch\<close> block returns.\<close>

definition default_distribution :: distribution where
  "default_distribution =
     \<lparr> dist_type = ''probability_distribution'',
       means = [0.5, 0.5, 0.5, 0.5],
       variances = [0.25, 0.25, 0.25, 0.25],
       distribution_type = ''beta'',
       samples = 1000,
       confidence_interval = dbl 0.95 \<rparr>"

text \<open>\<^verbatim>\<open>_createProbabilityDistribution(means)\<close>: it returns a distribution for every argument.\<close>

definition createProbabilityDistribution :: "jsval \<Rightarrow> distribution" where
  "createProbabilityDistribution ms =
     (case createProbabilityDistribution_try ms of
        Inr d \<Rightarrow> d
      | Inl e \<Rightarrow> default_distribution)"

section \<open>Validation layer\<close>

text \<open>\<^verbatim>\<open>_validateTaskDescription\<close>\<close>

definition validateTaskDescription :: "jsval \<Rightarrow> error + string" where
  "validateTaskDescription taskDescription =
     (if taskDescription = JNull \<or> taskDescription = JUndefined then
        Inl (InvalidParams ''task_description''
               ''a non-empty string describing the research task'' taskDescription)
      else (case taskDescription of
              JStr s \<Rightarrow>
                (let trimmed = trim s
                 in if length trimmed = 0 then
                      Inl (InvalidParams ''task_description'' ''a non-empty string'' taskDescription)
                    else if length trimmed < 10 then
                      Inl (InvalidParams ''task_description''
                             ''a descriptive string with at least 10 characters'' (JStr trimmed))
                    else if length trimmed > 1000 then
                      Inl (InvalidParams ''task_description''
                             ''a string with maximum 1000 characters''
                             (JStr (take 50 trimmed @ ''...'')))
                    else Inr trimmed)
            | _ \<Rightarrow> Inl (InvalidParams ''task_description'' ''a string'' taskDescription)))"

text \<open>
  \<^verbatim>\<open>_validateConfidenceArray\<close>: the callback of \<^verbatim>\<open>map\<close> raises at the first entry
  whose coercion raises, is NaN or lies outside the unit interval.
\<close>

fun validate_confidence_entries :: "string \<Rightarrow> nat \<Rightarrow> jsval list \<Rightarrow> error + real list" where
  "validate_confidence_entries paramName index [] = Inr []"
| "validate_confidence_entries paramName index (v # vs) =
     (let field = paramName @ ''['' @ show_nat index @ '']''
      in case Number_js v of
           Inl e \<Rightarrow> Inl e
         | Inr NaN \<Rightarrow> Inl (InvalidParams field ''a number between 0 and 1'' v)
         | Inr (Fin r) \<Rightarrow>
             if r < 0 \<or> r > 1 then
               Inl (InvalidParams field ''a number between 0 and 1 (inclusive)'' (JNum (Fin r)))
             else (case validate_confidence_entries paramName (index + 1) vs of
                     Inl e \<Rightarrow> Inl e
                   | Inr rs \<Rightarrow> Inr (r # rs))
         | Inr num \<Rightarrow> Inl (InvalidParams field ''a number between 0 and 1 (inclusive)'' (JNum num)))"

definition validateConfidenceArray :: "jsval \<Rightarrow> string \<Rightarrow> error + real list" where
  "validateConfidenceArray confidence paramName =
     (case confidence of
        JArr xs \<Rightarrow>
          if length xs \<noteq> 4 then
            Inl (InvalidParams paramName
                   ''array with exactly 4 elements [empirical_support, theoretical_basis, methodological_rigor, consensus_alignment]''
                   confidence)
          else validate_confidence_entries paramName 0 xs
      | _ \<Rightarrow> Inl (InvalidParams paramName ''array of 4 numbers between 0 and 1'' confidence))"

text \<open>
  The filter of tag and attribution arrays, followed by the trimming \<^verbatim>\<open>map\<close>: an
  entry that is not a string or is blank is dropped with a warning that renders the
  entry, so the filter raises at the first dropped entry whose conversion raises. The
  entries that stay are trimmed.
\<close>

fun clean_strings :: "jsval list \<Rightarrow> error + string list" where
  "clean_strings [] = Inr []"
| "clean_strings (v # vs) =
     (case v of
        JStr s \<Rightarrow>
          if length (trim s) = 0 then clean_strings vs
          else (case clean_strings vs of Inl e \<Rightarrow> Inl e | Inr ts \<Rightarrow> Inr (trim s # ts))
      | _ \<Rightarrow> if conversion_raises v then Inl cannot_convert else clean_strings vs)"

text \<open>The filtered array under an optional key; \<open>None\<close> when the key is not set.\<close>

definition clean_optional :: "jsval \<Rightarrow> error + string list option" where
  "clean_optional v =
     (case v of
        JArr xs \<Rightarrow> (case clean_strings xs of Inl e \<Rightarrow> Inl e | Inr ts \<Rightarrow> Inr (Some ts))
      | _ \<Rightarrow> Inr None)"

record safe_config =
  sc_disciplinary_tags :: "string list option"
  sc_attribution :: "string list option"
  sc_enable_multi_layer :: "bool option"

definition empty_config :: safe_config where
  "empty_config =
     \<lparr> sc_disciplinary_tags = None, sc_attribution = None, sc_enable_multi_layer = None \<rparr>"

text \<open>
  The body of the \<^verbatim>\<open>try\<close> block of \<^verbatim>\<open>_validateConfig\<close>: the tags are checked and
  filtered before the attribution is looked at.
\<close>

definition validateConfig_try :: "jsval \<Rightarrow> error + safe_config" where
  "validateConfig_try config =
     (if config = JNull \<or> config = JUndefined then Inr empty_config
      else if \<not> typeof_object config \<or> is_array config then
        Inl (InvalidParams ''config'' ''an object with configuration properties'' config)
      else
        (let tags = get_prop config ''disciplinary_tags'';
             attr = get_prop config ''attribution'';
             multi = get_prop config ''enable_multi_layer''
         in if tags \<noteq> JUndefined \<and> \<not> is_array tags then
              Inl (InvalidParams ''config.disciplinary_tags'' ''an array of strings'' tags)
            else
              (case clean_optional tags of
                 Inl e \<Rightarrow> Inl e
               | Inr safe_tags \<Rightarrow>
                   if attr \<noteq> JUndefined \<and> \<not> is_array attr then
                     Inl (InvalidParams ''config.attribution'' ''an array of strings'' attr)
                   else
                     (case clean_optional attr of
                        Inl e \<Rightarrow> Inl e
                      | Inr safe_attr \<Rightarrow>
                          Inr \<lparr> sc_disciplinary_tags = safe_tags,
                                sc_attribution = safe_attr,
                                sc_enable_multi_layer =
                                  (case multi of JBool b \<Rightarrow> Some b | _ \<Rightarrow> None) \<rparr>))))"

text \<open>
  \<^verbatim>\<open>_validateConfig\<close>: its \<^verbatim>\<open>catch\<close> raises the validation errors again and
  answers any other error with the empty configuration.
\<close>

definition validateConfig :: "jsval \<Rightarrow> error + safe_config" where
  "validateConfig config =
     (case validateConfig_try config of
        Inr safeConfig \<Rightarrow> Inr safeConfig
      | Inl e \<Rightarrow> if is_McpError e then Inl e else Inr empty_config)"

section \<open>Metadata factory\<close>

text \<open>
  The bundle of \<^verbatim>\<open>_createNodeMetadata\<close>. The fields that are the same constant in
  every bundle (time stamps, revision history, the zero topology and information
  records, the null statistical power) are left out. \<open>md_plan\<close> is the one extra key the
  operations pass.
\<close>

record node_metadata =
  md_node_id :: string
  md_provenance :: string
  md_confidence :: distribution
  md_epistemic_status :: string
  md_disciplinary_tags :: "string list"
  md_falsification_criteria :: "string option"
  md_bias_flags :: "string list"
  md_layer_id :: string
  md_impact_score :: real
  md_attribution :: "string list"
  md_plan :: "jsval option"

text \<open>
  The object the operations hand to \<^verbatim>\<open>_createNodeMetadata\<close>. Every call site sets
  \<open>node_id\<close>, \<open>provenance\<close>, \<open>epistemic_status\<close>, \<open>confidence\<close>, \<open>layer_id\<close> and
  \<open>impact_score\<close>. A list field is \<open>None\<close> when the key is absent or its value is not an
  array.
\<close>

record metadata_base =
  mb_node_id :: string
  mb_provenance :: string
  mb_epistemic_status :: string
  mb_confidence :: distribution
  mb_layer_id :: string
  mb_impact_score :: real
  mb_disciplinary_tags :: "string list option"
  mb_falsification_criteria :: "string option"
  mb_bias_flags :: "string list option"
  mb_attribution :: "string list option"
  mb_plan :: "jsval option"

text \<open>\<^verbatim>\<open>_validateImpactScore\<close> on a finite number.\<close>

definition validateImpactScore :: "real \<Rightarrow> real" where
  "validateImpactScore num = (if num < 0 \<or> num > 1 then 0.5 else num)"

definition createNodeMetadata :: "metadata_base \<Rightarrow> node_metadata" where
  "createNodeMetadata baseMetadata =
     \<lparr> md_node_id = mb_node_id baseMetadata,
       md_provenance = mb_provenance baseMetadata,
       md_confidence = mb_confidence baseMetadata,
       md_epistemic_status = mb_epistemic_status baseMetadata,
       md_disciplinary_tags =
         (case mb_disciplinary_tags baseMetadata of Some ts \<Rightarrow> ts | None \<Rightarrow> []),
       md_falsification_criteria = mb_falsification_criteria baseMetadata,
       md_bias_flags = (case mb_bias_flags baseMetadata of Some fs \<Rightarrow> fs | None \<Rightarrow> []),
       md_layer_id = mb_layer_id baseMetadata,
       md_impact_score = validateImpactScore (mb_impact_score baseMetadata),
       md_attribution = (case mb_attribution baseMetadata of Some as \<Rightarrow> as | None \<Rightarrow> []),
       md_plan = mb_plan baseMetadata \<rparr>"

text \<open>
  \<^verbatim>\<open>_createEdgeMetadata\<close> for the three keys the operations pass; the causal,
  temporal and layer-connection entries are null in every edge and left out.
\<close>

record edge_metadata =
  em_edge_id :: string
  em_edge_type :: string
  em_confidence :: distribution
  em_weight :: real
  em_bidirectional :: bool

definition createEdgeMetadata :: "string \<Rightarrow> string \<Rightarrow> distribution \<Rightarrow> edge_metadata" where
  "createEdgeMetadata edge_id edge_type confidence =
     \<lparr> em_edge_id = edge_id, em_edge_type = edge_type, em_confidence = confidence,
       em_weight = 1.0, em_bidirectional = False \<rparr>"

section \<open>Graph store\<close>

record node =
  node_id :: string
  label :: string
  node_type :: string
  content :: string
  confidence :: distribution
  metadata :: node_metadata

record edge =
  edge_id :: string
  source :: string
  target :: string
  edge_meta :: edge_metadata

record layer =
  layer_name :: string
  layer_description :: string
  layer_nodes :: "string list"
  layer_edges :: "string list"

text \<open>
  A \<^verbatim>\<open>Map\<close> is an association list in insertion order with distinct keys:
  \<^verbatim>\<open>set\<close> replaces the value of a present key in place and appends a new key. A
  \<^verbatim>\<open>Set\<close> is a list without repetition.
\<close>

fun map_set :: "'k \<Rightarrow> 'v \<Rightarrow> ('k \<times> 'v) list \<Rightarrow> ('k \<times> 'v) list" where
  "map_set k v [] = [(k, v)]"
| "map_set k v (kv # kvs) = (if fst kv = k then (k, v) # kvs else kv # map_set k v kvs)"

definition map_has :: "('k \<times> 'v) list \<Rightarrow> 'k \<Rightarrow> bool" where
  "map_has m k = (map_of m k \<noteq> None)"

definition set_add :: "'a \<Rightarrow> 'a list \<Rightarrow> 'a list" where
  "set_add x xs = (if x \<in> set xs then xs else xs @ [x])"

text \<open>
  The state of a \<^verbatim>\<open>ResearchQuestGraph\<close>: the maps and sets the operations write,
  the stage cursor \<open>currentStage\<close> and the stage name of the graph metadata. The three
  maps that are created empty and never written (\<^verbatim>\<open>confidenceFunction\<close>,
  \<^verbatim>\<open>metadataFunction\<close>, \<^verbatim>\<open>informationMetrics\<close>) are left out.
\<close>

record graph =
  vertices :: "(string \<times> node) list"
  edges :: "(string \<times> edge) list"
  hyperedges :: "(string \<times> jsval) list"
  layers :: "(string \<times> layer) list"
  nodeTypes :: "string list"
  currentStage :: nat
  meta_stage :: string

definition stageNames :: "string list" where
  "stageNames =
     [''initialization'', ''decomposition'', ''hypothesis_planning'', ''evidence_integration'',
      ''pruning_merging'', ''subgraph_extraction'', ''composition'', ''reflection'']"

text \<open>The keys of the parameter table, all of them active.\<close>

definition active_parameters :: "string list" where
  "active_parameters = map (\<lambda>i. ''P1_'' @ show_nat i) [0..<30]"

definition defaultLayers :: "(string \<times> string \<times> string) list" where
  "defaultLayers =
     [(''base'', ''Base Conceptual Layer'', ''Core concepts and relationships''),
      (''methodological'', ''Methodological Layer'', ''Research methods and approaches''),
      (''empirical'', ''Empirical Evidence Layer'', ''Data and evidence''),
      (''theoretical'', ''Theoretical Framework Layer'', ''Theoretical constructs''),
      (''interdisciplinary'', ''Interdisciplinary Bridge Layer'', ''Cross-domain connections'')]"

text \<open>\<^verbatim>\<open>_initializeLayerStructure\<close>: every default layer is set to a fresh empty layer.\<close>

definition initializeLayerStructure :: "graph \<Rightarrow> graph" where
  "initializeLayerStructure g =
     g\<lparr> layers :=
          foldl (\<lambda>m (lid, name, descr).
                   map_set lid \<lparr> layer_name = name, layer_description = descr,
                                 layer_nodes = [], layer_edges = [] \<rparr> m)
                (layers g) defaultLayers \<rparr>"

text \<open>
  The constructor. Its argument is the value of
  \<^verbatim>\<open>config.enable_multi_layer !== false\<close>.
\<close>

definition new_graph :: "bool \<Rightarrow> graph" where
  "new_graph multi_layer =
     (let g = \<lparr> vertices = [], edges = [], hyperedges = [], layers = [], nodeTypes = [],
                currentStage = 0, meta_stage = ''initialization'' \<rparr>
      in if multi_layer then initializeLayerStructure g else g)"

text \<open>The loop that clears the node and edge sets of every layer.\<close>

definition clear_layers :: "(string \<times> layer) list \<Rightarrow> (string \<times> layer) list" where
  "clear_layers ls = map (\<lambda>(lid, l). (lid, l\<lparr> layer_nodes := [], layer_edges := [] \<rparr>)) ls"

text \<open>\<^verbatim>\<open>this.layers.get(lid).nodes.add(nid)\<close> for a layer that exists.\<close>

definition layer_add_node :: "string \<Rightarrow> string \<Rightarrow> (string \<times> layer) list \<Rightarrow> (string \<times> layer) list" where
  "layer_add_node lid nid ls =
     map (\<lambda>(k, l). if k = lid then (k, l\<lparr> layer_nodes := set_add nid (layer_nodes l) \<rparr>) else (k, l)) ls"

text \<open>\<^verbatim>\<open>_resetToInitialState\<close>\<close>

definition resetToInitialState :: "graph \<Rightarrow> graph" where
  "resetToInitialState g =
     (let g1 = g\<lparr> vertices := [], edges := [], hyperedges := [], nodeTypes := [],
                  currentStage := 0, meta_stage := ''initialization'' \<rparr>
      in if length (layers g1) > 0 then g1\<lparr> layers := clear_layers (layers g1) \<rparr>
         else initializeLayerStructure g1)"

definition getInitializationWarnings :: "graph \<Rightarrow> string list" where
  "getInitializationWarnings g = (if length (layers g) = 0 then [''No layers initialized''] else [])"

section \<open>Stage 1: initialize\<close>

text \<open>
  The result object of \<^verbatim>\<open>initialize\<close>: \<open>InitSuccess\<close> is the object with
  \<^verbatim>\<open>success: true\<close> (root node id, stage cursor, stage name, active parameters,
  warnings), \<open>InitFailure\<close> the one with \<^verbatim>\<open>success: false\<close> and
  \<^verbatim>\<open>recovery_attempted: true\<close> (error, stage cursor). The third object, for a
  failed recovery, is never built: \<^verbatim>\<open>_resetToInitialState\<close> raises nowhere.
\<close>

datatype init_result =
    InitSuccess string nat string "string list" "string list"
  | InitFailure error nat

fun init_success :: "init_result \<Rightarrow> bool" where
  "init_success (InitSuccess nid cs sn ps ws) = True"
| "init_success (InitFailure e cs) = False"

text \<open>
  The root node, and the body of the \<^verbatim>\<open>try\<close> block: the graph as the body leaves
  it, and the raised error or the returned object. The default values of the second and
  third parameter replace \<open>undefined\<close>, so the confidence is always validated.
\<close>

definition rootNode :: "string \<Rightarrow> real list \<Rightarrow> safe_config \<Rightarrow> node" where
  "rootNode validatedTaskDescription validatedConfidence safeConfig =
     (let conf = createProbabilityDistribution (JArr (map (\<lambda>r. JNum (Fin r)) validatedConfidence));
          rootNodeMetadata = createNodeMetadata
            \<lparr> mb_node_id = ''n0'',
              mb_provenance = ''user_input'',
              mb_epistemic_status = ''accepted'',
              mb_confidence = conf,
              mb_layer_id = ''base'',
              mb_impact_score = dbl 0.8,
              mb_disciplinary_tags =
                (case sc_disciplinary_tags safeConfig of
                   Some ts \<Rightarrow> Some ts
                 | None \<Rightarrow> Some [''immunology'', ''dermatology'']),
              mb_falsification_criteria = None,
              mb_bias_flags = None,
              mb_attribution =
                (case sc_attribution safeConfig of Some as \<Rightarrow> Some as | None \<Rightarrow> Some []),
              mb_plan = None \<rparr>
      in \<lparr> node_id = ''n0'', label = ''Task Understanding'', node_type = ''root'',
           content = validatedTaskDescription, confidence = conf,
           metadata = rootNodeMetadata \<rparr>)"

definition initialize_try :: "graph \<Rightarrow> jsval \<Rightarrow> jsval \<Rightarrow> jsval \<Rightarrow> graph \<times> (error + init_result)" where
  "initialize_try g taskDescription initialConfidence config =
     (if currentStage g \<noteq> 0 then
        (g, Inl (Error (''Cannot initialize. Current stage: '' @ show_nat (currentStage g)
                        @ '', expected: 0 (before initialization)'')))
      else
        (let g1 = (if length (vertices g) > 0
                   then g\<lparr> vertices := [], edges := [], hyperedges := [],
                           layers := clear_layers (layers g) \<rparr>
                   else g)
         in case validateTaskDescription taskDescription of
              Inl e \<Rightarrow> (g1, Inl e)
            | Inr validatedTaskDescription \<Rightarrow>
         (case validateConfidenceArray initialConfidence ''initial_confidence'' of
              Inl e \<Rightarrow> (g1, Inl e)
            | Inr validatedConfidence \<Rightarrow>
         (case validateConfig config of
              Inl e \<Rightarrow> (g1, Inl e)
            | Inr safeConfig \<Rightarrow>
         (let g2 = g1\<lparr> vertices :=
                         map_set ''n0''
                           (rootNode validatedTaskDescription validatedConfidence safeConfig)
                           (vertices g1),
                       nodeTypes := set_add ''root'' (nodeTypes g1) \<rparr>;
              g3 = (if map_has (layers g2) ''base'' then g2 else initializeLayerStructure g2);
              g4 = g3\<lparr> layers := layer_add_node ''base'' ''n0'' (layers g3) \<rparr>;
              g5 = g4\<lparr> meta_stage := ''initialization'', currentStage := 1 \<rparr>
          in (g5, Inr (InitSuccess ''n0'' (currentStage g5) (stageNames ! (currentStage g5 - 1))
                         active_parameters (getInitializationWarnings g5))))))))"

text \<open>
  \<^verbatim>\<open>initialize(taskDescription, initialConfidence = [0.8, 0.8, 0.8, 0.8], config = {})\<close>:
  whatever the body raises is caught, the graph is reset and the failure object returned.
\<close>

definition initialize :: "graph \<Rightarrow> jsval \<Rightarrow> jsval \<Rightarrow> jsval \<Rightarrow> graph \<times> init_result" where
  "initialize g taskDescription initialConfidence config =
     (let ic = with_default initialConfidence
                 (JArr [JNum (Fin 0.8), JNum (Fin 0.8), JNum (Fin 0.8), JNum (Fin 0.8)]);
          cfg = with_default config (JObj [])
      in case initialize_try g taskDescription ic cfg of
           (g', Inr r) \<Rightarrow> (g', r)
         | (g', Inl e) \<Rightarrow>
             (let g'' = resetToInitialState g' in (g'', InitFailure e (currentStage g''))))"

section \<open>Stage 2: decomposeTask\<close>

definition defaultDimensions :: "string list" where
  "defaultDimensions =
     [''Scope'', ''Objectives'', ''Constraints'', ''Data Needs'', ''Use Cases'',
      ''Potential Biases'', ''Knowledge Gaps'']"

definition tagMap :: "(string \<times> string list) list" where
  "tagMap =
     [(''Scope'', [''methodology'', ''research_design'']),
      (''Objectives'', [''goals'', ''outcomes'']),
      (''Constraints'', [''limitations'', ''resources'']),
      (''Data Needs'', [''data_science'', ''methodology'']),
      (''Use Cases'', [''application'', ''translation'']),
      (''Potential Biases'', [''methodology'', ''bias_detection'']),
      (''Knowledge Gaps'', [''knowledge_discovery'', ''research_gaps''])]"

text \<open>
  \<open>tagMap\<close> is an object literal, so \<^verbatim>\<open>tagMap[dimension]\<close> also finds the members
  every object inherits from \<^verbatim>\<open>Object.prototype\<close>. Each of them is a function or an
  object: truthy, and not an array.
\<close>

definition object_prototype_keys :: "string list" where
  "object_prototype_keys =
     [''constructor'', ''__defineGetter__'', ''__defineSetter__'', ''hasOwnProperty'',
      ''__lookupGetter__'', ''__lookupSetter__'', ''isPrototypeOf'', ''propertyIsEnumerable'',
      ''toString'', ''valueOf'', ''__proto__'', ''toLocaleString'']"

text \<open>
  \<^verbatim>\<open>_inferDisciplinaryTags\<close>: \<^verbatim>\<open>tagMap[dimension] || ['general']\<close>. The result is
  \<open>None\<close> when the value found is an inherited member, which is not an array.
\<close>

definition inferDisciplinaryTags :: "string \<Rightarrow> string list option" where
  "inferDisciplinaryTags dimension =
     (case map_of tagMap dimension of
        Some tags \<Rightarrow> Some tags
      | None \<Rightarrow> if dimension \<in> set object_prototype_keys then None else Some [''general''])"

text \<open>
  The success object of \<^verbatim>\<open>decomposeTask\<close>: created node ids, stage cursor, stage
  name and the dimension names. There is no failure object: the method has no
  \<^verbatim>\<open>try\<close>, and what it raises leaves the method.
\<close>

datatype decompose_result = DecomposeSuccess "string list" nat string "string list"

text \<open>
  The dimension node of the callback of \<^verbatim>\<open>taskDimensions.forEach\<close>, and the callback
  as a loop over the names with the index. The read of
  \<^verbatim>\<open>this.layers.get('base').nodes\<close> raises when there is no base layer; the vertex
  is already stored then.
\<close>

definition dimensionNode :: "string \<Rightarrow> string \<Rightarrow> node" where
  "dimensionNode nodeId dimension =
     (let conf = createProbabilityDistribution
                   (JArr [JNum (Fin 0.8), JNum (Fin 0.8), JNum (Fin 0.8), JNum (Fin 0.8)]);
          dimensionMetadata = createNodeMetadata
            \<lparr> mb_node_id = nodeId,
              mb_provenance = ''task_decomposition'',
              mb_epistemic_status = ''pending'',
              mb_confidence = conf,
              mb_layer_id = ''base'',
              mb_impact_score = dbl 0.6,
              mb_disciplinary_tags = inferDisciplinaryTags dimension,
              mb_falsification_criteria = None,
              mb_bias_flags = None,
              mb_attribution = None,
              mb_plan = None \<rparr>
      in \<lparr> node_id = nodeId, label = dimension, node_type = ''dimension'',
           content = ''Analysis of '' @ dimension @ '' aspects of the research task'',
           confidence = conf, metadata = dimensionMetadata \<rparr>)"

text \<open>The edge from the root to a dimension node, stored under its edge id.\<close>

definition decompositionEdge :: "string \<Rightarrow> edge" where
  "decompositionEdge nodeId =
     (let edgeId = ''e_n0_'' @ nodeId;
          edgeMetadata = createEdgeMetadata edgeId ''Decomposition''
            (createProbabilityDistribution
               (JArr [JNum (Fin 0.9), JNum (Fin 0.9), JNum (Fin 0.9), JNum (Fin 0.9)]))
      in \<lparr> edge_id = edgeId, source = ''n0'', target = nodeId, edge_meta = edgeMetadata \<rparr>)"

fun decompose_loop :: "graph \<Rightarrow> nat \<Rightarrow> string list \<Rightarrow> string list \<Rightarrow> graph \<times> (error + string list)" where
  "decompose_loop g index [] dimensionNodes = (g, Inr dimensionNodes)"
| "decompose_loop g index (dimension # rest) dimensionNodes =
     (let nodeId = ''2.'' @ show_nat (index + 1);
          g1 = g\<lparr> vertices := map_set nodeId (dimensionNode nodeId dimension) (vertices g),
                  nodeTypes := set_add ''dimension'' (nodeTypes g) \<rparr>
      in if \<not> map_has (layers g1) ''base'' then
           (g1, Inl (TypeError ''Cannot read properties of undefined (reading 'nodes')''))
         else
           (let g2 = g1\<lparr> layers := layer_add_node ''base'' nodeId (layers g1) \<rparr>;
                g3 = g2\<lparr> edges := map_set (''e_n0_'' @ nodeId) (decompositionEdge nodeId) (edges g2) \<rparr>
            in decompose_loop g3 (index + 1) rest (dimensionNodes @ [nodeId])))"

text \<open>
  \<^verbatim>\<open>decomposeTask(customDimensions = null)\<close> for a list of names; \<open>None\<close> is a
  falsy argument, which selects the default names.
\<close>

definition decomposeTask :: "graph \<Rightarrow> string list option \<Rightarrow> graph \<times> (error + decompose_result)" where
  "decomposeTask g customDimensions =
     (if currentStage g \<noteq> 1 then
        (g, Inl (Error (''Cannot decompose. Current stage: '' @ show_nat (currentStage g)
                        @ '', expected: 1'')))
      else
        (let taskDimensions = (case customDimensions of Some ds \<Rightarrow> ds | None \<Rightarrow> defaultDimensions)
         in case decompose_loop g 0 taskDimensions [] of
              (g', Inl e) \<Rightarrow> (g', Inl e)
            | (g', Inr dimensionNodes) \<Rightarrow>
                (let g'' = g'\<lparr> currentStage := 2, meta_stage := ''decomposition'' \<rparr>
                 in (g'', Inr (DecomposeSuccess dimensionNodes (currentStage g'')
                                 (stageNames ! (currentStage g'' - 1)) taskDimensions)))))"

section \<open>Stage 3: generateHypotheses\<close>

text \<open>The pattern \<^verbatim>\<open>/^2\.\d+$/\<close>.\<close>

definition matches_dimension_format :: "string \<Rightarrow> bool" where
  "matches_dimension_format s =
     (case s of
        a # b # ds \<Rightarrow> a = CHR ''2'' \<and> b = CHR ''.'' \<and> ds \<noteq> [] \<and> list_all is_digit ds
      | _ \<Rightarrow> False)"

fun join_with :: "string \<Rightarrow> string list \<Rightarrow> string" where
  "join_with sep [] = []"
| "join_with sep [x] = x"
| "join_with sep (x # y # ys) = x @ sep @ join_with sep (y # ys)"

text \<open>\<^verbatim>\<open>_validateDimensionNodeId(nodeId, existingNodes)\<close> with the vertex map.\<close>

definition validateDimensionNodeId :: "jsval \<Rightarrow> (string \<times> node) list \<Rightarrow> error + string" where
  \<open>validateDimensionNodeId nodeId existingNodes =
     (case nodeId of
        JStr s \<Rightarrow>
          if s = [] then
            Inl (InvalidParams ''dimension_node_id'' ''a non-empty string in format "2.X"'' nodeId)
          else if \<not> matches_dimension_format s then
            Inl (InvalidParams ''dimension_node_id''
                   ''a string in format "2.X" where X is the dimension number'' nodeId)
          else if \<not> map_has existingNodes s then
            Inl (InvalidParams ''dimension_node_id''
                   (''an existing dimension node ID. Available: ''
                    @ join_with '', '' (filter (\<lambda>k. starts_with k ''2.'') (map fst existingNodes)))
                   nodeId)
          else Inr s
      | _ \<Rightarrow>
          Inl (InvalidParams ''dimension_node_id'' ''a non-empty string in format "2.X"'' nodeId))\<close>

text \<open>\<^verbatim>\<open>_validateHypothesesArray\<close>\<close>

definition validateHypothesesArray :: "jsval \<Rightarrow> error + jsval list" where
  "validateHypothesesArray hypotheses =
     (case hypotheses of
        JArr hs \<Rightarrow>
          if length hs < 3 then
            Inl (InvalidParams ''hypotheses''
                   ''an array with at least 3 hypotheses (P1.3 specification)'' hypotheses)
          else if length hs > 5 then
            Inl (InvalidParams ''hypotheses''
                   ''an array with maximum 5 hypotheses (P1.3 specification)'' hypotheses)
          else Inr hs
      | _ \<Rightarrow>
          Inl (InvalidParams ''hypotheses'' ''an array of hypothesis objects or strings'' hypotheses))"

text \<open>
  \<^verbatim>\<open>_validateHypothesisConfig\<close>: the \<^verbatim>\<open>max_hypotheses\<close> entry of the safe
  configuration, \<open>None\<close> when it is not set. When the coercion raises, the \<^verbatim>\<open>catch\<close>
  block answers with the entry 5.
\<close>

definition validateHypothesisConfig :: "jsval \<Rightarrow> nat option" where
  "validateHypothesisConfig config =
     (if typeof_object config \<and> config \<noteq> JNull then
        (let mh = get_prop config ''max_hypotheses''
         in if mh \<noteq> JUndefined then
              (case Number_js mh of
                 Inl e \<Rightarrow> Some 5
               | Inr (Fin maxHyp) \<Rightarrow>
                   if maxHyp > 0 \<and> maxHyp \<le> 5 then Some (nat \<lfloor>maxHyp\<rfloor>) else Some 5
               | Inr num \<Rightarrow> Some 5)
            else None)
      else None)"

text \<open>\<^verbatim>\<open>Math.min(safeConfig.max_hypotheses || 5, 5)\<close>\<close>

definition maxHypotheses :: "nat option \<Rightarrow> nat" where
  "maxHypotheses mh = min (case mh of Some n \<Rightarrow> if n = 0 then 5 else n | None \<Rightarrow> 5) 5"

record validated_hypothesis =
  vh_content :: string
  vh_confidence :: "real list option"
  vh_falsification_criteria :: "string option"
  vh_plan :: "jsval option"
  vh_impact_score :: "real option"
  vh_disciplinary_tags :: "string list option"
  vh_attribution :: "string list option"
  vh_needs_plan :: bool
  vh_needs_falsification_criteria :: bool

text \<open>
  The object branch of \<^verbatim>\<open>_validateHypothesis\<close>, field by field in the order of the
  source. An invalid confidence is dropped, whatever its validation raises; every other
  invalid field raises its validation error; the coercion of the impact score and the
  filters of the two string arrays may raise a \<^verbatim>\<open>TypeError\<close>.
\<close>

definition validate_hypothesis_object :: "jsval \<Rightarrow> string \<Rightarrow> error + validated_hypothesis" where
  "validate_hypothesis_object hypothesis field =
     (let cv = get_prop hypothesis ''content'';
          conf = get_prop hypothesis ''confidence'';
          fc = get_prop hypothesis ''falsification_criteria'';
          pl = get_prop hypothesis ''plan'';
          imp = get_prop hypothesis ''impact_score'';
          tags = get_prop hypothesis ''disciplinary_tags'';
          attr = get_prop hypothesis ''attribution''
      in if \<not> (case cv of JStr c \<Rightarrow> length (trim c) \<noteq> 0 | _ \<Rightarrow> False) then
           Inl (InvalidParams (field @ ''.content'')
                  ''a non-empty string describing the hypothesis'' cv)
         else if fc \<noteq> JUndefined \<and> \<not> (case fc of JStr f \<Rightarrow> length (trim f) \<noteq> 0 | _ \<Rightarrow> False) then
           Inl (InvalidParams (field @ ''.falsification_criteria'')
                  ''a non-empty string describing testable criteria (P1.16 requirement)'' fc)
         else if pl \<noteq> JUndefined \<and> (\<not> typeof_object pl \<or> pl = JNull) then
           Inl (InvalidParams (field @ ''.plan'')
                  ''an object describing the investigation plan (P1.3 requirement)'' pl)
         else if pl \<noteq> JUndefined
                 \<and> \<not> (case get_prop pl ''type'' of JStr t \<Rightarrow> t \<noteq> [] | _ \<Rightarrow> False) then
           Inl (InvalidParams (field @ ''.plan.type'')
                  ''a string describing the plan type'' (get_prop pl ''type''))
         else
           (case (if imp = JUndefined then Inr None
                  else (case Number_js imp of
                          Inl e \<Rightarrow> Inl e
                        | Inr (Fin score) \<Rightarrow>
                            if score < 0 \<or> score > 1 then
                              Inl (InvalidParams (field @ ''.impact_score'')
                                     ''a number between 0 and 1 representing expected impact'' imp)
                            else Inr (Some score)
                        | Inr num \<Rightarrow>
                            Inl (InvalidParams (field @ ''.impact_score'')
                                   ''a number between 0 and 1 representing expected impact'' imp))) of
              Inl e \<Rightarrow> Inl e
            | Inr impact \<Rightarrow>
           if tags \<noteq> JUndefined \<and> \<not> is_array tags then
             Inl (InvalidParams (field @ ''.disciplinary_tags'') ''an array of strings'' tags)
           else
           (case clean_optional tags of
              Inl e \<Rightarrow> Inl e
            | Inr safe_tags \<Rightarrow>
           if attr \<noteq> JUndefined \<and> \<not> is_array attr then
             Inl (InvalidParams (field @ ''.attribution'') ''an array of strings'' attr)
           else
           (case clean_optional attr of
              Inl e \<Rightarrow> Inl e
            | Inr safe_attr \<Rightarrow>
           Inr \<lparr> vh_content = (case cv of JStr c \<Rightarrow> trim c | _ \<Rightarrow> []),
                 vh_confidence =
                   (if conf \<noteq> JUndefined then
                      (case validateConfidenceArray conf (field @ ''.confidence'') of
                         Inr v \<Rightarrow> Some v
                       | Inl e \<Rightarrow> None)
                    else None),
                 vh_falsification_criteria = (case fc of JStr f \<Rightarrow> Some (trim f) | _ \<Rightarrow> None),
                 vh_plan = (if pl \<noteq> JUndefined then Some pl else None),
                 vh_impact_score = impact,
                 vh_disciplinary_tags = safe_tags,
                 vh_attribution = safe_attr,
                 vh_needs_plan = (pl = JUndefined),
                 vh_needs_falsification_criteria = (fc = JUndefined) \<rparr>))))"

text \<open>The body of the \<^verbatim>\<open>try\<close> block of \<^verbatim>\<open>_validateHypothesis(hypothesis, index)\<close>.\<close>

definition validateHypothesis_try :: "jsval \<Rightarrow> nat \<Rightarrow> error + validated_hypothesis" where
  "validateHypothesis_try hypothesis index =
     (let field = ''hypotheses['' @ show_nat index @ '']''
      in case hypothesis of
           JStr s \<Rightarrow>
             if length (trim s) = 0 then
               Inl (InvalidParams field ''a non-empty string or object with content'' hypothesis)
             else
               Inr \<lparr> vh_content = trim s, vh_confidence = None,
                     vh_falsification_criteria = None, vh_plan = None, vh_impact_score = None,
                     vh_disciplinary_tags = None, vh_attribution = None,
                     vh_needs_plan = True, vh_needs_falsification_criteria = True \<rparr>
         | _ \<Rightarrow>
             if typeof_object hypothesis \<and> hypothesis \<noteq> JNull then
               validate_hypothesis_object hypothesis field
             else
               Inl (InvalidParams field ''a string or object with hypothesis content'' hypothesis))"

text \<open>
  \<^verbatim>\<open>_validateHypothesis(hypothesis, index)\<close>: its \<^verbatim>\<open>catch\<close> raises an
  \<^verbatim>\<open>McpError\<close> again and wraps the message of any other error, here that of a
  \<^verbatim>\<open>TypeError\<close>, in a new \<^verbatim>\<open>McpError\<close>.
\<close>

definition validateHypothesis :: "jsval \<Rightarrow> nat \<Rightarrow> error + validated_hypothesis" where
  "validateHypothesis hypothesis index =
     (case validateHypothesis_try hypothesis index of
        Inr validated \<Rightarrow> Inr validated
      | Inl (TypeError msg) \<Rightarrow>
          Inl (McpInvalidParams
                 (''Hypothesis '' @ show_nat (index + 1) @ '' validation failed: '' @ msg))
      | Inl (Error msg) \<Rightarrow>
          Inl (McpInvalidParams
                 (''Hypothesis '' @ show_nat (index + 1) @ '' validation failed: '' @ msg))
      | Inl e \<Rightarrow> Inl e)"

text \<open>\<^verbatim>\<open>_assessInitialBiasRisk\<close> on the validated content.\<close>

definition assessInitialBiasRisk :: "string \<Rightarrow> string list" where
  "assessInitialBiasRisk c =
     (let lc = toLowerCase c
      in (if str_includes lc ''always'' \<or> str_includes lc ''never''
          then [''absolute_thinking''] else [])
         @ (if str_includes lc ''obvious'' \<or> str_includes lc ''clearly''
            then [''confirmation_bias_risk''] else [])
         @ (if str_includes lc ''proven'' \<or> str_includes lc ''definitively''
            then [''overconfidence_bias''] else []))"

text \<open>\<^verbatim>\<open>_generateDefaultPlan\<close>\<close>

definition generateDefaultPlan :: "string \<Rightarrow> jsval" where
  "generateDefaultPlan c =
     JObj [(''type'', JStr ''literature_search''),
           (''description'', JStr (''Systematic literature review for: '' @ c)),
           (''tools'', JArr [JStr ''pubmed_search'', JStr ''citation_analysis'']),
           (''timeline'', JStr ''2-4 weeks''),
           (''resources_needed'', JArr [JStr ''database_access'', JStr ''literature_review_tools'']),
           (''expected_outcome'', JStr ''evidence_collection'')]"

text \<open>
  The hypothesis node, and the body of the \<^verbatim>\<open>try\<close> inside the callback of
  \<^verbatim>\<open>forEach\<close>, for the item at \<open>index\<close>: the graph as the body leaves it, and the
  raised error or the id of the created node. The layer read raises when neither the
  theoretical nor the base layer exists; the vertex is already stored then.
\<close>

definition hypothesisNode :: "string \<Rightarrow> string \<Rightarrow> nat \<Rightarrow> validated_hypothesis \<Rightarrow> node" where
  "hypothesisNode nodeId dimensionNumber index vh =
     (let hypothesisMetadata = createNodeMetadata
            \<lparr> mb_node_id = nodeId,
              mb_provenance = ''hypothesis_generation'',
              mb_epistemic_status = ''hypothetical'',
              mb_confidence =
                (case vh_confidence vh of
                   Some c \<Rightarrow> createProbabilityDistribution (JArr (map (\<lambda>r. JNum (Fin r)) c))
                 | None \<Rightarrow> createProbabilityDistribution
                              (JArr [JNum (Fin 0.5), JNum (Fin 0.5), JNum (Fin 0.5), JNum (Fin 0.5)])),
              mb_layer_id = ''theoretical'',
              mb_impact_score =
                (case vh_impact_score vh of
                   Some i \<Rightarrow> if i = 0 then dbl 0.6 else i
                 | None \<Rightarrow> dbl 0.6),
              mb_disciplinary_tags =
                (case vh_disciplinary_tags vh of Some ts \<Rightarrow> Some ts | None \<Rightarrow> Some []),
              mb_falsification_criteria = vh_falsification_criteria vh,
              mb_bias_flags = Some (assessInitialBiasRisk (vh_content vh)),
              mb_attribution =
                (case vh_attribution vh of Some as \<Rightarrow> Some as | None \<Rightarrow> Some []),
              mb_plan =
                (case vh_plan vh of
                   Some p \<Rightarrow> Some p
                 | None \<Rightarrow> Some (generateDefaultPlan (vh_content vh))) \<rparr>
      in \<lparr> node_id = nodeId,
           label = ''Hypothesis '' @ dimensionNumber @ ''.'' @ show_nat (index + 1),
           node_type = ''hypothesis'',
           content = vh_content vh,
           confidence = md_confidence hypothesisMetadata,
           metadata = hypothesisMetadata \<rparr>)"

text \<open>The edge from the dimension node to a hypothesis node.\<close>

definition hypothesisEdge :: "string \<Rightarrow> string \<Rightarrow> edge" where
  "hypothesisEdge dimensionNodeId nodeId =
     (let edgeId = ''e_'' @ dimensionNodeId @ ''_'' @ nodeId;
          edgeMetadata = createEdgeMetadata edgeId ''Hypothesis''
            (createProbabilityDistribution
               (JArr [JNum (Fin 0.8), JNum (Fin 0.8), JNum (Fin 0.8), JNum (Fin 0.8)]))
      in \<lparr> edge_id = edgeId, source = dimensionNodeId, target = nodeId,
           edge_meta = edgeMetadata \<rparr>)"

definition create_hypothesis :: "graph \<Rightarrow> string \<Rightarrow> string \<Rightarrow> nat \<Rightarrow> jsval \<Rightarrow> graph \<times> (error + string)" where
  "create_hypothesis g dimensionNodeId dimensionNumber index hypothesis =
     (let nodeId = ''3.'' @ dimensionNumber @ ''.'' @ show_nat (index + 1)
      in case validateHypothesis hypothesis index of
           Inl e \<Rightarrow> (g, Inl e)
         | Inr vh \<Rightarrow>
             (let g1 = g\<lparr> vertices :=
                            map_set nodeId (hypothesisNode nodeId dimensionNumber index vh)
                              (vertices g),
                          nodeTypes := set_add ''hypothesis'' (nodeTypes g) \<rparr>
              in if \<not> map_has (layers g1) ''theoretical'' \<and> \<not> map_has (layers g1) ''base'' then
                   (g1, Inl (TypeError ''Cannot read properties of undefined (reading 'nodes')''))
                 else
                   (let g2 = g1\<lparr> layers :=
                               layer_add_node
                                 (if map_has (layers g1) ''theoretical'' then ''theoretical'' else ''base'')
                                 nodeId (layers g1) \<rparr>;
                        g3 = g2\<lparr> edges := map_set (''e_'' @ dimensionNodeId @ ''_'' @ nodeId)
                                            (hypothesisEdge dimensionNodeId nodeId) (edges g2) \<rparr>
                    in (g3, Inr nodeId))))"

text \<open>
  The \<^verbatim>\<open>forEach\<close> over the processed items: an item that raises is recorded in
  \<open>errors\<close> with its 1-based number and the loop goes on.
\<close>

fun hypotheses_loop ::
  "graph \<Rightarrow> string \<Rightarrow> string \<Rightarrow> nat \<Rightarrow> jsval list \<Rightarrow> string list \<Rightarrow> (nat \<times> error) list
     \<Rightarrow> graph \<times> string list \<times> (nat \<times> error) list" where
  "hypotheses_loop g dimensionNodeId dimensionNumber index [] hypothesisNodes errors =
     (g, hypothesisNodes, errors)"
| "hypotheses_loop g dimensionNodeId dimensionNumber index (hypothesis # rest) hypothesisNodes errors =
     (case create_hypothesis g dimensionNodeId dimensionNumber index hypothesis of
        (g', Inr nodeId) \<Rightarrow>
          hypotheses_loop g' dimensionNodeId dimensionNumber (index + 1) rest
            (hypothesisNodes @ [nodeId]) errors
      | (g', Inl e) \<Rightarrow>
          hypotheses_loop g' dimensionNodeId dimensionNumber (index + 1) rest
            hypothesisNodes (errors @ [(index + 1, e)]))"

text \<open>
  The result object of \<^verbatim>\<open>generateHypotheses\<close>: \<open>HypSuccess\<close> is the object with
  \<^verbatim>\<open>success: true\<close> (created node ids, stage cursor, stage name, the item errors
  and the warnings, both \<open>None\<close> for \<open>undefined\<close>), \<open>HypFailure\<close> the one with
  \<^verbatim>\<open>success: false\<close> and \<^verbatim>\<open>recovery_attempted: false\<close> (error, stage cursor,
  stage name).
\<close>

datatype hypotheses_result =
    HypSuccess "string list" nat string "(nat \<times> error) list option" "string list option"
  | HypFailure error nat string

fun hyp_success :: "hypotheses_result \<Rightarrow> bool" where
  "hyp_success (HypSuccess ns cs sn es ws) = True"
| "hyp_success (HypFailure e cs sn) = False"

fun hypothesis_nodes :: "hypotheses_result \<Rightarrow> string list" where
  "hypothesis_nodes (HypSuccess ns cs sn es ws) = ns"
| "hypothesis_nodes (HypFailure e cs sn) = []"

fun result_errors :: "hypotheses_result \<Rightarrow> (nat \<times> error) list" where
  "result_errors (HypSuccess ns cs sn es ws) = (case es of Some l \<Rightarrow> l | None \<Rightarrow> [])"
| "result_errors (HypFailure e cs sn) = []"

text \<open>\<^verbatim>\<open>this.stageNames[this.currentStage - 1] || 'unknown'\<close>\<close>

definition stage_name_or_unknown :: "nat \<Rightarrow> string" where
  "stage_name_or_unknown cs =
     (if 1 \<le> cs \<and> cs \<le> length stageNames then stageNames ! (cs - 1) else ''unknown'')"

text \<open>The body of the outer \<^verbatim>\<open>try\<close> block.\<close>

definition generateHypotheses_try ::
  "graph \<Rightarrow> jsval \<Rightarrow> jsval \<Rightarrow> jsval \<Rightarrow> graph \<times> (error + hypotheses_result)" where
  "generateHypotheses_try g dimNodeId hypotheses config =
     (if currentStage g \<noteq> 2 then
        (g, Inl (Error (''Cannot generate hypotheses. Current stage: ''
                        @ show_nat (currentStage g) @ '', expected: 2'')))
      else
        (case validateDimensionNodeId dimNodeId (vertices g) of
           Inl e \<Rightarrow> (g, Inl e)
         | Inr validatedNodeId \<Rightarrow>
        (case map_of (vertices g) validatedNodeId of
           None \<Rightarrow> (g, Inl (TypeError ''Cannot read properties of undefined (reading 'type')''))
         | Some dimNode \<Rightarrow>
        if node_type dimNode \<noteq> ''dimension'' then
          (g, Inl (McpInvalidParams
                     (''Node '' @ validatedNodeId @ '' is not a dimension node (type: ''
                      @ node_type dimNode
                      @ ''). Expected a dimension node created in Stage 2.'')))
        else
        (case validateHypothesesArray hypotheses of
           Inl e \<Rightarrow> (g, Inl e)
         | Inr validatedHypotheses \<Rightarrow>
        (let maxHyp = maxHypotheses (validateHypothesisConfig config);
             dimensionParts = split_on CHR ''.'' validatedNodeId
         in if length dimensionParts < 2 then
              (g, Inl (Error (''Invalid dimension node ID format: '' @ validatedNodeId
                              @ ''. Expected format: 2.X'')))
            else
              (let dimensionNumber = dimensionParts ! 1
               in case hypotheses_loop g validatedNodeId dimensionNumber 0
                         (take maxHyp validatedHypotheses) [] [] of
                    (g', hypothesisNodes, errors) \<Rightarrow>
                      if length hypothesisNodes = 0 then (g', Inl (NoHypotheses errors))
                      else
                        (let g'' = g'\<lparr> currentStage := 3, meta_stage := ''hypothesis_planning'' \<rparr>
                         in (g'', Inr (HypSuccess hypothesisNodes (currentStage g'')
                                         (stageNames ! (currentStage g'' - 1))
                                         (if length errors > 0 then Some errors else None)
                                         (if length errors > 0
                                          then Some [show_nat (length errors)
                                                     @ '' hypotheses failed to create'']
                                          else None))))))))))"

text \<open>
  \<^verbatim>\<open>generateHypotheses(dimNodeId, hypotheses, config = {})\<close>: whatever the body
  raises is caught and turned into the failure object; the graph is left as the body
  left it.
\<close>

definition generateHypotheses ::
  "graph \<Rightarrow> jsval \<Rightarrow> jsval \<Rightarrow> jsval \<Rightarrow> graph \<times> hypotheses_result" where
  "generateHypotheses g dimensionNodeId hypotheses config =
     (let cfg = with_default config (JObj [])
      in case generateHypotheses_try g dimensionNodeId hypotheses cfg of
           (g', Inr r) \<Rightarrow> (g', r)
         | (g', Inl e) \<Rightarrow>
             (g', HypFailure e (currentStage g') (stage_name_or_unknown (currentStage g'))))"

section \<open>Summary and export\<close>

record confidence_statistics =
  cs_mean :: real
  cs_std :: real
  cs_min :: real
  cs_max :: real

text \<open>
  \<^verbatim>\<open>xs.reduce((a, b) => a + b, 0)\<close>: every partial sum is rounded. For the numbers of
  the unit interval that the operations store, the sums stay in the range of the finite
  doubles.
\<close>

definition dsum :: "real list \<Rightarrow> real" where
  "dsum xs = foldl (\<lambda>a b. dbl (a + b)) 0 xs"

text \<open>
  \<^verbatim>\<open>_getConfidenceStatistics\<close>: every stored confidence is a distribution, so the
  value of a node is the sum of its means over 4. \<^verbatim>\<open>Math.pow\<close> and \<^verbatim>\<open>Math.sqrt\<close>
  are taken as the rounded square and square root.
\<close>

definition getConfidenceStatistics :: "graph \<Rightarrow> confidence_statistics" where
  "getConfidenceStatistics g =
     (let confidences = map (\<lambda>(k, n). dbl (dsum (means (confidence n)) / 4)) (vertices g)
      in if length confidences = 0 then \<lparr> cs_mean = 0, cs_std = 0, cs_min = 0, cs_max = 0 \<rparr>
         else
           (let mean = dbl (dsum confidences / real (length confidences));
                variance = dbl (foldl (\<lambda>sum c. dbl (sum + dbl ((dbl (c - mean)) ^ 2))) 0 confidences
                                / real (length confidences))
            in \<lparr> cs_mean = mean, cs_std = dbl (sqrt variance),
                 cs_min = Min (set confidences), cs_max = Max (set confidences) \<rparr>))"

record impact_distribution =
  high_impact :: nat
  medium_impact :: nat
  low_impact :: nat
  average_impact :: jsnum

text \<open>
  \<^verbatim>\<open>_getImpactDistribution\<close>: \<^verbatim>\<open>impact_score || 0.5\<close> replaces a zero score, and
  the average divides the sum by the number of nodes.
\<close>

definition getImpactDistribution :: "graph \<Rightarrow> impact_distribution" where
  "getImpactDistribution g =
     (let impacts = map (\<lambda>(k, n). if md_impact_score (metadata n) = 0 then 0.5
                                   else md_impact_score (metadata n)) (vertices g)
      in \<lparr> high_impact = length (filter (\<lambda>i. i \<ge> dbl 0.7) impacts),
           medium_impact = length (filter (\<lambda>i. i \<ge> dbl 0.4 \<and> i < dbl 0.7) impacts),
           low_impact = length (filter (\<lambda>i. i < dbl 0.4) impacts),
           average_impact = js_div (dsum impacts) (real (length impacts)) \<rparr>)"

definition countBiasFlags :: "graph \<Rightarrow> nat" where
  "countBiasFlags g = sum_list (map (\<lambda>(k, n). length (md_bias_flags (metadata n))) (vertices g))"

text \<open>
  The object of \<^verbatim>\<open>getGraphSummary\<close>, without the topology metrics, the falsifiability
  coverage and the parameter lists. The method has no \<^verbatim>\<open>try\<close> and no failure
  object, and the object has no \<^verbatim>\<open>success\<close> key.
\<close>

record graph_summary =
  vertices_count :: nat
  edges_count :: nat
  hyperedges_count :: nat
  layers_count :: nat
  summary_node_types :: "string list"
  summary_current_stage :: nat
  summary_stage_name :: string
  layer_distribution :: "(string \<times> nat) list"
  summary_confidence_statistics :: confidence_statistics
  summary_impact_distribution :: impact_distribution
  bias_flags_count :: nat

definition getGraphSummary :: "graph \<Rightarrow> graph_summary" where
  "getGraphSummary g =
     \<lparr> vertices_count = length (vertices g),
       edges_count = length (edges g),
       hyperedges_count = length (hyperedges g),
       layers_count = length (layers g),
       summary_node_types = nodeTypes g,
       summary_current_stage = currentStage g,
       summary_stage_name =
         (if 1 \<le> currentStage g \<and> currentStage g \<le> length stageNames
          then stageNames ! (currentStage g - 1) else ''pre-initialization''),
       layer_distribution = map (\<lambda>(lid, l). (lid, length (layer_nodes l))) (layers g),
       summary_confidence_statistics = getConfidenceStatistics g,
       summary_impact_distribution = getImpactDistribution g,
       bias_flags_count = countBiasFlags g \<rparr>"

text \<open>
  \<^verbatim>\<open>_analyzeLayerConnectivity\<close> keeps its counters in an object literal with one key
  per layer, so \<^verbatim>\<open>connectivity[layer]\<close> is defined for the key of a layer and for
  the name of a member inherited from \<^verbatim>\<open>Object.prototype\<close>. For an edge between two
  stored nodes with non-empty layer ids it raises when the entry it increments is not
  defined: that of the common layer, read at \<^verbatim>\<open>internal_edges\<close>, or that of the
  source or of the target layer, read at \<^verbatim>\<open>external_edges\<close>. The layers of a graph
  built by the operations are the five default layers.
\<close>

definition has_connectivity :: "graph \<Rightarrow> string \<Rightarrow> bool" where
  "has_connectivity g l = (map_has (layers g) l \<or> l \<in> set object_prototype_keys)"

definition edge_connectivity_error :: "graph \<Rightarrow> edge \<Rightarrow> error option" where
  "edge_connectivity_error g e =
     (case (map_of (vertices g) (source e), map_of (vertices g) (target e)) of
        (Some s, Some t) \<Rightarrow>
          (let sourceLayer = md_layer_id (metadata s);
               targetLayer = md_layer_id (metadata t)
           in if sourceLayer \<noteq> [] \<and> targetLayer \<noteq> [] then
                (if sourceLayer = targetLayer then
                   (if has_connectivity g sourceLayer then None
                    else Some (TypeError
                           ''Cannot read properties of undefined (reading 'internal_edges')''))
                 else if has_connectivity g sourceLayer \<and> has_connectivity g targetLayer then None
                 else Some (TypeError
                        ''Cannot read properties of undefined (reading 'external_edges')''))
              else None)
      | _ \<Rightarrow> None)"

text \<open>The error of the first edge that raises, in the order of the edge map.\<close>

definition analyzeLayerConnectivity_error :: "graph \<Rightarrow> error option" where
  "analyzeLayerConnectivity_error g =
     (case List.map_filter (\<lambda>(k, e). edge_connectivity_error g e) (edges g) of
        [] \<Rightarrow> None
      | err # errs \<Rightarrow> Some err)"

definition analyzeLayerConnectivity_raises :: "graph \<Rightarrow> bool" where
  "analyzeLayerConnectivity_raises g = (analyzeLayerConnectivity_error g \<noteq> None)"

text \<open>
  What \<^verbatim>\<open>exportGraph\<close> returns is a string; the model keeps the format and the data
  the string is made from: the summary, the nodes and the edges.
\<close>

datatype export_document =
    JsonDocument graph_summary "node list" "edge list"
  | YamlDocument graph_summary

text \<open>
  \<^verbatim>\<open>exportGraph(format = 'json')\<close>. The method has no \<^verbatim>\<open>try\<close>: the export data is
  built first, then \<^verbatim>\<open>format.toLowerCase()\<close> raises on a value that is not a string,
  and the \<^verbatim>\<open>default\<close> case of the switch raises on any other format.
\<close>

definition exportGraph :: "graph \<Rightarrow> jsval \<Rightarrow> error + export_document" where
  "exportGraph g format =
     (let fmt = with_default format (JStr ''json'')
      in case analyzeLayerConnectivity_error g of
           Some e \<Rightarrow> Inl e
         | None \<Rightarrow>
           (case fmt of
              JStr f \<Rightarrow>
                if toLowerCase f = ''json'' then
                  Inr (JsonDocument (getGraphSummary g) (map snd (vertices g)) (map snd (edges g)))
                else if toLowerCase f = ''yaml'' then Inr (YamlDocument (getGraphSummary g))
                else Inl (Error (''Unsupported export format: '' @ f))
            | JNull \<Rightarrow> Inl (TypeError ''Cannot read properties of null (reading 'toLowerCase')'')
            | _ \<Rightarrow> Inl (TypeError ''format.toLowerCase is not a function'')))"

section \<open>Sequences of operations\<close>

text \<open>
  One call of one of the five operations on a graph instance, and the graph it leaves
  behind, whether the call returns or raises.
\<close>

datatype operation =
    OpInitialize jsval jsval jsval
  | OpDecompose "string list option"
  | OpGenerateHypotheses jsval jsval jsval
  | OpGetSummary
  | OpExportGraph jsval

fun step :: "graph \<Rightarrow> operation \<Rightarrow> graph" where
  "step g (OpInitialize taskDescription initialConfidence config) =
     fst (initialize g taskDescription initialConfidence config)"
| "step g (OpDecompose customDimensions) = fst (decomposeTask g customDimensions)"
| "step g (OpGenerateHypotheses dimensionNodeId hypotheses config) =
     fst (generateHypotheses g dimensionNodeId hypotheses config)"
| "step g OpGetSummary = g"
| "step g (OpExportGraph format) = g"

definition run :: "graph \<Rightarrow> operation list \<Rightarrow> graph" where
  "run g ops = foldl step g ops"

text \<open>
  The invariant of the vertex map that the operations keep: the keys are distinct, and a
  node is of kind \<open>root\<close> exactly when it is stored under the key \<open>n0\<close>.
\<close>

definition root_invariant :: "graph \<Rightarrow> bool" where
  "root_invariant g =
     (distinct (map fst (vertices g))
      \<and> (\<forall>(k, n) \<in> set (vertices g). node_type n = ''root'' \<longleftrightarrow> k = ''n0''))"

section \<open>Properties of the rounding\<close>

lemma pow2_pos: "0 < pow2 e"
  by (simp add: pow2_def)

lemma pow2_powr: "pow2 e = 2 powr (real_of_int e)"
  by (auto simp add: pow2_def powr_realpow [symmetric] powr_minus field_simps)

lemma pow2_add: "pow2 (a + b) = pow2 a * pow2 b"
  by (simp add: pow2_powr powr_add)

lemma pow2_mono: "a \<le> b \<Longrightarrow> pow2 a \<le> pow2 b"
  by (simp add: pow2_powr)

lemma pow2_le_iff: "pow2 a \<le> pow2 b \<longleftrightarrow> a \<le> b"
  by (simp add: pow2_powr)

text \<open>The exponent of the binade of a number that lies between two powers of 2.\<close>

lemma binade_eq:
  assumes "pow2 e \<le> x" and "x < pow2 (e + 1)" and "- 1022 \<le> e" and "e \<le> 1023"
  shows "binade x = e"
proof -
  let ?xs = "map (\<lambda>n. 1023 - int n) [0..<2046]"
  let ?i = "nat (1023 - e)"
  have i: "?i < length ?xs" using assms by simp
  have "?i < 2046" using assms by simp
  then have xi: "?xs ! ?i = e" using assms by simp
  have below: "\<not> pow2 (?xs ! j) \<le> x" if "j < ?i" for j
  proof -
    from that assms have "j < 2046" by simp
    then have "?xs ! j = 1023 - int j" by simp
    moreover from that have "e + 1 \<le> 1023 - int j" by simp
    then have "pow2 (e + 1) \<le> pow2 (1023 - int j)" by (rule pow2_mono)
    ultimately show ?thesis using assms(2) by simp
  qed
  have "find (\<lambda>e. pow2 e \<le> x) ?xs = Some e"
    unfolding find_Some_iff
  proof (intro exI [of _ ?i] conjI allI impI)
    show "?i < length ?xs" by (rule i)
    show "pow2 (?xs ! ?i) \<le> x" using xi assms(1) by simp
    show "e = ?xs ! ?i" using xi by simp
    fix j assume "j < ?i"
    then show "\<not> pow2 (?xs ! j) \<le> x" by (rule below)
  qed
  then show ?thesis by (simp add: binade_def)
qed

lemma binade_small:
  assumes "x < pow2 (- 1022)"
  shows "binade x = - 1022"
proof -
  let ?xs = "map (\<lambda>n. 1023 - int n) [0..<2046]"
  have "\<not> pow2 e \<le> x" if "e \<in> set ?xs" for e
  proof -
    from that have "- 1022 \<le> e" by auto
    then have "pow2 (- 1022) \<le> pow2 e" by (rule pow2_mono)
    with assms show ?thesis by simp
  qed
  then have "find (\<lambda>e. pow2 e \<le> x) ?xs = None" unfolding find_None_iff by blast
  then show ?thesis by (simp add: binade_def)
qed

lemma binade_cases: "binade x = - 1022 \<or> (- 1022 \<le> binade x \<and> binade x \<le> 1023 \<and> pow2 (binade x) \<le> x)"
proof (cases "find (\<lambda>e. pow2 e \<le> x) (map (\<lambda>n. 1023 - int n) [0..<2046])")
  case None
  then show ?thesis by (simp add: binade_def)
next
  case (Some e)
  then have b: "binade x = e" by (simp add: binade_def)
  from Some obtain i where i: "i < length (map (\<lambda>n. 1023 - int n) [0..<2046])"
    and p: "pow2 (map (\<lambda>n. 1023 - int n) [0..<2046] ! i) \<le> x"
    and e: "e = map (\<lambda>n. 1023 - int n) [0..<2046] ! i"
    unfolding find_Some_iff by blast
  from i have "i < 2046" by simp
  with e have "e = 1023 - int i" by simp
  with \<open>i < 2046\<close> have "- 1022 \<le> e" "e \<le> 1023" by simp_all
  with p e b show ?thesis by simp
qed

text \<open>
  How \<open>to_double\<close> rounds a number whose binade is known, and a number below the
  smallest normal double, where the spacing is \<open>2 ^ - 1074\<close>.
\<close>

lemma to_double_normal:
  assumes "pow2 e \<le> \<bar>x\<bar>" and "\<bar>x\<bar> < pow2 (e + 1)" and "- 1022 \<le> e" and "e \<le> 1023"
  shows "to_double x =
     (let m = of_int (round_half_even (\<bar>x\<bar> / pow2 (e - 52))) * pow2 (e - 52)
      in if pow2 1024 \<le> m then (if x < 0 then NegInf else PosInf)
         else Fin (if x < 0 then - m else m))"
  unfolding to_double_def Let_def binade_eq [OF assms] by (rule refl)

lemma round_half_even_le: "round_half_even q \<le> \<lfloor>q\<rfloor> + 1"
  by (simp add: round_half_even_def Let_def)

lemma round_half_even_ge: "\<lfloor>q\<rfloor> \<le> round_half_even q"
  by (simp add: round_half_even_def Let_def)

lemma round_half_even_int: "round_half_even (of_int n) = n"
  by (simp add: round_half_even_def Let_def)

lemma round_half_even_bound:
  assumes "q \<le> of_int n"
  shows "round_half_even q \<le> n"
proof (cases "\<lfloor>q\<rfloor> < n")
  case True
  with round_half_even_le [of q] show ?thesis by linarith
next
  case False
  from assms have "\<lfloor>q\<rfloor> \<le> n" by (simp add: floor_le_iff)
  with False have f: "\<lfloor>q\<rfloor> = n" by simp
  then have "of_int n \<le> q" by (metis of_int_floor_le)
  with assms have "q = of_int n" by simp
  then show ?thesis by (simp add: round_half_even_int)
qed

lemma to_double_subnormal:
  assumes "\<bar>x\<bar> < pow2 (- 1022)"
  shows "to_double x =
     (let m = of_int (round_half_even (\<bar>x\<bar> / pow2 (- 1074))) * pow2 (- 1074)
      in Fin (if x < 0 then - m else m))"
proof -
  define q where "q = \<bar>x\<bar> / pow2 (- 1074)"
  have "pow2 (- 1022) = pow2 52 * pow2 (- 1074)" using pow2_add [of 52 "- 1074"] by simp
  with assms have "\<bar>x\<bar> < pow2 52 * pow2 (- 1074)" by simp
  then have "q < pow2 52" using pow2_pos [of "- 1074"] by (simp add: q_def field_simps)
  then have "q \<le> of_int (2 ^ 52)" by (simp add: pow2_def)
  then have "round_half_even q \<le> 2 ^ 52" by (rule round_half_even_bound)
  then have "real_of_int (round_half_even q) \<le> real_of_int (2 ^ 52)" by (subst of_int_le_iff)
  then have "real_of_int (round_half_even q) * pow2 (- 1074) \<le> real_of_int (2 ^ 52) * pow2 (- 1074)"
    using pow2_pos [of "- 1074"] by simp
  also have "\<dots> < pow2 1024" by (simp add: pow2_def)
  finally have m: "\<not> pow2 1024 \<le> real_of_int (round_half_even q) * pow2 (- 1074)" by simp
  have b: "binade \<bar>x\<bar> - 52 = - 1074" using binade_small [OF assms] by simp
  show ?thesis unfolding to_double_def Let_def b using m by (simp add: q_def)
qed

lemma to_double_huge:
  assumes "pow2 1024 \<le> \<bar>x\<bar>"
  shows "to_double x = (if x < 0 then NegInf else PosInf)"
proof -
  define q where "q = \<bar>x\<bar> / pow2 971"
  have "pow2 1023 \<le> pow2 1024" by (rule pow2_mono) simp
  with assms have l: "pow2 1023 \<le> \<bar>x\<bar>" by simp
  have "find (\<lambda>e. pow2 e \<le> \<bar>x\<bar>) (map (\<lambda>n. 1023 - int n) [0..<2046]) = Some 1023"
    unfolding find_Some_iff using l by (intro exI [of _ 0]) simp
  then have b: "binade \<bar>x\<bar> - 52 = 971" by (simp add: binade_def)
  have "pow2 1024 = of_int (2 ^ 53) * pow2 971" using pow2_add [of 53 971] by (simp add: pow2_def)
  with assms have "of_int (2 ^ 53) * pow2 971 \<le> \<bar>x\<bar>" by simp
  then have "of_int (2 ^ 53) \<le> q" using pow2_pos [of 971] by (simp add: q_def field_simps)
  then have "2 ^ 53 \<le> \<lfloor>q\<rfloor>" by (subst le_floor_iff)
  with round_half_even_ge [of q] have "2 ^ 53 \<le> round_half_even q" by linarith
  then have "real_of_int (2 ^ 53) \<le> real_of_int (round_half_even q)" by (subst of_int_le_iff)
  then have "real_of_int (2 ^ 53) * pow2 971 \<le> real_of_int (round_half_even q) * pow2 971"
    using pow2_pos [of 971] by simp
  with \<open>pow2 1024 = of_int (2 ^ 53) * pow2 971\<close>
  have "pow2 1024 \<le> real_of_int (round_half_even q) * pow2 971" by simp
  then show ?thesis unfolding to_double_def Let_def b by (simp add: q_def)
qed

text \<open>
  The binade of a number below \<open>2 ^ 1024\<close>: the number lies under the next power of 2,
  and over the power of its binade unless it is below the smallest normal double.
\<close>

lemma binade_spec:
  assumes "x < pow2 1024"
  shows "- 1022 \<le> binade x \<and> binade x \<le> 1023 \<and> x < pow2 (binade x + 1)
         \<and> (pow2 (- 1022) \<le> x \<longrightarrow> pow2 (binade x) \<le> x)"
proof (cases "x < pow2 (- 1022)")
  case True
  then have b: "binade x = - 1022" by (rule binade_small)
  have "pow2 (- 1022) \<le> pow2 (- 1021)" by (rule pow2_mono) simp
  with True b show ?thesis by simp
next
  case False
  then have l: "pow2 (- 1022) \<le> x" by simp
  with pow2_pos [of "- 1022"] have pos: "0 < x" by linarith
  define e where "e = \<lfloor>log 2 x\<rfloor>"
  have "of_int e \<le> log 2 x" unfolding e_def by simp
  then have lo: "pow2 e \<le> x" using pos by (simp add: pow2_powr powr_le_iff)
  have "log 2 x < of_int (e + 1)" unfolding e_def by linarith
  then have hi: "x < pow2 (e + 1)" using pos by (simp add: pow2_powr less_powr_iff)
  from l hi have "pow2 (- 1022) < pow2 (e + 1)" by simp
  then have "\<not> pow2 (e + 1) \<le> pow2 (- 1022)" by simp
  then have e1: "- 1022 \<le> e" unfolding pow2_le_iff by simp
  from lo assms have "pow2 e < pow2 1024" by simp
  then have "\<not> pow2 1024 \<le> pow2 e" by simp
  then have e2: "e \<le> 1023" unfolding pow2_le_iff by simp
  from binade_eq [OF lo hi e1 e2] lo hi e1 e2 show ?thesis by simp
qed

text \<open>
  A finite result of \<open>to_double\<close> is a double: an integer multiple \<open>n\<close> of the spacing of
  a binade with \<open>n\<close> at most \<open>2 ^ 53\<close>, and rounding it again changes nothing. So a number
  that has been read once can be stored and read again.
\<close>

lemma pow2_shift: "pow2 b = of_int (2 ^ 52) * pow2 (b - 52)"
proof -
  have "pow2 52 = of_int (2 ^ 52)" by (simp add: pow2_def)
  moreover have "52 + (b - 52) = b" by simp
  ultimately show ?thesis using pow2_add [of 52 "b - 52"] by simp
qed

lemma pow2_shift': "pow2 (b + 1) = of_int (2 ^ 53) * pow2 (b - 52)"
proof -
  have "pow2 53 = of_int (2 ^ 53)" by (simp add: pow2_def)
  moreover have "53 + (b - 52) = b + 1" by simp
  ultimately show ?thesis using pow2_add [of 53 "b - 52"] by (simp add: add.commute)
qed

lemma to_double_grid:
  assumes n0: "0 \<le> n" and n1: "n \<le> 2 ^ 53"
    and b0: "- 1022 \<le> b" and b1: "b \<le> 1023"
    and nb: "b = - 1022 \<or> 2 ^ 52 \<le> n"
    and fin: "of_int n * pow2 (b - 52) < pow2 1024"
    and x: "x = of_int n * pow2 (b - 52) \<or> x = - (of_int n * pow2 (b - 52))"
  shows "to_double x = Fin x"
proof -
  define u where "u = pow2 (b - 52)"
  define m where "m = real_of_int n * u"
  have upos: "0 < u" unfolding u_def by (rule pow2_pos)
  have m0: "0 \<le> m" unfolding m_def using n0 upos by simp
  from x have ax: "\<bar>x\<bar> = m" using m0 by (auto simp add: m_def u_def)
  from x m0 have sgn: "(if x < 0 then - m else m) = x" by (auto simp add: m_def u_def)
  from fin have fin': "\<not> pow2 1024 \<le> m" by (simp add: m_def u_def)
  consider "n = 2 ^ 53" | "2 ^ 52 \<le> n" "n < 2 ^ 53" | "n < 2 ^ 52" "b = - 1022"
    using n1 nb by linarith
  then show ?thesis
  proof cases
    case 1
    then have m: "m = pow2 (b + 1)" by (simp add: m_def u_def pow2_shift' [of b])
    with fin' have "\<not> pow2 1024 \<le> pow2 (b + 1)" by simp
    then have b2: "b + 1 \<le> 1023" unfolding pow2_le_iff by simp
    have "pow2 (b + 1) < pow2 (b + 1 + 1)"
    proof -
      have "\<not> pow2 (b + 1 + 1) \<le> pow2 (b + 1)" unfolding pow2_le_iff by simp
      then show ?thesis by simp
    qed
    with m have hi: "\<bar>x\<bar> < pow2 (b + 1 + 1)" and lo: "pow2 (b + 1) \<le> \<bar>x\<bar>" using ax by simp_all
    have b3: "- 1022 \<le> b + 1" using b0 by simp
    have q: "\<bar>x\<bar> / pow2 (b + 1 - 52) = of_int (2 ^ 52)"
    proof -
      have "pow2 (b + 1) = of_int (2 ^ 52) * pow2 (b + 1 - 52)" by (rule pow2_shift)
      with ax m pow2_pos [of "b + 1 - 52"] show ?thesis by (simp add: field_simps)
    qed
    have bk: "real_of_int (2 ^ 52) * pow2 (b + 1 - 52) = m"
      using pow2_shift [of "b + 1"] m by simp
    show ?thesis
      unfolding to_double_normal [OF lo hi b3 b2] Let_def q round_half_even_int bk
      using fin' sgn by simp
  next
    case 2
    from 2(1) have "real_of_int (2 ^ 52) \<le> real_of_int n" by (subst of_int_le_iff)
    then have "real_of_int (2 ^ 52) * u \<le> m" unfolding m_def using upos by simp
    then have lo: "pow2 b \<le> \<bar>x\<bar>" using ax pow2_shift [of b] by (simp add: u_def)
    from 2(2) have "real_of_int n < real_of_int (2 ^ 53)" by (subst of_int_less_iff)
    then have "m < real_of_int (2 ^ 53) * u" unfolding m_def using upos by simp
    then have hi: "\<bar>x\<bar> < pow2 (b + 1)" using ax pow2_shift' [of b] by (simp add: u_def)
    have q: "\<bar>x\<bar> / pow2 (b - 52) = of_int n" using ax upos by (simp add: m_def u_def)
    have bk: "real_of_int n * pow2 (b - 52) = m" by (simp add: m_def u_def)
    show ?thesis
      unfolding to_double_normal [OF lo hi b0 b1] Let_def q round_half_even_int bk
      using fin' sgn by simp
  next
    case 3
    from 3(1) have "real_of_int n < real_of_int (2 ^ 52)" by (subst of_int_less_iff)
    then have "m < real_of_int (2 ^ 52) * u" unfolding m_def using upos by simp
    then have sm: "\<bar>x\<bar> < pow2 (- 1022)" using ax pow2_shift [of b] 3(2) by (simp add: u_def)
    have q: "\<bar>x\<bar> / pow2 (- 1074) = of_int n" using ax upos 3(2) by (simp add: m_def u_def)
    have bk: "real_of_int n * pow2 (- 1074) = m" using 3(2) by (simp add: m_def u_def)
    show ?thesis
      unfolding to_double_subnormal [OF sm] Let_def q round_half_even_int bk
      using sgn by simp
  qed
qed

lemma to_double_idem:
  assumes "to_double x = Fin r"
  shows "to_double r = Fin r"
proof -
  define a where "a = \<bar>x\<bar>"
  define b where "b = binade a"
  define u where "u = pow2 (b - 52)"
  define n where "n = round_half_even (a / u)"
  have upos: "0 < u" unfolding u_def by (rule pow2_pos)
  have small: "a < pow2 1024"
  proof (rule ccontr)
    assume "\<not> a < pow2 1024"
    then have "pow2 1024 \<le> \<bar>x\<bar>" by (simp add: a_def)
    from to_double_huge [OF this] assms show False by (simp split: if_splits)
  qed
  from assms have fin: "\<not> pow2 1024 \<le> of_int n * u"
    and r: "r = (if x < 0 then - (of_int n * u) else of_int n * u)"
    unfolding to_double_def Let_def n_def u_def b_def a_def by (simp_all split: if_splits)
  from binade_spec [OF small]
  have b0: "- 1022 \<le> b" and b1: "b \<le> 1023" and hi: "a < pow2 (b + 1)"
    and lo: "pow2 (- 1022) \<le> a \<longrightarrow> pow2 b \<le> a"
    unfolding b_def by simp_all
  have "0 \<le> a / u" using upos by (simp add: a_def)
  then have "0 \<le> \<lfloor>a / u\<rfloor>" by simp
  with round_half_even_ge [of "a / u"] have n0: "0 \<le> n" unfolding n_def by linarith
  from hi have "a < of_int (2 ^ 53) * u" using pow2_shift' [of b] by (simp add: u_def)
  then have "a / u \<le> of_int (2 ^ 53)" using upos by (simp add: field_simps)
  then have n1: "n \<le> 2 ^ 53" unfolding n_def by (rule round_half_even_bound)
  have nb: "b = - 1022 \<or> 2 ^ 52 \<le> n"
  proof (cases "pow2 (- 1022) \<le> a")
    case True
    with lo have "pow2 b \<le> a" by simp
    then have "of_int (2 ^ 52) * u \<le> a" using pow2_shift [of b] by (simp add: u_def)
    then have "of_int (2 ^ 52) \<le> a / u" using upos by (simp add: field_simps)
    then have "2 ^ 52 \<le> \<lfloor>a / u\<rfloor>" by (subst le_floor_iff)
    with round_half_even_ge [of "a / u"] show ?thesis unfolding n_def by linarith
  next
    case False
    then have "a < pow2 (- 1022)" by simp
    then show ?thesis unfolding b_def by (simp add: binade_small)
  qed
  from fin have fin': "of_int n * pow2 (b - 52) < pow2 1024" by (simp add: u_def)
  from r have x: "r = of_int n * pow2 (b - 52) \<or> r = - (of_int n * pow2 (b - 52))"
    by (simp add: u_def split: if_splits)
  from n0 n1 b0 b1 nb fin' x show ?thesis by (rule to_double_grid)
qed

text \<open>The result is nearest: it is off by at most half the spacing of the binade.\<close>

lemma to_double_error:
  assumes "to_double x = Fin r"
  shows "2 * \<bar>r - x\<bar> \<le> pow2 (binade \<bar>x\<bar> - 52)"
proof -
  define a where "a = \<bar>x\<bar>"
  define u where "u = pow2 (binade a - 52)"
  define q where "q = a / u"
  have upos: "0 < u" unfolding u_def by (rule pow2_pos)
  from assms have r: "r = (if x < 0 then - (of_int (round_half_even q) * u) else of_int (round_half_even q) * u)"
    unfolding to_double_def Let_def q_def u_def a_def by (simp split: if_splits)
  have au: "a = q * u" using upos by (simp add: q_def)
  have "\<bar>r - x\<bar> = \<bar>of_int (round_half_even q) * u - a\<bar>"
  proof (cases "x < 0")
    case True
    then have "r - x = - (of_int (round_half_even q) * u - a)" by (simp add: r a_def)
    then show ?thesis by (simp only: abs_minus)
  next
    case False
    then show ?thesis by (simp add: r a_def)
  qed
  also have "\<dots> = \<bar>(of_int (round_half_even q) - q) * u\<bar>"
    by (simp add: au algebra_simps)
  also have "\<dots> = \<bar>of_int (round_half_even q) - q\<bar> * u"
    using upos by (simp add: abs_mult)
  finally have e: "\<bar>r - x\<bar> = \<bar>of_int (round_half_even q) - q\<bar> * u" .
  have "2 * \<bar>of_int (round_half_even q) - q\<bar> \<le> 1"
    unfolding round_half_even_def Let_def by (auto simp add: abs_if) linarith+
  then have "2 * \<bar>of_int (round_half_even q) - q\<bar> * u \<le> 1 * u" using upos
    by (intro mult_right_mono) simp_all
  with e show ?thesis by (simp add: u_def a_def)
qed

text \<open>
  Rounding keeps a number of the unit interval in the unit interval, so a literal of the
  unit interval is read as a finite double of the unit interval.
\<close>

lemma to_double_unit:
  assumes "0 \<le> x" and "x \<le> 1"
  shows "to_double x = Fin (dbl x) \<and> 0 \<le> dbl x \<and> dbl x \<le> 1"
proof -
  define b where "b = binade x"
  define u where "u = pow2 (b - 52)"
  define n where "n = round_half_even (x / u)"
  have b0: "b \<le> 0" and b1: "- 1022 \<le> b"
  proof -
    from binade_cases [of x]
    consider "b = - 1022" | "- 1022 \<le> b" "pow2 b \<le> x" unfolding b_def by blast
    then show "b \<le> 0"
    proof cases
      case 1
      then show ?thesis by simp
    next
      case 2
      with assms(2) have "pow2 b \<le> pow2 0" by (simp add: pow2_def)
      then show ?thesis by (simp only: pow2_le_iff)
    qed
    from binade_cases [of x] show "- 1022 \<le> b" unfolding b_def by auto
  qed
  have upos: "0 < u" unfolding u_def by (rule pow2_pos)
  have inv: "u * of_int (2 ^ nat (52 - b)) = 1"
  proof -
    have "pow2 (52 - b) = of_int (2 ^ nat (52 - b))" using b0 by (simp add: pow2_def)
    moreover have "pow2 (b - 52) * pow2 (52 - b) = 1"
      using pow2_add [of "b - 52" "52 - b"] by (simp add: pow2_def)
    ultimately show ?thesis by (simp add: u_def)
  qed
  have "x / u = x * of_int (2 ^ nat (52 - b))"
    using inv upos by (simp add: field_simps)
  also have "\<dots> \<le> of_int (2 ^ nat (52 - b))" using assms(2) by (simp add: mult_left_le_one_le)
  finally have "n \<le> 2 ^ nat (52 - b)" unfolding n_def by (rule round_half_even_bound)
  then have "real_of_int n \<le> real_of_int (2 ^ nat (52 - b))" by (subst of_int_le_iff)
  then have "real_of_int n * u \<le> real_of_int (2 ^ nat (52 - b)) * u"
    using upos by simp
  with inv have le1: "real_of_int n * u \<le> 1" by (simp add: mult.commute)
  have "0 \<le> x / u" using assms(1) upos by simp
  then have "0 \<le> \<lfloor>x / u\<rfloor>" by simp
  with round_half_even_ge [of "x / u"] have "0 \<le> n" unfolding n_def by linarith
  then have ge0: "0 \<le> real_of_int n * u" using upos by simp
  have "(1::real) < pow2 1024" by (simp add: pow2_def)
  with le1 have fin: "\<not> pow2 1024 \<le> real_of_int n * u" by simp
  have ax: "\<bar>x\<bar> = x" using assms(1) by simp
  have "to_double x = Fin (real_of_int n * u)"
    unfolding to_double_def Let_def ax using fin assms(1)
    by (simp add: n_def u_def b_def)
  with le1 ge0 show ?thesis by (simp add: dbl_def)
qed

text \<open>The doubles that the code writes as they are, and the rounding of a few literals.\<close>

lemma to_double_exact [simp]:
  "to_double 0 = Fin 0"
  "to_double 1 = Fin 1"
  "to_double 2 = Fin 2"
  "to_double (1 / 2) = Fin (1 / 2)"
  "to_double (1 / 4) = Fin (1 / 4)"
  "to_double (3 / 4) = Fin (3 / 4)"
proof -
  show "to_double 0 = Fin 0"
    by (simp add: to_double_subnormal pow2_def round_half_even_def Let_def)
  show "to_double 1 = Fin 1"
    by (simp add: to_double_normal [where e = 0] pow2_def round_half_even_def Let_def)
  show "to_double 2 = Fin 2"
    by (simp add: to_double_normal [where e = 1] pow2_def round_half_even_def Let_def)
  show "to_double (1 / 2) = Fin (1 / 2)"
    by (simp add: to_double_normal [where e = "- 1"] pow2_def round_half_even_def Let_def)
  show "to_double (1 / 4) = Fin (1 / 4)"
    by (simp add: to_double_normal [where e = "- 2"] pow2_def round_half_even_def Let_def)
  show "to_double (3 / 4) = Fin (3 / 4)"
    by (simp add: to_double_normal [where e = "- 1"] pow2_def round_half_even_def Let_def)
qed

lemma dbl_exact [simp]:
  "dbl 0 = 0" "dbl 1 = 1" "dbl (1 / 2) = 1 / 2" "dbl (1 / 4) = 1 / 4"
  by (simp_all add: dbl_def)

lemma to_double_literals:
  "to_double (4 / 5) = Fin (7205759403792794 / 9007199254740992)"
  "to_double (1 / 10) = Fin (3602879701896397 / 36028797018963968)"
  "to_double (10000000000000001 / 10000000000000000) = Fin 1"
  "to_double (19999999999999999 / 10000000000000000) = Fin 2"
  "to_double (- (1 / 10 ^ 400)) = Fin 0"
  "to_double (5 / 10 ^ 324) = Fin (pow2 (- 1074))"
  "to_double (2 / 10 ^ 324) = Fin 0"
  "to_double (17976931348623158 * 10 ^ 292) = Fin (pow2 1024 - pow2 971)"
  "to_double (17976931348623159 * 10 ^ 292) = PosInf"
proof -
  show "to_double (4 / 5) = Fin (7205759403792794 / 9007199254740992)"
    by (simp add: to_double_normal [where e = "- 1"] pow2_def round_half_even_def Let_def)
  show "to_double (1 / 10) = Fin (3602879701896397 / 36028797018963968)"
    by (simp add: to_double_normal [where e = "- 4"] pow2_def round_half_even_def Let_def)
  show "to_double (10000000000000001 / 10000000000000000) = Fin 1"
    by (simp add: to_double_normal [where e = 0] pow2_def round_half_even_def Let_def)
  show "to_double (19999999999999999 / 10000000000000000) = Fin 2"
    by (simp add: to_double_normal [where e = 0] pow2_def round_half_even_def Let_def)
  show "to_double (- (1 / 10 ^ 400)) = Fin 0"
    by (simp add: to_double_subnormal pow2_def round_half_even_def Let_def)
  show "to_double (5 / 10 ^ 324) = Fin (pow2 (- 1074))"
    by (simp add: to_double_subnormal pow2_def round_half_even_def Let_def)
  show "to_double (2 / 10 ^ 324) = Fin 0"
    by (simp add: to_double_subnormal pow2_def round_half_even_def Let_def)
  show "to_double (17976931348623158 * 10 ^ 292) = Fin (pow2 1024 - pow2 971)"
    by (simp add: to_double_normal [where e = 1023] pow2_def round_half_even_def Let_def)
  show "to_double (17976931348623159 * 10 ^ 292) = PosInf"
    by (simp add: to_double_normal [where e = 1023] pow2_def round_half_even_def Let_def)
qed

text \<open>
  The product \<^verbatim>\<open>m * (1 - m)\<close> for the double of 0.8 is the double that the language
  prints as 0.15999999999999998, not the double of 0.16.
\<close>

lemma variance_of_literal:
  "dbl (dbl (4 / 5) * dbl (1 - dbl (4 / 5))) = dbl (15999999999999998 / 100000000000000000)"
  "dbl (dbl (4 / 5) * dbl (1 - dbl (4 / 5))) \<noteq> dbl (16 / 100)"
proof -
  have a: "dbl (4 / 5) = 7205759403792794 / 9007199254740992"
    by (simp add: dbl_def to_double_literals)
  have b: "to_double (1 - 7205759403792794 / 9007199254740992)
             = Fin (1 - 7205759403792794 / 9007199254740992)"
    by (simp add: to_double_normal [where e = "- 3"] pow2_def round_half_even_def Let_def)
  have c: "to_double (7205759403792794 / 9007199254740992 * (1 - 7205759403792794 / 9007199254740992))
             = Fin (2882303761517117 / 18014398509481984)"
    by (simp add: to_double_normal [where e = "- 3"] pow2_def round_half_even_def Let_def)
  have d: "to_double (15999999999999998 / 100000000000000000)
             = Fin (2882303761517117 / 18014398509481984)"
    by (simp add: to_double_normal [where e = "- 3"] pow2_def round_half_even_def Let_def)
  have e: "to_double (16 / 100) = Fin (5764607523034235 / 36028797018963968)"
    by (simp add: to_double_normal [where e = "- 3"] pow2_def round_half_even_def Let_def)
  from b have b': "dbl (1 - 7205759403792794 / 9007199254740992) = 1 - 7205759403792794 / 9007199254740992"
    by (simp add: dbl_def)
  have c': "dbl (7205759403792794 / 9007199254740992 * (1 - 7205759403792794 / 9007199254740992))
             = 2882303761517117 / 18014398509481984"
    unfolding dbl_def c by simp
  have d': "dbl (15999999999999998 / 100000000000000000) = 2882303761517117 / 18014398509481984"
    unfolding dbl_def d by simp
  have e': "dbl (16 / 100) = 5764607523034235 / 36028797018963968"
    unfolding dbl_def e by simp
  show "dbl (dbl (4 / 5) * dbl (1 - dbl (4 / 5))) = dbl (15999999999999998 / 100000000000000000)"
    unfolding a b' c' d' by (rule refl)
  show "dbl (dbl (4 / 5) * dbl (1 - dbl (4 / 5))) \<noteq> dbl (16 / 100)"
    unfolding a b' c' e' by simp
qed

section \<open>Examples of the number coercion\<close>

lemma digit_vals [simp]:
  "digit_val CHR ''0'' = 0" "digit_val CHR ''1'' = 1" "digit_val CHR ''2'' = 2"
  "digit_val CHR ''3'' = 3" "digit_val CHR ''4'' = 4" "digit_val CHR ''5'' = 5"
  "digit_val CHR ''6'' = 6" "digit_val CHR ''7'' = 7" "digit_val CHR ''8'' = 8"
  "digit_val CHR ''9'' = 9"
  by (simp_all add: digit_val_def)

lemmas string_to_number_defs =
  StringToNumber_def trim_def is_ws_def parse_radix_def parse_unsigned_decimal_def
  parse_exponent_def is_digit_def is_hex_digit_def hex_val_def digits_val_def Let_def

text \<open>
  A numeric string is rounded as the language rounds it: the first two strings below
  denote reals just above 1 and just below 2 and are read as 1 and 2, and the third one
  is read as zero.
\<close>

lemma StringToNumber_examples:
  "StringToNumber ''1.0000000000000001'' = Fin 1"
  "StringToNumber ''1.9999999999999999'' = Fin 2"
  "StringToNumber ''-1e-400'' = Fin 0"
  "StringToNumber '' 0.5 '' = Fin (1 / 2)"
  "StringToNumber ''0x10'' = Fin 16"
  "StringToNumber ''1e400'' = PosInf"
  "StringToNumber [] = Fin 0"
  "StringToNumber ''high'' = NaN"
  "StringToNumber ''1,5'' = NaN"
proof -
  show "StringToNumber ''1.0000000000000001'' = Fin 1"
    by (simp add: string_to_number_defs to_double_literals)
  show "StringToNumber ''1.9999999999999999'' = Fin 2"
    by (simp add: string_to_number_defs to_double_literals)
  show "StringToNumber ''-1e-400'' = Fin 0"
    by (simp add: string_to_number_defs to_double_subnormal pow2_def round_half_even_def)
  show "StringToNumber '' 0.5 '' = Fin (1 / 2)"
    by (simp add: string_to_number_defs)
  show "StringToNumber ''0x10'' = Fin 16"
    by (simp add: string_to_number_defs to_double_normal [where e = 4] pow2_def round_half_even_def)
  show "StringToNumber ''1e400'' = PosInf"
    by (simp add: string_to_number_defs to_double_huge pow2_def)
  show "StringToNumber [] = Fin 0"
    by (simp add: string_to_number_defs)
  show "StringToNumber ''high'' = NaN"
    by (simp add: string_to_number_defs)
  show "StringToNumber ''1,5'' = NaN"
    by (simp add: string_to_number_defs)
qed

lemma Number_js_number: "Number_js (JNum (Fin r)) = Inr (to_double r)"
  by (simp add: Number_js_def)

lemma Number_js_raises: "isl (Number_js v) \<longleftrightarrow> conversion_raises v"
  by (simp add: Number_js_def)

section \<open>Properties of the confidence wrapper\<close>

lemma valid_mean_unit: "valid_mean m = Inr r \<Longrightarrow> 0 \<le> r \<and> r \<le> 1"
  by (auto simp add: valid_mean_def split: sum.splits jsnum.splits if_splits)

lemma valid_mean_raises: "isl (valid_mean m) \<longleftrightarrow> conversion_raises m"
  by (simp add: valid_mean_def Number_js_def split: jsnum.splits)

lemma valid_mean_value:
  "\<not> conversion_raises m \<Longrightarrow>
   valid_mean m = Inr (case Number_js m of
                         Inr (Fin r) \<Rightarrow> if 0 \<le> r \<and> r \<le> 1 then r else 0.5
                       | _ \<Rightarrow> 0.5)"
  by (auto simp add: valid_mean_def Number_js_def split: jsnum.splits)

lemma valid_mean_literal: "0 \<le> x \<Longrightarrow> x \<le> 1 \<Longrightarrow> valid_mean (JNum (Fin x)) = Inr (dbl x)"
  using to_double_unit [of x] by (simp add: valid_mean_def Number_js_def)

lemma valid_mean_double:
  "0 \<le> r \<Longrightarrow> r \<le> 1 \<Longrightarrow> to_double r = Fin r \<Longrightarrow> valid_mean (JNum (Fin r)) = Inr r"
  by (simp add: valid_mean_def Number_js_def)

lemma map_result_Inr:
  "\<forall>x \<in> set xs. \<not> isl (f x) \<Longrightarrow> map_result f xs = Inr (map (\<lambda>x. projr (f x)) xs)"
proof (induction xs)
  case Nil
  then show ?case by simp
next
  case (Cons x xs)
  then have "\<not> isl (f x)" by simp
  then obtain y where "f x = Inr y" by (cases "f x") simp_all
  with Cons show ?case by simp
qed

lemma map_result_Inl:
  "\<exists>x \<in> set xs. f x = Inl e \<and> (\<forall>y \<in> set xs. isl (f y) \<longrightarrow> f y = Inl e)
   \<Longrightarrow> map_result f xs = Inl e"
proof (induction xs)
  case Nil
  then show ?case by simp
next
  case (Cons x xs)
  show ?case
  proof (cases "f x")
    case (Inl e')
    with Cons.prems have "e' = e" by auto
    with Inl show ?thesis by simp
  next
    case (Inr y)
    with Cons.prems have "\<exists>x \<in> set xs. f x = Inl e \<and> (\<forall>y \<in> set xs. isl (f y) \<longrightarrow> f y = Inl e)"
      by auto
    with Cons.IH Inr show ?thesis by simp
  qed
qed

lemma valid_means_raise:
  "list_ex conversion_raises xs \<Longrightarrow> map_result valid_mean xs = Inl cannot_convert"
proof (rule map_result_Inl)
  assume "list_ex conversion_raises xs"
  then obtain x where x: "x \<in> set xs" "conversion_raises x" by (auto simp add: list_ex_iff)
  have "valid_mean y = Inl cannot_convert" if "isl (valid_mean y)" for y
    using that by (simp add: valid_mean_def Number_js_def split: if_splits jsnum.splits)
  moreover from x have "valid_mean x = Inl cannot_convert"
    by (simp add: valid_mean_def Number_js_def)
  ultimately show "\<exists>x \<in> set xs. valid_mean x = Inl cannot_convert
         \<and> (\<forall>y \<in> set xs. isl (valid_mean y) \<longrightarrow> valid_mean y = Inl cannot_convert)"
    using x by blast
qed

lemma default_distribution_of: "distribution_of [1 / 2, 1 / 2, 1 / 2, 1 / 2] = default_distribution"
  by (simp add: distribution_of_def default_distribution_def)

lemma default_means:
  "map_result valid_mean [JNum (Fin (1 / 2)), JNum (Fin (1 / 2)), JNum (Fin (1 / 2)), JNum (Fin (1 / 2))]
     = Inr [1 / 2, 1 / 2, 1 / 2, 1 / 2]"
  by (simp add: valid_mean_def Number_js_def)

lemma distribution_array:
  "\<not> list_ex conversion_raises xs \<Longrightarrow>
   createProbabilityDistribution (JArr xs) = distribution_of (map (\<lambda>x. projr (valid_mean x)) xs)"
proof -
  assume "\<not> list_ex conversion_raises xs"
  then have "\<forall>x \<in> set xs. \<not> isl (valid_mean x)"
    by (simp add: list_ex_iff valid_mean_raises)
  then have "map_result valid_mean xs = Inr (map (\<lambda>x. projr (valid_mean x)) xs)"
    by (rule map_result_Inr)
  then show ?thesis
    by (simp add: createProbabilityDistribution_def createProbabilityDistribution_try_def)
qed

lemma distribution_raises:
  "list_ex conversion_raises xs \<Longrightarrow> createProbabilityDistribution (JArr xs) = default_distribution"
  using valid_means_raise [of xs]
  by (simp add: createProbabilityDistribution_def createProbabilityDistribution_try_def)

lemma distribution_not_array:
  "\<not> is_array v \<Longrightarrow> createProbabilityDistribution v = default_distribution"
proof -
  assume "\<not> is_array v"
  then show ?thesis
    by (cases v)
       (simp_all add: createProbabilityDistribution_def createProbabilityDistribution_try_def
          default_means default_distribution_of del: map_result.simps)
qed

lemma distribution_shape:
  "\<exists>ms. createProbabilityDistribution w = distribution_of ms \<and> (\<forall>m \<in> set ms. 0 \<le> m \<and> m \<le> 1)"
proof (cases "is_array w")
  case False
  then have "createProbabilityDistribution w = distribution_of [1 / 2, 1 / 2, 1 / 2, 1 / 2]"
    by (simp add: distribution_not_array default_distribution_of)
  then show ?thesis by (intro exI [of _ "[1 / 2, 1 / 2, 1 / 2, 1 / 2]"]) simp
next
  case True
  then obtain xs where w: "w = JArr xs" by (cases w) simp_all
  show ?thesis
  proof (cases "list_ex conversion_raises xs")
    case True
    with w have "createProbabilityDistribution w = distribution_of [1 / 2, 1 / 2, 1 / 2, 1 / 2]"
      by (simp add: distribution_raises default_distribution_of)
    then show ?thesis by (intro exI [of _ "[1 / 2, 1 / 2, 1 / 2, 1 / 2]"]) simp
  next
    case False
    have "0 \<le> projr (valid_mean x) \<and> projr (valid_mean x) \<le> 1" if "x \<in> set xs" for x
    proof -
      from that False have "\<not> isl (valid_mean x)" by (simp add: list_ex_iff valid_mean_raises)
      then obtain r where "valid_mean x = Inr r" by (cases "valid_mean x") simp_all
      with valid_mean_unit [of x r] show ?thesis by simp
    qed
    with w distribution_array [OF False] show ?thesis
      by (intro exI [of _ "map (\<lambda>x. projr (valid_mean x)) xs"]) simp
  qed
qed

text \<open>
  C8, as stated, fails: an entry that is not a number but coerces to one is not replaced
  by 0.5. \<^verbatim>\<open>Number(null)\<close> is 0, which passes the range test, so the mean of a
  \<open>null\<close> entry is 0.
\<close>

theorem createProbabilityDistribution_null_entry:
  "means (createProbabilityDistribution (JArr [JNull, JNum (Fin 0.5), JNum (Fin 0.5), JNum (Fin 0.5)]))
     = [0, 0.5, 0.5, 0.5]"
  by (simp add: distribution_array distribution_of_def valid_mean_def Number_js_def)

text \<open>
  C8, amended: \<^verbatim>\<open>_createProbabilityDistribution\<close> returns a distribution for every
  argument. For an array none of whose entries raises when it is converted, there is one
  mean per entry: the number the entry coerces to when that number lies in the unit
  interval, and 0.5 when the coercion is NaN or lies outside it; so an array of doubles
  of the unit interval is returned as the means unchanged. When the conversion of an
  entry raises, and for an argument that is not an array, the means are four times 0.5.
  In every case each mean lies in the unit interval, and there is one variance per mean,
  the product \<open>mean * (1 - mean)\<close> in the arithmetic of doubles.
\<close>

theorem createProbabilityDistribution_coerces:
  "(\<not> list_ex conversion_raises xs \<longrightarrow>
      length (means (createProbabilityDistribution (JArr xs))) = length xs
      \<and> (\<forall>i < length xs. means (createProbabilityDistribution (JArr xs)) ! i =
            (case Number_js (xs ! i) of
               Inr (Fin r) \<Rightarrow> if 0 \<le> r \<and> r \<le> 1 then r else 0.5
             | _ \<Rightarrow> 0.5)))
   \<and> (list_ex conversion_raises xs \<longrightarrow>
        means (createProbabilityDistribution (JArr xs)) = [0.5, 0.5, 0.5, 0.5])
   \<and> ((\<forall>x \<in> set xs. case x of JNum (Fin r) \<Rightarrow> 0 \<le> r \<and> r \<le> 1 \<and> to_double r = Fin r | _ \<Rightarrow> False) \<longrightarrow>
         map (\<lambda>r. JNum (Fin r)) (means (createProbabilityDistribution (JArr xs))) = xs)
   \<and> (\<not> is_array v \<longrightarrow> means (createProbabilityDistribution v) = [0.5, 0.5, 0.5, 0.5])
   \<and> (\<forall>m \<in> set (means (createProbabilityDistribution w)). 0 \<le> m \<and> m \<le> 1)
   \<and> length (variances (createProbabilityDistribution w))
       = length (means (createProbabilityDistribution w))
   \<and> (\<forall>i < length (means (createProbabilityDistribution w)).
         variances (createProbabilityDistribution w) ! i =
           dbl (means (createProbabilityDistribution w) ! i
                * dbl (1 - means (createProbabilityDistribution w) ! i)))"
proof (intro conjI allI impI ballI)
  assume nr: "\<not> list_ex conversion_raises xs"
  show "length (means (createProbabilityDistribution (JArr xs))) = length xs"
    by (simp add: distribution_array [OF nr] distribution_of_def)
  fix i assume i: "i < length xs"
  with nr have "\<not> conversion_raises (xs ! i)" by (simp add: list_ex_iff)
  from valid_mean_value [OF this] i
  show "means (createProbabilityDistribution (JArr xs)) ! i =
            (case Number_js (xs ! i) of
               Inr (Fin r) \<Rightarrow> if 0 \<le> r \<and> r \<le> 1 then r else 0.5
             | _ \<Rightarrow> 0.5)"
    by (simp add: distribution_array [OF nr] distribution_of_def)
next
  assume "list_ex conversion_raises xs"
  then show "means (createProbabilityDistribution (JArr xs)) = [0.5, 0.5, 0.5, 0.5]"
    by (simp add: distribution_raises default_distribution_def)
next
  assume a: "\<forall>x \<in> set xs. case x of JNum (Fin r) \<Rightarrow> 0 \<le> r \<and> r \<le> 1 \<and> to_double r = Fin r | _ \<Rightarrow> False"
  have num: "\<exists>r. x = JNum (Fin r) \<and> 0 \<le> r \<and> r \<le> 1 \<and> to_double r = Fin r" if "x \<in> set xs" for x
  proof -
    from a that
    have c: "case x of JNum (Fin r) \<Rightarrow> 0 \<le> r \<and> r \<le> 1 \<and> to_double r = Fin r | _ \<Rightarrow> False"
      by blast
    show ?thesis
    proof (cases x)
      case (JNum n)
      with c show ?thesis by (cases n) simp_all
    qed (use c in simp_all)
  qed
  then have nr: "\<not> list_ex conversion_raises xs" by (fastforce simp add: list_ex_iff)
  have "map (\<lambda>r. JNum (Fin r)) (map (\<lambda>x. projr (valid_mean x)) xs) = xs"
  proof (rule nth_equalityI)
    show "length (map (\<lambda>r. JNum (Fin r)) (map (\<lambda>x. projr (valid_mean x)) xs)) = length xs" by simp
  next
    fix i assume "i < length (map (\<lambda>r. JNum (Fin r)) (map (\<lambda>x. projr (valid_mean x)) xs))"
    then have i: "i < length xs" by simp
    then have "xs ! i \<in> set xs" by simp
    from num [OF this] obtain r where "xs ! i = JNum (Fin r)" "0 \<le> r" "r \<le> 1" "to_double r = Fin r"
      by blast
    with i show "map (\<lambda>r. JNum (Fin r)) (map (\<lambda>x. projr (valid_mean x)) xs) ! i = xs ! i"
      by (simp add: valid_mean_double)
  qed
  then show "map (\<lambda>r. JNum (Fin r)) (means (createProbabilityDistribution (JArr xs))) = xs"
    by (simp add: distribution_array [OF nr] distribution_of_def)
next
  assume "\<not> is_array v"
  then show "means (createProbabilityDistribution v) = [0.5, 0.5, 0.5, 0.5]"
    by (simp add: distribution_not_array default_distribution_def)
next
  fix m assume "m \<in> set (means (createProbabilityDistribution w))"
  with distribution_shape [of w] show "0 \<le> m" "m \<le> 1"
    by (auto simp add: distribution_of_def)
next
  from distribution_shape [of w]
  show "length (variances (createProbabilityDistribution w))
          = length (means (createProbabilityDistribution w))"
    by (auto simp add: distribution_of_def)
next
  fix i assume "i < length (means (createProbabilityDistribution w))"
  with distribution_shape [of w]
  show "variances (createProbabilityDistribution w) ! i =
           dbl (means (createProbabilityDistribution w) ! i
                * dbl (1 - means (createProbabilityDistribution w) ! i))"
    by (auto simp add: distribution_of_def)
qed

theorem createProbabilityDistribution_coerces_witness:
  "means (createProbabilityDistribution
            (JArr [JStr ''1.0000000000000001'', JStr ''high'', JNull, JStr ''-1e-400'']))
     = [1, 0.5, 0, 0]
   \<and> means (createProbabilityDistribution (JArr [JNum (Fin 0.5), JObj [(''toString'', JNull)]]))
       = [0.5, 0.5, 0.5, 0.5]
   \<and> map (\<lambda>r. JNum (Fin r))
       (means (createProbabilityDistribution
          (JArr [JNum (Fin 0.5), JNum (Fin 0.25), JNum (Fin 1), JNum (Fin 0)])))
       = [JNum (Fin 0.5), JNum (Fin 0.25), JNum (Fin 1), JNum (Fin 0)]
   \<and> means (createProbabilityDistribution (JStr ''high'')) = [0.5, 0.5, 0.5, 0.5]
   \<and> means (createProbabilityDistribution (JArr [JNum (Fin 0.8)])) = [dbl 0.8]
   \<and> variances (createProbabilityDistribution (JArr [JNum (Fin 0.8)]))
       = [dbl 0.15999999999999998]"
proof -
  let ?xs = "[JStr ''1.0000000000000001'', JStr ''high'', JNull, JStr ''-1e-400'']"
  let ?ys = "[JNum (Fin 0.5), JObj [(''toString'', JNull)]]"
  let ?zs = "[JNum (Fin 0.5), JNum (Fin 0.25), JNum (Fin 1), JNum (Fin 0)]"
  let ?w = "JArr [JNum (Fin 0.8)]"
  have n: "Number_js (JStr ''1.0000000000000001'') = Inr (Fin 1)"
          "Number_js (JStr ''high'') = Inr NaN"
          "Number_js JNull = Inr (Fin 0)"
          "Number_js (JStr ''-1e-400'') = Inr (Fin 0)"
    by (simp_all add: Number_js_def StringToNumber_examples)
  have a: "means (createProbabilityDistribution (JArr ?xs)) = [1, 0.5, 0, 0]"
  proof (rule nth_equalityI)
    from createProbabilityDistribution_coerces [of ?xs]
    show "length (means (createProbabilityDistribution (JArr ?xs))) = length [1, 0.5, 0, 0 :: real]"
      by simp
  next
    fix i assume "i < length (means (createProbabilityDistribution (JArr ?xs)))"
    with createProbabilityDistribution_coerces [of ?xs]
    have i: "i < 4"
      and m: "means (createProbabilityDistribution (JArr ?xs)) ! i =
            (case Number_js (?xs ! i) of
               Inr (Fin r) \<Rightarrow> if 0 \<le> r \<and> r \<le> 1 then r else 0.5
             | _ \<Rightarrow> 0.5)"
      by simp_all
    from i consider "i = 0" | "i = 1" | "i = 2" | "i = 3" by linarith
    then show "means (createProbabilityDistribution (JArr ?xs)) ! i = [1, 0.5, 0, 0] ! i"
      using m n by cases simp_all
  qed
  from createProbabilityDistribution_coerces [of ?ys]
  have b: "means (createProbabilityDistribution (JArr ?ys)) = [0.5, 0.5, 0.5, 0.5]"
    by simp
  from createProbabilityDistribution_coerces [of ?zs]
  have c: "map (\<lambda>r. JNum (Fin r)) (means (createProbabilityDistribution (JArr ?zs))) = ?zs"
    by simp
  from createProbabilityDistribution_coerces [of _ "JStr ''high''"]
  have d: "means (createProbabilityDistribution (JStr ''high'')) = [0.5, 0.5, 0.5, 0.5]"
    by simp
  have e: "means (createProbabilityDistribution ?w) = [dbl 0.8]"
  proof (rule nth_equalityI)
    from createProbabilityDistribution_coerces [of "[JNum (Fin 0.8)]"]
    show "length (means (createProbabilityDistribution ?w)) = length [dbl 0.8]" by simp
  next
    fix i assume "i < length (means (createProbabilityDistribution ?w))"
    with createProbabilityDistribution_coerces [of "[JNum (Fin 0.8)]"]
    have "i = 0"
      and "means (createProbabilityDistribution ?w) ! i =
            (case Number_js ([JNum (Fin 0.8)] ! i) of
               Inr (Fin r) \<Rightarrow> if 0 \<le> r \<and> r \<le> 1 then r else 0.5
             | _ \<Rightarrow> 0.5)"
      by simp_all
    with to_double_unit [of "4 / 5"]
    show "means (createProbabilityDistribution ?w) ! i = [dbl 0.8] ! i"
      by (simp add: Number_js_def)
  qed
  have f: "variances (createProbabilityDistribution ?w) = [dbl 0.15999999999999998]"
  proof (rule nth_equalityI)
    from createProbabilityDistribution_coerces [of _ _ ?w] e
    show "length (variances (createProbabilityDistribution ?w)) = length [dbl 0.15999999999999998]"
      by simp
  next
    fix i assume "i < length (variances (createProbabilityDistribution ?w))"
    with createProbabilityDistribution_coerces [of _ _ ?w] e
    have "i = 0"
      and "variances (createProbabilityDistribution ?w) ! i =
           dbl (means (createProbabilityDistribution ?w) ! i
                * dbl (1 - means (createProbabilityDistribution ?w) ! i))"
      by simp_all
    with e variance_of_literal(1)
    show "variances (createProbabilityDistribution ?w) ! i = [dbl 0.15999999999999998] ! i"
      by simp
  qed
  from a b c d e f show ?thesis by blast
qed

section \<open>Properties of initialize\<close>

lemma map_of_map_set [simp]:
  "map_of (map_set k v m) k' = (if k' = k then Some v else map_of m k')"
  by (induction m) auto

lemma currentStage_reset [simp]: "currentStage (resetToInitialState g) = 0"
  by (simp add: resetToInitialState_def Let_def initializeLayerStructure_def)

lemma vertices_reset [simp]: "vertices (resetToInitialState g) = []"
  by (simp add: resetToInitialState_def Let_def initializeLayerStructure_def)

lemma edges_reset [simp]: "edges (resetToInitialState g) = []"
  by (simp add: resetToInitialState_def Let_def initializeLayerStructure_def)

lemma new_graph_stage: "currentStage (new_graph b) = 0"
  by (simp add: new_graph_def initializeLayerStructure_def Let_def)

lemma initialize_wrong_stage:
  "currentStage g \<noteq> 0 \<Longrightarrow>
   initialize g td ic cfg =
     (resetToInitialState g,
      InitFailure (Error (''Cannot initialize. Current stage: '' @ show_nat (currentStage g)
                          @ '', expected: 0 (before initialization)'')) 0)"
  by (simp add: initialize_def initialize_try_def Let_def)

lemma validateTaskDescription_accepts:
  "(\<exists>d. validateTaskDescription td = Inr d) \<longleftrightarrow>
   (case td of JStr s \<Rightarrow> 10 \<le> length (trim s) \<and> length (trim s) \<le> 1000 | _ \<Rightarrow> False)"
  by (auto simp add: validateTaskDescription_def Let_def split: jsval.splits)

lemma validateTaskDescription_value:
  "validateTaskDescription td = Inr d \<Longrightarrow> \<exists>s. td = JStr s \<and> d = trim s"
  by (auto simp add: validateTaskDescription_def Let_def split: jsval.splits if_splits)

lemma validateTaskDescription_error:
  "validateTaskDescription td = Inl e \<Longrightarrow>
   \<exists>expected received. e = InvalidParams ''task_description'' expected received"
  by (auto simp add: validateTaskDescription_def Let_def split: jsval.splits if_splits)

lemma validate_confidence_literals:
  "\<forall>x \<in> set xs. 0 \<le> x \<and> x \<le> 1 \<Longrightarrow>
   validate_confidence_entries p i (map (\<lambda>x. JNum (Fin x)) xs) = Inr (map dbl xs)"
proof (induction xs arbitrary: i)
  case Nil
  then show ?case by simp
next
  case (Cons x xs)
  then have "to_double x = Fin (dbl x)" "0 \<le> dbl x" "dbl x \<le> 1"
    using to_double_unit [of x] by simp_all
  with Cons show ?case by (simp add: Number_js_def Let_def)
qed

lemma default_confidence_valid:
  "validateConfidenceArray
     (with_default JUndefined (JArr [JNum (Fin 0.8), JNum (Fin 0.8), JNum (Fin 0.8), JNum (Fin 0.8)]))
     ''initial_confidence'' = Inr [dbl 0.8, dbl 0.8, dbl 0.8, dbl 0.8]"
  using validate_confidence_literals [of "[0.8, 0.8, 0.8, 0.8]" "''initial_confidence''" 0]
  by (simp add: with_default_def validateConfidenceArray_def)

lemma default_config_valid:
  "validateConfig (with_default JUndefined (JObj [])) = Inr empty_config"
  by (simp add: with_default_def validateConfig_def validateConfig_try_def Let_def
        clean_optional_def empty_config_def)

text \<open>
  C9: at cursor 0 and with a confidence vector and a configuration that pass their own
  validation, \<^verbatim>\<open>initialize\<close> succeeds exactly when the task description is a string
  whose trimmed length is between 10 and 1000. On success the root node \<open>n0\<close> holds the
  trimmed string as its content and the cursor is 1; otherwise the result is the failure
  object with an invalid-parameter error for the field \<open>task_description\<close>.
\<close>

theorem initialize_task_description:
  assumes "currentStage g = 0"
    and "validateConfidenceArray
           (with_default ic (JArr [JNum (Fin 0.8), JNum (Fin 0.8), JNum (Fin 0.8), JNum (Fin 0.8)]))
           ''initial_confidence'' = Inr vc"
    and "validateConfig (with_default cfg (JObj [])) = Inr sc"
  shows "(init_success (snd (initialize g td ic cfg)) \<longleftrightarrow>
            (case td of JStr s \<Rightarrow> 10 \<le> length (trim s) \<and> length (trim s) \<le> 1000 | _ \<Rightarrow> False))
       \<and> (init_success (snd (initialize g td ic cfg)) \<longrightarrow>
            currentStage (fst (initialize g td ic cfg)) = 1
            \<and> (\<exists>n s. td = JStr s
                     \<and> map_of (vertices (fst (initialize g td ic cfg))) ''n0'' = Some n
                     \<and> node_type n = ''root'' \<and> content n = trim s))
       \<and> (\<not> init_success (snd (initialize g td ic cfg)) \<longrightarrow>
            (\<exists>expected received.
               snd (initialize g td ic cfg)
                 = InitFailure (InvalidParams ''task_description'' expected received) 0))"
proof (cases "validateTaskDescription td")
  case (Inl e)
  then have no: "\<not> (case td of JStr s \<Rightarrow> 10 \<le> length (trim s) \<and> length (trim s) \<le> 1000 | _ \<Rightarrow> False)"
    using validateTaskDescription_accepts [of td] by simp
  from Inl obtain expected received where e: "e = InvalidParams ''task_description'' expected received"
    using validateTaskDescription_error by blast
  from Inl assms(1) have r: "snd (initialize g td ic cfg) = InitFailure e 0"
    by (simp add: initialize_def initialize_try_def Let_def)
  from r e no show ?thesis by simp
next
  case (Inr d)
  then have yes: "case td of JStr s \<Rightarrow> 10 \<le> length (trim s) \<and> length (trim s) \<le> 1000 | _ \<Rightarrow> False"
    using validateTaskDescription_accepts [of td] by auto
  from Inr obtain s where s: "td = JStr s" "d = trim s"
    using validateTaskDescription_value by blast
  from Inr assms have ok: "init_success (snd (initialize g td ic cfg))"
    by (simp add: initialize_def initialize_try_def Let_def)
  from Inr assms have st: "currentStage (fst (initialize g td ic cfg)) = 1"
    by (simp add: initialize_def initialize_try_def Let_def)
  from Inr assms have "\<exists>n. map_of (vertices (fst (initialize g td ic cfg))) ''n0'' = Some n
                   \<and> node_type n = ''root'' \<and> content n = d"
    by (simp add: initialize_def initialize_try_def Let_def initializeLayerStructure_def rootNode_def)
  with s have root: "\<exists>n s. td = JStr s
                     \<and> map_of (vertices (fst (initialize g td ic cfg))) ''n0'' = Some n
                     \<and> node_type n = ''root'' \<and> content n = trim s"
    by simp
  from ok st root yes show ?thesis by blast
qed

theorem initialize_task_description_witness:
  "init_success (snd (initialize (new_graph True) (JStr ''Skin flora'') JUndefined JUndefined))
   \<and> (\<exists>n. map_of (vertices (fst (initialize (new_graph True) (JStr ''Skin flora'') JUndefined JUndefined))) ''n0'' = Some n
          \<and> content n = ''Skin flora'')
   \<and> \<not> init_success (snd (initialize (new_graph True) (JStr ''Skin flor'') JUndefined JUndefined))
   \<and> (\<exists>expected received.
         snd (initialize (new_graph True) (JStr ''Skin flor'') JUndefined JUndefined)
           = InitFailure (InvalidParams ''task_description'' expected received) 0)"
proof -
  have st: "currentStage (new_graph True) = 0" by (rule new_graph_stage)
  note c = default_confidence_valid
  note f = default_config_valid
  have t10: "trim ''Skin flora'' = ''Skin flora''" by (simp add: trim_def is_ws_def)
  have t9: "trim ''Skin flor'' = ''Skin flor''" by (simp add: trim_def is_ws_def)
  from initialize_task_description [OF st c f, of "JStr ''Skin flora''"] t10
  have a: "init_success (snd (initialize (new_graph True) (JStr ''Skin flora'') JUndefined JUndefined))
   \<and> (\<exists>n. map_of (vertices (fst (initialize (new_graph True) (JStr ''Skin flora'') JUndefined JUndefined))) ''n0'' = Some n
          \<and> content n = ''Skin flora'')"
    by auto
  from initialize_task_description [OF st c f, of "JStr ''Skin flor''"] t9
  have b: "\<not> init_success (snd (initialize (new_graph True) (JStr ''Skin flor'') JUndefined JUndefined))
   \<and> (\<exists>expected received.
         snd (initialize (new_graph True) (JStr ''Skin flor'') JUndefined JUndefined)
           = InitFailure (InvalidParams ''task_description'' expected received) 0)"
    by auto
  from a b show ?thesis by blast
qed

section \<open>Maps, layers and node ids\<close>

lemma map_has_map_set [simp]: "map_has (map_set k v m) k' = (k' = k \<or> map_has m k')"
  by (simp add: map_has_def)

lemma map_fst_map_set: "set (map fst (map_set k v m)) = insert k (set (map fst m))"
  by (induction m) auto

lemma fst_set_map_set: "fst ` set (map_set k v m) = insert k (fst ` set m)"
  using map_fst_map_set [of k v m] by simp

lemma distinct_map_set: "distinct (map fst m) \<Longrightarrow> distinct (map fst (map_set k v m))"
proof (induction m)
  case Nil
  then show ?case by simp
next
  case (Cons kv m)
  show ?case
  proof (cases "fst kv = k")
    case True
    with Cons.prems show ?thesis by simp
  next
    case False
    from Cons have "distinct (map fst (map_set k v m))" by simp
    moreover from Cons.prems False have "fst kv \<notin> fst ` set (map_set k v m)"
      by (simp add: fst_set_map_set)
    ultimately show ?thesis using False by simp
  qed
qed

lemma length_map_set: "length (map_set k v m) = (if map_has m k then length m else Suc (length m))"
  by (induction m) (auto simp add: map_has_def)

lemma map_fst_layer_add_node [simp]: "map fst (layer_add_node l n ls) = map fst ls"
  by (induction ls) (auto simp add: layer_add_node_def)

lemma map_fst_clear_layers [simp]: "map fst (clear_layers ls) = map fst ls"
  by (induction ls) (auto simp add: clear_layers_def)

lemma map_has_keys: "map_has m k = (k \<in> set (map fst m))"
  by (induction m) (auto simp add: map_has_def)

lemma map_has_layer_add_node [simp]: "map_has (layer_add_node l n ls) k = map_has ls k"
  by (simp add: map_has_keys)

lemma map_has_clear_layers [simp]: "map_has (clear_layers ls) k = map_has ls k"
  by (simp add: map_has_keys)

lemma base_initializeLayerStructure [simp]: "map_has (layers (initializeLayerStructure g)) ''base''"
  by (simp add: initializeLayerStructure_def defaultLayers_def)

lemma digit_val_digit_char: "d < 10 \<Longrightarrow> digit_val (digit_char d) = d"
proof -
  assume "d < 10"
  then have "d \<in> {0,1,2,3,4,5,6,7,8,9}" by auto
  then show ?thesis by (auto simp add: digit_val_def digit_char_def)
qed

lemma digits_val_snoc: "digits_val b dv (ds @ [c]) = digits_val b dv ds * b + dv c"
  by (simp add: digits_val_def)

lemma digits_val_show_nat: "digits_val 10 digit_val (show_nat n) = n"
proof (induction n rule: show_nat.induct)
  case (1 n)
  show ?case
  proof (cases "n < 10")
    case True
    then show ?thesis by (simp add: show_nat.simps [of n] digits_val_def digit_val_digit_char)
  next
    case False
    with 1 have "digits_val 10 digit_val (show_nat (n div 10)) = n div 10" by simp
    with False show ?thesis
      by (simp add: show_nat.simps [of n] digits_val_snoc digit_val_digit_char)
  qed
qed

lemma show_nat_inj: "show_nat a = show_nat b \<Longrightarrow> a = b"
  by (metis digits_val_show_nat)

section \<open>The results of initialize\<close>

lemma initializeLayerStructure_fields [simp]:
  "vertices (initializeLayerStructure g) = vertices g"
  "edges (initializeLayerStructure g) = edges g"
  "hyperedges (initializeLayerStructure g) = hyperedges g"
  "nodeTypes (initializeLayerStructure g) = nodeTypes g"
  "currentStage (initializeLayerStructure g) = currentStage g"
  by (simp_all add: initializeLayerStructure_def)

lemma initialize_success:
  assumes "currentStage g = 0"
    and "validateTaskDescription td = Inr d"
    and "validateConfidenceArray
           (with_default ic (JArr [JNum (Fin 0.8), JNum (Fin 0.8), JNum (Fin 0.8), JNum (Fin 0.8)]))
           ''initial_confidence'' = Inr vc"
    and "validateConfig (with_default cfg (JObj [])) = Inr sc"
  shows "vertices (fst (initialize g td ic cfg)) = [(''n0'', rootNode d vc sc)]"
    and "currentStage (fst (initialize g td ic cfg)) = 1"
    and "map_has (layers (fst (initialize g td ic cfg))) ''base''"
    and "edges (fst (initialize g td ic cfg)) = (if vertices g = [] then edges g else [])"
    and "\<exists>ws. snd (initialize g td ic cfg) = InitSuccess ''n0'' 1 ''initialization'' active_parameters ws"
  using assms
  by (auto simp add: initialize_def initialize_try_def Let_def stageNames_def)

lemma initialize_try_Inr:
  "initialize_try g td ic cfg = (g', Inr r) \<Longrightarrow> init_success r"
  by (auto simp add: initialize_try_def Let_def split: if_splits sum.splits)

lemma initialize_failed:
  assumes "\<not> init_success (snd (initialize g td ic cfg))"
  shows "(\<exists>e. snd (initialize g td ic cfg) = InitFailure e 0)
       \<and> vertices (fst (initialize g td ic cfg)) = []
       \<and> edges (fst (initialize g td ic cfg)) = []
       \<and> currentStage (fst (initialize g td ic cfg)) = 0"
proof (cases "initialize_try g td
                (with_default ic (JArr [JNum (Fin 0.8), JNum (Fin 0.8), JNum (Fin 0.8), JNum (Fin 0.8)]))
                (with_default cfg (JObj []))")
  case (Pair g' r)
  show ?thesis
  proof (cases r)
    case (Inl e)
    with Pair show ?thesis by (simp add: initialize_def Let_def)
  next
    case (Inr x)
    with Pair have "init_success x" using initialize_try_Inr by blast
    moreover from Pair Inr have "snd (initialize g td ic cfg) = x" by (simp add: initialize_def Let_def)
    ultimately show ?thesis using assms by simp
  qed
qed

lemma initialize_result_shape:
  "(\<exists>ws. snd (initialize g td ic cfg) = InitSuccess ''n0'' 1 ''initialization'' active_parameters ws
          \<and> currentStage (fst (initialize g td ic cfg)) = 1)
   \<or> (\<exists>e. snd (initialize g td ic cfg) = InitFailure e 0
          \<and> currentStage (fst (initialize g td ic cfg)) = 0)"
  by (auto simp add: initialize_def initialize_try_def Let_def stageNames_def split: sum.splits)

lemma initialize_success_iff:
  "init_success (snd (initialize g td ic cfg)) \<longleftrightarrow>
     currentStage g = 0
     \<and> (\<exists>d. validateTaskDescription td = Inr d)
     \<and> (\<exists>vc. validateConfidenceArray
           (with_default ic (JArr [JNum (Fin 0.8), JNum (Fin 0.8), JNum (Fin 0.8), JNum (Fin 0.8)]))
           ''initial_confidence'' = Inr vc)
     \<and> (\<exists>sc. validateConfig (with_default cfg (JObj [])) = Inr sc)"
  by (auto simp add: initialize_def initialize_try_def Let_def split: sum.splits)

section \<open>Wrong-stage calls\<close>

lemma show_nat_digits [simp]:
  "show_nat 0 = ''0''" "show_nat 1 = ''1''" "show_nat 2 = ''2''" "show_nat 3 = ''3''"
  "show_nat 4 = ''4''" "show_nat 5 = ''5''" "show_nat 6 = ''6''" "show_nat 7 = ''7''"
  "show_nat (Suc 0) = ''1''"
  by (simp_all add: show_nat.simps digit_char_def)

lemma layers_reset_cleared:
  "(lid, l) \<in> set (layers (resetToInitialState g)) \<Longrightarrow> layer_nodes l = [] \<and> layer_edges l = []"
  by (auto simp add: resetToInitialState_def Let_def clear_layers_def initializeLayerStructure_def
        defaultLayers_def split: if_splits)

lemma decomposeTask_wrong_stage:
  "currentStage g \<noteq> 1 \<Longrightarrow>
   decomposeTask g dims =
     (g, Inl (Error (''Cannot decompose. Current stage: '' @ show_nat (currentStage g)
                     @ '', expected: 1'')))"
  by (simp add: decomposeTask_def)

lemma generateHypotheses_wrong_stage:
  "currentStage g \<noteq> 2 \<Longrightarrow>
   generateHypotheses g d hs c =
     (g, HypFailure (Error (''Cannot generate hypotheses. Current stage: ''
                            @ show_nat (currentStage g) @ '', expected: 2''))
           (currentStage g) (stage_name_or_unknown (currentStage g)))"
  by (simp add: generateHypotheses_def generateHypotheses_try_def Let_def)

lemma valid_description_example:
  "validateTaskDescription (JStr ''Investigate the role of skin microbiome in disease'')
     = Inr ''Investigate the role of skin microbiome in disease''"
  by (simp add: validateTaskDescription_def trim_def is_ws_def)

lemmas example_initialize =
  initialize_success [OF new_graph_stage valid_description_example default_confidence_valid
                         default_config_valid]

text \<open>
  C1, as stated, fails for \<^verbatim>\<open>initialize\<close>: called at cursor 1 it empties the vertex
  map and sets the cursor back to 0.
\<close>

theorem initialize_wrong_stage_mutates:
  "currentStage (fst (initialize (new_graph True)
                  (JStr ''Investigate the role of skin microbiome in disease'') JUndefined JUndefined)) = 1
   \<and> length (vertices (fst (initialize (new_graph True)
                  (JStr ''Investigate the role of skin microbiome in disease'') JUndefined JUndefined))) = 1
   \<and> currentStage (fst (initialize
          (fst (initialize (new_graph True)
                  (JStr ''Investigate the role of skin microbiome in disease'') JUndefined JUndefined))
          (JStr ''Investigate the role of skin microbiome in disease'') JUndefined JUndefined)) = 0
   \<and> length (vertices (fst (initialize
          (fst (initialize (new_graph True)
                  (JStr ''Investigate the role of skin microbiome in disease'') JUndefined JUndefined))
          (JStr ''Investigate the role of skin microbiome in disease'') JUndefined JUndefined))) = 0"
  by (simp add: example_initialize initialize_wrong_stage)

text \<open>
  C1, amended: \<^verbatim>\<open>decomposeTask\<close> called at a cursor other than 1 and
  \<^verbatim>\<open>generateHypotheses\<close> called at a cursor other than 2 fail with a message that
  names the current and the expected stage, and leave the graph as it was.
  \<^verbatim>\<open>initialize\<close> called at a cursor other than 0 fails with such a message too, but
  its failure path resets the graph: the vertex and edge maps are empty afterwards, the
  node and edge sets of every layer are empty, and the cursor is 0.
\<close>

theorem wrong_stage_operations:
  "(currentStage g \<noteq> 0 \<longrightarrow>
      initialize g td ic cfg =
        (resetToInitialState g,
         InitFailure (Error (''Cannot initialize. Current stage: '' @ show_nat (currentStage g)
                             @ '', expected: 0 (before initialization)'')) 0)
      \<and> vertices (resetToInitialState g) = []
      \<and> edges (resetToInitialState g) = []
      \<and> currentStage (resetToInitialState g) = 0
      \<and> (\<forall>(lid, l) \<in> set (layers (resetToInitialState g)). layer_nodes l = [] \<and> layer_edges l = []))
   \<and> (currentStage g \<noteq> 1 \<longrightarrow>
        decomposeTask g dims =
          (g, Inl (Error (''Cannot decompose. Current stage: '' @ show_nat (currentStage g)
                          @ '', expected: 1''))))
   \<and> (currentStage g \<noteq> 2 \<longrightarrow>
        generateHypotheses g d hs c =
          (g, HypFailure (Error (''Cannot generate hypotheses. Current stage: ''
                                 @ show_nat (currentStage g) @ '', expected: 2''))
                (currentStage g) (stage_name_or_unknown (currentStage g))))"
  using layers_reset_cleared [of _ _ g]
  by (auto simp add: initialize_wrong_stage decomposeTask_wrong_stage generateHypotheses_wrong_stage)

theorem wrong_stage_operations_witness:
  "snd (initialize
          (fst (initialize (new_graph True)
                  (JStr ''Investigate the role of skin microbiome in disease'') JUndefined JUndefined))
          (JStr ''Investigate the role of skin microbiome in disease'') JUndefined JUndefined)
     = InitFailure (Error ''Cannot initialize. Current stage: 1, expected: 0 (before initialization)'') 0
   \<and> decomposeTask (new_graph True) None
       = (new_graph True, Inl (Error ''Cannot decompose. Current stage: 0, expected: 1''))
   \<and> generateHypotheses (new_graph True) (JStr ''2.1'') (JArr []) JUndefined
       = (new_graph True,
          HypFailure (Error ''Cannot generate hypotheses. Current stage: 0, expected: 2'') 0 ''unknown'')"
proof -
  have s1: "currentStage (fst (initialize (new_graph True)
                  (JStr ''Investigate the role of skin microbiome in disease'') JUndefined JUndefined)) = 1"
    by (rule example_initialize(2))
  have s0: "currentStage (new_graph True) = 0" by (rule new_graph_stage)
  from s1 wrong_stage_operations
         [of "fst (initialize (new_graph True)
                  (JStr ''Investigate the role of skin microbiome in disease'') JUndefined JUndefined)"
             "JStr ''Investigate the role of skin microbiome in disease''" JUndefined JUndefined]
  have a: "snd (initialize
          (fst (initialize (new_graph True)
                  (JStr ''Investigate the role of skin microbiome in disease'') JUndefined JUndefined))
          (JStr ''Investigate the role of skin microbiome in disease'') JUndefined JUndefined)
     = InitFailure (Error ''Cannot initialize. Current stage: 1, expected: 0 (before initialization)'') 0"
    by simp
  from s0 wrong_stage_operations [of "new_graph True" _ _ _ None "JStr ''2.1''" "JArr []" JUndefined]
  have b: "decomposeTask (new_graph True) None
       = (new_graph True, Inl (Error ''Cannot decompose. Current stage: 0, expected: 1''))
   \<and> generateHypotheses (new_graph True) (JStr ''2.1'') (JArr []) JUndefined
       = (new_graph True,
          HypFailure (Error ''Cannot generate hypotheses. Current stage: 0, expected: 2'') 0 ''unknown'')"
    by (simp add: stage_name_or_unknown_def)
  from a b show ?thesis by blast
qed

section \<open>A second call of initialize\<close>

text \<open>
  C2 does not hold of the code. \<^verbatim>\<open>initialize\<close> has a branch for a store that is not
  empty, which warns that it is reinitializing and clears the store, as the claim
  describes. The stage guard in front of it raises whenever the cursor is not 0, and the
  cursor is 1 after a successful call, so a second call on the same instance never
  reaches that branch: it returns the failure object with the wrong-stage error, and its
  recovery leaves no vertex and the cursor at 0, where the claim has the root \<open>n0\<close> and
  the cursor at 1.
\<close>

theorem second_initialize_fails:
  "snd (initialize
          (fst (initialize (new_graph True)
                  (JStr ''Investigate the role of skin microbiome in disease'') JUndefined JUndefined))
          (JStr ''Investigate the role of skin microbiome in disease'') JUndefined JUndefined)
     = InitFailure (Error ''Cannot initialize. Current stage: 1, expected: 0 (before initialization)'') 0
   \<and> \<not> init_success (snd (initialize
          (fst (initialize (new_graph True)
                  (JStr ''Investigate the role of skin microbiome in disease'') JUndefined JUndefined))
          (JStr ''Investigate the role of skin microbiome in disease'') JUndefined JUndefined))
   \<and> length (vertices (fst (initialize (new_graph True)
                  (JStr ''Investigate the role of skin microbiome in disease'') JUndefined JUndefined))) = 1
   \<and> vertices (fst (initialize
          (fst (initialize (new_graph True)
                  (JStr ''Investigate the role of skin microbiome in disease'') JUndefined JUndefined))
          (JStr ''Investigate the role of skin microbiome in disease'') JUndefined JUndefined)) = []
   \<and> currentStage (fst (initialize
          (fst (initialize (new_graph True)
                  (JStr ''Investigate the role of skin microbiome in disease'') JUndefined JUndefined))
          (JStr ''Investigate the role of skin microbiome in disease'') JUndefined JUndefined)) = 0"
  by (simp add: example_initialize initialize_wrong_stage)

text \<open>
  The same holds whatever the arguments of the two calls are: after a successful
  \<^verbatim>\<open>initialize\<close>, the next call on the instance raises nothing and is rejected by
  the stage guard, and its recovery path clears the nodes, edges and layer memberships.
  Only a further call, now at cursor 0, builds the root again.
\<close>

theorem second_initialize_rejected:
  assumes "initialize g td ic cfg = (g1, r1)"
    and "init_success r1"
    and "initialize g1 td' ic' cfg' = (g2, r2)"
    and "initialize g2 td ic cfg = (g3, r3)"
  shows "r2 = InitFailure (Error ''Cannot initialize. Current stage: 1, expected: 0 (before initialization)'') 0
       \<and> vertices g2 = [] \<and> edges g2 = [] \<and> currentStage g2 = 0
       \<and> (\<forall>(lid, l) \<in> set (layers g2). layer_nodes l = [] \<and> layer_edges l = [])
       \<and> init_success r3
       \<and> length (vertices g3) = 1 \<and> map_has (vertices g3) ''n0'' \<and> currentStage g3 = 1"
proof -
  from assms(1,2) have ok: "init_success (snd (initialize g td ic cfg))" by simp
  then obtain d vc sc where v:
    "validateTaskDescription td = Inr d"
    "validateConfidenceArray
       (with_default ic (JArr [JNum (Fin 0.8), JNum (Fin 0.8), JNum (Fin 0.8), JNum (Fin 0.8)]))
       ''initial_confidence'' = Inr vc"
    "validateConfig (with_default cfg (JObj [])) = Inr sc"
    and st0: "currentStage g = 0"
    using initialize_success_iff [of g td ic cfg] by blast
  from initialize_success(2) [OF st0 v] assms(1) have st1: "currentStage g1 = 1" by simp
  then have ne: "currentStage g1 \<noteq> 0" by simp
  from initialize_wrong_stage [OF ne, of td' ic' cfg'] assms(3) st1
  have g2: "g2 = resetToInitialState g1"
    and r2: "r2 = InitFailure (Error ''Cannot initialize. Current stage: 1, expected: 0 (before initialization)'') 0"
    by simp_all
  from g2 have st2: "currentStage g2 = 0" by simp
  from g2 have cleared: "\<forall>(lid, l) \<in> set (layers g2). layer_nodes l = [] \<and> layer_edges l = []"
    using layers_reset_cleared [of _ _ g1] by auto
  from initialize_success [OF st2 v] assms(4)
  have v3: "vertices g3 = [(''n0'', rootNode d vc sc)]" and st3: "currentStage g3 = 1"
    and "\<exists>ws. r3 = InitSuccess ''n0'' 1 ''initialization'' active_parameters ws"
    by simp_all
  then have ok3: "init_success r3" by auto
  from v3 have "length (vertices g3) = 1" "map_has (vertices g3) ''n0''"
    by (simp_all add: map_has_def)
  with r2 g2 st2 cleared ok3 st3 show ?thesis by simp
qed

theorem second_initialize_rejected_witness:
  "snd (initialize
          (fst (initialize (new_graph True)
                  (JStr ''Investigate the role of skin microbiome in disease'') JUndefined JUndefined))
          (JStr ''Study the relationship between diet and skin health'') JUndefined JUndefined)
     = InitFailure (Error ''Cannot initialize. Current stage: 1, expected: 0 (before initialization)'') 0
   \<and> currentStage (fst (initialize
          (fst (initialize
             (fst (initialize (new_graph True)
                  (JStr ''Investigate the role of skin microbiome in disease'') JUndefined JUndefined))
             (JStr ''Study the relationship between diet and skin health'') JUndefined JUndefined))
          (JStr ''Investigate the role of skin microbiome in disease'') JUndefined JUndefined)) = 1"
proof -
  have ok: "init_success (snd (initialize (new_graph True)
                  (JStr ''Investigate the role of skin microbiome in disease'') JUndefined JUndefined))"
  proof -
    from example_initialize(5) [of True] obtain ws where
      "snd (initialize (new_graph True)
              (JStr ''Investigate the role of skin microbiome in disease'') JUndefined JUndefined)
         = InitSuccess ''n0'' 1 ''initialization'' active_parameters ws"
      by blast
    then show ?thesis by simp
  qed
  from second_initialize_rejected [OF prod.collapse [symmetric] ok prod.collapse [symmetric]
                                      prod.collapse [symmetric]]
  show ?thesis by blast
qed

section \<open>The summary of an empty graph\<close>

lemma new_graph_vertices: "vertices (new_graph b) = []"
  by (simp add: new_graph_def Let_def)

text \<open>
  C10: on a graph without vertices, \<^verbatim>\<open>getGraphSummary\<close> computes the average impact
  as the unguarded division of 0 by 0, which is NaN and so no number of the unit
  interval, while the confidence statistics of the same summary take the guarded branch
  and are all 0.
\<close>

theorem summary_of_empty_graph:
  assumes "vertices g = []"
  shows "average_impact (summary_impact_distribution (getGraphSummary g)) = js_div 0 0
       \<and> js_div 0 0 = NaN
       \<and> (\<forall>r. average_impact (summary_impact_distribution (getGraphSummary g)) \<noteq> Fin r)
       \<and> summary_confidence_statistics (getGraphSummary g)
           = \<lparr> cs_mean = 0, cs_std = 0, cs_min = 0, cs_max = 0 \<rparr>
       \<and> vertices_count (getGraphSummary g) = 0"
  using assms
  by (simp add: getGraphSummary_def getImpactDistribution_def getConfidenceStatistics_def js_div_def
        dsum_def)

theorem summary_of_empty_graph_witness:
  "average_impact (summary_impact_distribution (getGraphSummary (new_graph True))) = NaN
   \<and> summary_confidence_statistics (getGraphSummary (new_graph True))
       = \<lparr> cs_mean = 0, cs_std = 0, cs_min = 0, cs_max = 0 \<rparr>"
  using summary_of_empty_graph [OF new_graph_vertices [of True]] by simp

section \<open>The results of decomposeTask\<close>

lemma decompose_loop_result:
  "map_has (layers g) ''base'' \<Longrightarrow>
   snd (decompose_loop g idx dims acc)
     = Inr (acc @ map (\<lambda>j. ''2.'' @ show_nat (idx + j + 1)) [0..<length dims])
   \<and> currentStage (fst (decompose_loop g idx dims acc)) = currentStage g
   \<and> map fst (layers (fst (decompose_loop g idx dims acc))) = map fst (layers g)"
proof (induction dims arbitrary: g idx acc)
  case Nil
  then show ?case by simp
next
  case (Cons d dims)
  let ?g3 = "g\<lparr> vertices := map_set (''2.'' @ show_nat (idx + 1))
                              (dimensionNode (''2.'' @ show_nat (idx + 1)) d) (vertices g),
                 nodeTypes := set_add ''dimension'' (nodeTypes g),
                 layers := layer_add_node ''base'' (''2.'' @ show_nat (idx + 1)) (layers g),
                 edges := map_set (''e_n0_'' @ ''2.'' @ show_nat (idx + 1))
                            (decompositionEdge (''2.'' @ show_nat (idx + 1))) (edges g) \<rparr>"
  from Cons.prems have step: "decompose_loop g idx (d # dims) acc
      = decompose_loop ?g3 (idx + 1) dims (acc @ [''2.'' @ show_nat (idx + 1)])"
    by (simp add: Let_def)
  have b: "map_has (layers ?g3) ''base''" using Cons.prems by simp
  have m: "map (\<lambda>j. ''2.'' @ show_nat (idx + j + 1)) [0..<length (d # dims)]
           = (''2.'' @ show_nat (idx + 1)) # map (\<lambda>j. ''2.'' @ show_nat (idx + 1 + j + 1)) [0..<length dims]"
    by (simp add: map_upt_Suc del: upt_Suc)
  from Cons.IH [OF b, of "idx + 1" "acc @ [''2.'' @ show_nat (idx + 1)]"] step m
  show ?case by simp
qed

lemma decompose_loop_vertices_other:
  "map_has (layers g) ''base'' \<Longrightarrow>
   \<forall>j < length dims. k \<noteq> ''2.'' @ show_nat (idx + j + 1) \<Longrightarrow>
   map_of (vertices (fst (decompose_loop g idx dims acc))) k = map_of (vertices g) k"
proof (induction dims arbitrary: g idx acc)
  case Nil
  then show ?case by simp
next
  case (Cons d dims)
  let ?g3 = "g\<lparr> vertices := map_set (''2.'' @ show_nat (idx + 1))
                              (dimensionNode (''2.'' @ show_nat (idx + 1)) d) (vertices g),
                 nodeTypes := set_add ''dimension'' (nodeTypes g),
                 layers := layer_add_node ''base'' (''2.'' @ show_nat (idx + 1)) (layers g),
                 edges := map_set (''e_n0_'' @ ''2.'' @ show_nat (idx + 1))
                            (decompositionEdge (''2.'' @ show_nat (idx + 1))) (edges g) \<rparr>"
  from Cons.prems have step: "decompose_loop g idx (d # dims) acc
      = decompose_loop ?g3 (idx + 1) dims (acc @ [''2.'' @ show_nat (idx + 1)])"
    by (simp add: Let_def)
  have b: "map_has (layers ?g3) ''base''" using Cons.prems by simp
  from Cons.prems(2) have k0: "k \<noteq> ''2.'' @ show_nat (idx + 1)" by force
  from Cons.prems(2) have rest: "\<forall>j < length dims. k \<noteq> ''2.'' @ show_nat (idx + 1 + j + 1)" by force
  from Cons.IH [OF b rest, of "acc @ [''2.'' @ show_nat (idx + 1)]"] step k0
  show ?case by simp
qed

lemma decompose_loop_vertices_created:
  "map_has (layers g) ''base'' \<Longrightarrow> j < length dims \<Longrightarrow>
   map_of (vertices (fst (decompose_loop g idx dims acc))) (''2.'' @ show_nat (idx + j + 1))
     = Some (dimensionNode (''2.'' @ show_nat (idx + j + 1)) (dims ! j))"
proof (induction dims arbitrary: g idx acc j)
  case Nil
  then show ?case by simp
next
  case (Cons d dims)
  let ?g3 = "g\<lparr> vertices := map_set (''2.'' @ show_nat (idx + 1))
                              (dimensionNode (''2.'' @ show_nat (idx + 1)) d) (vertices g),
                 nodeTypes := set_add ''dimension'' (nodeTypes g),
                 layers := layer_add_node ''base'' (''2.'' @ show_nat (idx + 1)) (layers g),
                 edges := map_set (''e_n0_'' @ ''2.'' @ show_nat (idx + 1))
                            (decompositionEdge (''2.'' @ show_nat (idx + 1))) (edges g) \<rparr>"
  from Cons.prems have step: "decompose_loop g idx (d # dims) acc
      = decompose_loop ?g3 (idx + 1) dims (acc @ [''2.'' @ show_nat (idx + 1)])"
    by (simp add: Let_def)
  have b: "map_has (layers ?g3) ''base''" using Cons.prems by simp
  show ?case
  proof (cases j)
    case 0
    have "\<forall>i < length dims. ''2.'' @ show_nat (idx + 1) \<noteq> ''2.'' @ show_nat (idx + 1 + i + 1)"
      using show_nat_inj by fastforce
    from decompose_loop_vertices_other [OF b this, of "acc @ [''2.'' @ show_nat (idx + 1)]"] step 0
    show ?thesis by simp
  next
    case (Suc j')
    with Cons.prems have "j' < length dims" by simp
    from Cons.IH [OF b this, of "idx + 1" "acc @ [''2.'' @ show_nat (idx + 1)]"] step Suc
    show ?thesis by simp
  qed
qed

lemma decompose_loop_edges_other:
  "map_has (layers g) ''base'' \<Longrightarrow>
   \<forall>j < length dims. k \<noteq> ''e_n0_'' @ ''2.'' @ show_nat (idx + j + 1) \<Longrightarrow>
   map_of (edges (fst (decompose_loop g idx dims acc))) k = map_of (edges g) k"
proof (induction dims arbitrary: g idx acc)
  case Nil
  then show ?case by simp
next
  case (Cons d dims)
  let ?g3 = "g\<lparr> vertices := map_set (''2.'' @ show_nat (idx + 1))
                              (dimensionNode (''2.'' @ show_nat (idx + 1)) d) (vertices g),
                 nodeTypes := set_add ''dimension'' (nodeTypes g),
                 layers := layer_add_node ''base'' (''2.'' @ show_nat (idx + 1)) (layers g),
                 edges := map_set (''e_n0_'' @ ''2.'' @ show_nat (idx + 1))
                            (decompositionEdge (''2.'' @ show_nat (idx + 1))) (edges g) \<rparr>"
  from Cons.prems have step: "decompose_loop g idx (d # dims) acc
      = decompose_loop ?g3 (idx + 1) dims (acc @ [''2.'' @ show_nat (idx + 1)])"
    by (simp add: Let_def)
  have b: "map_has (layers ?g3) ''base''" using Cons.prems by simp
  from Cons.prems(2) have k0: "k \<noteq> ''e_n0_'' @ ''2.'' @ show_nat (idx + 1)" by force
  from Cons.prems(2) have rest: "\<forall>j < length dims. k \<noteq> ''e_n0_'' @ ''2.'' @ show_nat (idx + 1 + j + 1)"
    by force
  from Cons.IH [OF b rest, of "acc @ [''2.'' @ show_nat (idx + 1)]"] step k0
  show ?case by simp
qed

lemma decompose_loop_edges_created:
  "map_has (layers g) ''base'' \<Longrightarrow> j < length dims \<Longrightarrow>
   map_of (edges (fst (decompose_loop g idx dims acc))) (''e_n0_'' @ ''2.'' @ show_nat (idx + j + 1))
     = Some (decompositionEdge (''2.'' @ show_nat (idx + j + 1)))"
proof (induction dims arbitrary: g idx acc j)
  case Nil
  then show ?case by simp
next
  case (Cons d dims)
  let ?g3 = "g\<lparr> vertices := map_set (''2.'' @ show_nat (idx + 1))
                              (dimensionNode (''2.'' @ show_nat (idx + 1)) d) (vertices g),
                 nodeTypes := set_add ''dimension'' (nodeTypes g),
                 layers := layer_add_node ''base'' (''2.'' @ show_nat (idx + 1)) (layers g),
                 edges := map_set (''e_n0_'' @ ''2.'' @ show_nat (idx + 1))
                            (decompositionEdge (''2.'' @ show_nat (idx + 1))) (edges g) \<rparr>"
  from Cons.prems have step: "decompose_loop g idx (d # dims) acc
      = decompose_loop ?g3 (idx + 1) dims (acc @ [''2.'' @ show_nat (idx + 1)])"
    by (simp add: Let_def)
  have b: "map_has (layers ?g3) ''base''" using Cons.prems by simp
  show ?case
  proof (cases j)
    case 0
    have "\<forall>i < length dims. ''e_n0_'' @ ''2.'' @ show_nat (idx + 1)
                              \<noteq> ''e_n0_'' @ ''2.'' @ show_nat (idx + 1 + i + 1)"
      using show_nat_inj by fastforce
    from decompose_loop_edges_other [OF b this, of "acc @ [''2.'' @ show_nat (idx + 1)]"] step 0
    show ?thesis by simp
  next
    case (Suc j')
    with Cons.prems have "j' < length dims" by simp
    from Cons.IH [OF b this, of "idx + 1" "acc @ [''2.'' @ show_nat (idx + 1)]"] step Suc
    show ?thesis by simp
  qed
qed

lemma decomposeTask_success:
  assumes "currentStage g = 1" and "map_has (layers g) ''base''"
  shows "snd (decomposeTask g cd)
           = Inr (DecomposeSuccess
                    (map (\<lambda>j. ''2.'' @ show_nat (j + 1))
                       [0..<length (case cd of Some ds \<Rightarrow> ds | None \<Rightarrow> defaultDimensions)])
                    2 ''decomposition''
                    (case cd of Some ds \<Rightarrow> ds | None \<Rightarrow> defaultDimensions))"
    and "currentStage (fst (decomposeTask g cd)) = 2"
    and "map fst (layers (fst (decomposeTask g cd))) = map fst (layers g)"
    and "j < length (case cd of Some ds \<Rightarrow> ds | None \<Rightarrow> defaultDimensions) \<Longrightarrow>
         map_of (vertices (fst (decomposeTask g cd))) (''2.'' @ show_nat (j + 1))
           = Some (dimensionNode (''2.'' @ show_nat (j + 1))
                     ((case cd of Some ds \<Rightarrow> ds | None \<Rightarrow> defaultDimensions) ! j))"
    and "j < length (case cd of Some ds \<Rightarrow> ds | None \<Rightarrow> defaultDimensions) \<Longrightarrow>
         map_of (edges (fst (decomposeTask g cd))) (''e_n0_'' @ ''2.'' @ show_nat (j + 1))
           = Some (decompositionEdge (''2.'' @ show_nat (j + 1)))"
    and "map_of (vertices (fst (decomposeTask g cd))) ''n0'' = map_of (vertices g) ''n0''"
proof -
  let ?dims = "case cd of Some ds \<Rightarrow> ds | None \<Rightarrow> defaultDimensions"
  let ?l = "decompose_loop g 0 ?dims []"
  from decompose_loop_result [OF assms(2), of 0 ?dims "[]"]
  have r: "snd ?l = Inr (map (\<lambda>j. ''2.'' @ show_nat (j + 1)) [0..<length ?dims])"
    and st: "currentStage (fst ?l) = currentStage g"
    and ls: "map fst (layers (fst ?l)) = map fst (layers g)"
    by simp_all
  have dt: "decomposeTask g cd
      = (fst ?l\<lparr> currentStage := 2, meta_stage := ''decomposition'' \<rparr>,
         Inr (DecomposeSuccess (map (\<lambda>j. ''2.'' @ show_nat (j + 1)) [0..<length ?dims])
                2 ''decomposition'' ?dims))"
    using assms(1) r
    by (cases ?l) (simp add: decomposeTask_def Let_def stageNames_def)
  show "snd (decomposeTask g cd)
           = Inr (DecomposeSuccess (map (\<lambda>j. ''2.'' @ show_nat (j + 1)) [0..<length ?dims])
                    2 ''decomposition'' ?dims)"
    by (simp add: dt)
  show "currentStage (fst (decomposeTask g cd)) = 2" by (simp add: dt)
  show "map fst (layers (fst (decomposeTask g cd))) = map fst (layers g)" by (simp add: dt ls)
  show "j < length ?dims \<Longrightarrow>
         map_of (vertices (fst (decomposeTask g cd))) (''2.'' @ show_nat (j + 1))
           = Some (dimensionNode (''2.'' @ show_nat (j + 1)) (?dims ! j))"
    using decompose_loop_vertices_created [OF assms(2), of j ?dims 0 "[]"] by (simp add: dt)
  show "j < length ?dims \<Longrightarrow>
         map_of (edges (fst (decomposeTask g cd))) (''e_n0_'' @ ''2.'' @ show_nat (j + 1))
           = Some (decompositionEdge (''2.'' @ show_nat (j + 1)))"
    using decompose_loop_edges_created [OF assms(2), of j ?dims 0 "[]"] by (simp add: dt)
  show "map_of (vertices (fst (decomposeTask g cd))) ''n0'' = map_of (vertices g) ''n0''"
    using decompose_loop_vertices_other [OF assms(2), of ?dims "''n0''" 0 "[]"] by (simp add: dt)
qed

lemma dimensionNode_fields:
  "node_id (dimensionNode nid name) = nid"
  "label (dimensionNode nid name) = name"
  "node_type (dimensionNode nid name) = ''dimension''"
  "means (confidence (dimensionNode nid name)) = [dbl 0.8, dbl 0.8, dbl 0.8, dbl 0.8]"
  "md_disciplinary_tags (metadata (dimensionNode nid name))
     = (case map_of tagMap name of
          Some tags \<Rightarrow> tags
        | None \<Rightarrow> if name \<in> set object_prototype_keys then [] else [''general''])"
  by (simp_all add: dimensionNode_def Let_def createNodeMetadata_def inferDisciplinaryTags_def
        distribution_array distribution_of_def valid_mean_literal split: option.splits)

lemma decompositionEdge_fields:
  "source (decompositionEdge nid) = ''n0''"
  "target (decompositionEdge nid) = nid"
  "em_edge_type (edge_meta (decompositionEdge nid)) = ''Decomposition''"
  by (simp_all add: decompositionEdge_def Let_def createEdgeMetadata_def)

lemma show_nat_lt10: "n < 10 \<Longrightarrow> show_nat n = [digit_char n]"
  by (simp add: show_nat.simps)

text \<open>
  What \<^verbatim>\<open>decomposeTask\<close> does at cursor 1 for the name at index \<open>i\<close> of a list of
  names: the node \<open>2.(i+1)\<close> is a dimension node with the name as label and the four
  means 0.8 (the double of that literal), the edge from \<open>n0\<close> to it has the type \<open>Decomposition\<close>, the cursor is 2 and the
  ids are returned in order. The tags are those of the table, or \<open>general\<close> for a name
  that is neither in the table nor the name of an inherited member.
\<close>

lemma decomposeTask_dimensions:
  assumes "currentStage g = 1" and "map_has (layers g) ''base''" and "i < length names"
  shows "\<exists>n e. map_of (vertices (fst (decomposeTask g (Some names)))) (''2.'' @ show_nat (i + 1)) = Some n
          \<and> node_id n = ''2.'' @ show_nat (i + 1)
          \<and> label n = names ! i
          \<and> node_type n = ''dimension''
          \<and> means (confidence n) = [dbl 0.8, dbl 0.8, dbl 0.8, dbl 0.8]
          \<and> md_disciplinary_tags (metadata n)
              = (case map_of tagMap (names ! i) of
                   Some tags \<Rightarrow> tags
                 | None \<Rightarrow> if names ! i \<in> set object_prototype_keys then [] else [''general''])
          \<and> map_of (edges (fst (decomposeTask g (Some names)))) (''e_n0_'' @ ''2.'' @ show_nat (i + 1)) = Some e
          \<and> source e = ''n0'' \<and> target e = ''2.'' @ show_nat (i + 1)
          \<and> em_edge_type (edge_meta e) = ''Decomposition''
          \<and> currentStage (fst (decomposeTask g (Some names))) = 2
          \<and> snd (decomposeTask g (Some names))
              = Inr (DecomposeSuccess (map (\<lambda>j. ''2.'' @ show_nat (j + 1)) [0..<length names])
                       2 ''decomposition'' names)"
  using decomposeTask_success(1,2) [OF assms(1,2), where cd = "Some names"]
        decomposeTask_success(4,5) [OF assms(1,2), where cd = "Some names" and j = i] assms(3)
  by (simp add: dimensionNode_fields decompositionEdge_fields)

text \<open>
  C7 holds except for its tag rule: a name that is not in the table but names a member
  inherited from \<^verbatim>\<open>Object.prototype\<close> does not get the tag \<open>general\<close>. For the name
  \<open>constructor\<close> the lookup finds a function, the fallback is not taken, and the
  metadata factory replaces the function by the empty list; the name \<open>Ethics\<close> beside it
  gets \<open>general\<close>.
\<close>

theorem decomposeTask_inherited_name:
  "map_option (\<lambda>n. md_disciplinary_tags (metadata n))
     (map_of (vertices (fst (decomposeTask
                (fst (initialize (new_graph True)
                        (JStr ''Investigate the role of skin microbiome in disease'')
                        JUndefined JUndefined))
                (Some [''constructor'', ''Ethics''])))) ''2.1'') = Some []
   \<and> map_option (\<lambda>n. md_disciplinary_tags (metadata n))
     (map_of (vertices (fst (decomposeTask
                (fst (initialize (new_graph True)
                        (JStr ''Investigate the role of skin microbiome in disease'')
                        JUndefined JUndefined))
                (Some [''constructor'', ''Ethics''])))) ''2.2'') = Some [''general'']"
proof -
  let ?g = "fst (initialize (new_graph True)
                        (JStr ''Investigate the role of skin microbiome in disease'')
                        JUndefined JUndefined)"
  have s: "currentStage ?g = 1" and b: "map_has (layers ?g) ''base''"
    by (rule example_initialize)+
  from decomposeTask_success(4) [OF s b, where j = 0 and cd = "Some [''constructor'', ''Ethics'']"]
  have a: "map_of (vertices (fst (decomposeTask ?g (Some [''constructor'', ''Ethics''])))) ''2.1''
             = Some (dimensionNode ''2.1'' ''constructor'')"
    by (simp add: show_nat_lt10 digit_char_def)
  from decomposeTask_success(4) [OF s b, where j = 1 and cd = "Some [''constructor'', ''Ethics'']"]
  have c: "map_of (vertices (fst (decomposeTask ?g (Some [''constructor'', ''Ethics''])))) ''2.2''
             = Some (dimensionNode ''2.2'' ''Ethics'')"
    by (simp add: show_nat_lt10 digit_char_def)
  from a c show ?thesis
    by (simp add: dimensionNode_fields tagMap_def object_prototype_keys_def)
qed

section \<open>The results of generateHypotheses\<close>

lemma create_hypothesis_frame:
  "currentStage (fst (create_hypothesis g d dn i h)) = currentStage g
   \<and> map fst (layers (fst (create_hypothesis g d dn i h))) = map fst (layers g)"
  by (simp add: create_hypothesis_def Let_def split: sum.splits)

lemma create_hypothesis_result:
  "map_has (layers g) ''theoretical'' \<or> map_has (layers g) ''base'' \<Longrightarrow>
   snd (create_hypothesis g d dn i h)
     = (case validateHypothesis h i of
          Inl e \<Rightarrow> Inl e
        | Inr vh \<Rightarrow> Inr (''3.'' @ dn @ ''.'' @ show_nat (i + 1)))"
  by (auto simp add: create_hypothesis_def Let_def split: sum.splits)

lemma create_hypothesis_vertices:
  "length (vertices (fst (create_hypothesis g d dn i h))) \<le> Suc (length (vertices g))"
  by (simp add: create_hypothesis_def Let_def length_map_set split: sum.splits)

lemma hypotheses_loop_frame:
  "currentStage (fst (hypotheses_loop g d dn idx items ns es)) = currentStage g
   \<and> map fst (layers (fst (hypotheses_loop g d dn idx items ns es))) = map fst (layers g)
   \<and> length (fst (snd (hypotheses_loop g d dn idx items ns es)))
       + length (snd (snd (hypotheses_loop g d dn idx items ns es)))
       = length ns + length es + length items
   \<and> length (vertices (fst (hypotheses_loop g d dn idx items ns es)))
       \<le> length (vertices g) + length items"
proof (induction items arbitrary: g idx ns es)
  case Nil
  then show ?case by simp
next
  case (Cons h items)
  obtain g' r where c: "create_hypothesis g d dn idx h = (g', r)" by (cases "create_hypothesis g d dn idx h")
  from create_hypothesis_frame [of g d dn idx h] c
  have f: "currentStage g' = currentStage g" "map fst (layers g') = map fst (layers g)" by simp_all
  from create_hypothesis_vertices [of g d dn idx h] c
  have v: "length (vertices g') \<le> Suc (length (vertices g))" by simp
  show ?case
  proof (cases r)
    case (Inl e)
    with c Cons.IH [of g' "idx + 1" ns "es @ [(idx + 1, e)]"] f v show ?thesis by simp
  next
    case (Inr nid)
    with c Cons.IH [of g' "idx + 1" "ns @ [nid]" es] f v show ?thesis by simp
  qed
qed

lemma hypotheses_loop_result:
  "map_has (layers g) ''theoretical'' \<or> map_has (layers g) ''base'' \<Longrightarrow>
   snd (hypotheses_loop g d dn idx items ns es)
     = (ns @ map (\<lambda>(j, h). ''3.'' @ dn @ ''.'' @ show_nat (j + 1))
               (filter (\<lambda>(j, h). \<not> isl (validateHypothesis h j)) (enumerate idx items)),
        es @ map (\<lambda>(j, h). (j + 1, projl (validateHypothesis h j)))
               (filter (\<lambda>(j, h). isl (validateHypothesis h j)) (enumerate idx items)))"
proof (induction items arbitrary: g idx ns es)
  case Nil
  then show ?case by simp
next
  case (Cons h items)
  obtain g' r where c: "create_hypothesis g d dn idx h = (g', r)" by (cases "create_hypothesis g d dn idx h")
  from create_hypothesis_frame [of g d dn idx h] c
  have "map fst (layers g') = map fst (layers g)" by simp
  with Cons.prems have ok: "map_has (layers g') ''theoretical'' \<or> map_has (layers g') ''base''"
    by (simp add: map_has_keys)
  from create_hypothesis_result [OF Cons.prems, of d dn idx h] c
  have r: "r = (case validateHypothesis h idx of
                  Inl e \<Rightarrow> Inl e
                | Inr vh \<Rightarrow> Inr (''3.'' @ dn @ ''.'' @ show_nat (idx + 1)))" by simp
  show ?case
  proof (cases "validateHypothesis h idx")
    case (Inl e)
    with r c Cons.IH [OF ok, of "idx + 1" ns "es @ [(idx + 1, e)]"] show ?thesis by simp
  next
    case (Inr vh)
    with r c Cons.IH [OF ok, of "idx + 1" "ns @ [''3.'' @ dn @ ''.'' @ show_nat (idx + 1)]" es]
    show ?thesis by simp
  qed
qed

lemma split_on_no_dot: "d \<notin> set s \<Longrightarrow> split_on d s = [s]"
  by (induction s) auto

lemma is_digit_not_dot: "is_digit c \<Longrightarrow> c \<noteq> CHR ''.''"
  by (auto simp add: is_digit_def)

lemma split_dimension_id:
  "matches_dimension_format s \<Longrightarrow> split_on CHR ''.'' s = [''2'', drop 2 s]"
proof -
  assume m: "matches_dimension_format s"
  then obtain ds where s: "s = CHR ''2'' # CHR ''.'' # ds" and d: "list_all is_digit ds"
    by (auto simp add: matches_dimension_format_def split: list.splits)
  from d have "CHR ''.'' \<notin> set ds" using is_digit_not_dot by (auto simp add: list_all_iff)
  then have "split_on CHR ''.'' ds = [ds]" by (rule split_on_no_dot)
  with s show ?thesis by simp
qed

lemma stage_name_2 [simp]: "stage_name_or_unknown 2 = ''decomposition''"
  by (simp add: stage_name_or_unknown_def stageNames_def)

lemma generateHypotheses_run:
  assumes "currentStage g = 2"
    and "map_has (layers g) ''theoretical'' \<or> map_has (layers g) ''base''"
    and "matches_dimension_format did"
    and "map_of (vertices g) did = Some n"
    and "node_type n = ''dimension''"
    and "3 \<le> length hs" and "length hs \<le> 5"
  shows "generateHypotheses g (JStr did) (JArr hs) cfg =
     (case hypotheses_loop g did (drop 2 did) 0
             (take (maxHypotheses (validateHypothesisConfig (with_default cfg (JObj [])))) hs) [] [] of
        (g', ns, es) \<Rightarrow>
          if ns = [] then (g', HypFailure (NoHypotheses es) 2 ''decomposition'')
          else (g'\<lparr> currentStage := 3, meta_stage := ''hypothesis_planning'' \<rparr>,
                HypSuccess ns 3 ''hypothesis_planning''
                  (if es \<noteq> [] then Some es else None)
                  (if es \<noteq> [] then Some [show_nat (length es) @ '' hypotheses failed to create'']
                   else None)))"
proof -
  from assms(3) have ne: "did \<noteq> []" by (auto simp add: matches_dimension_format_def)
  from assms(4) have has: "map_has (vertices g) did" by (simp add: map_has_def)
  from ne assms(3) has have v: "validateDimensionNodeId (JStr did) (vertices g) = Inr did"
    by (simp add: validateDimensionNodeId_def)
  from assms(6,7) have a: "validateHypothesesArray (JArr hs) = Inr hs"
    by (simp add: validateHypothesesArray_def)
  note sp = split_dimension_id [OF assms(3)]
  obtain g' ns es where l: "hypotheses_loop g did (drop 2 did) 0
             (take (maxHypotheses (validateHypothesisConfig (with_default cfg (JObj [])))) hs) [] []
             = (g', ns, es)"
    by (metis prod_cases3)
  from hypotheses_loop_frame [of g did "drop 2 did" 0
         "take (maxHypotheses (validateHypothesisConfig (with_default cfg (JObj [])))) hs" "[]" "[]"] l
  have st: "currentStage g' = 2" using assms(1) by simp
  show ?thesis
    using assms(1,4,5) v a sp l st
    by (simp add: generateHypotheses_def generateHypotheses_try_def Let_def stageNames_def)
qed

lemma filter_enumerate_nonempty:
  "(filter (\<lambda>(j, h). P j h) (enumerate 0 items) \<noteq> []) \<longleftrightarrow> (\<exists>j < length items. P j (items ! j))"
proof -
  have "(filter (\<lambda>(j, h). P j h) (enumerate 0 items) \<noteq> [])
          \<longleftrightarrow> (\<exists>p \<in> set (enumerate 0 items). P (fst p) (snd p))"
    by (force simp add: filter_empty_conv)
  also have "\<dots> \<longleftrightarrow> (\<exists>j < length items. P j (items ! j))"
  proof
    assume "\<exists>p \<in> set (enumerate 0 items). P (fst p) (snd p)"
    then obtain p where "p \<in> set (enumerate 0 items)" "P (fst p) (snd p)" by blast
    then have "fst p < length items \<and> P (fst p) (items ! fst p)"
      by (simp add: in_set_enumerate_eq)
    then show "\<exists>j < length items. P j (items ! j)" by blast
  next
    assume "\<exists>j < length items. P j (items ! j)"
    then obtain j where j: "j < length items" "P j (items ! j)" by blast
    then have "(j, items ! j) \<in> set (enumerate 0 items)" by (simp add: in_set_enumerate_eq)
    with j show "\<exists>p \<in> set (enumerate 0 items). P (fst p) (snd p)" by force
  qed
  finally show ?thesis .
qed

lemma decomposeTask_other_keys:
  assumes "currentStage g = 1" and "map_has (layers g) ''base''"
    and "\<forall>j. k \<noteq> ''2.'' @ show_nat (j + 1)"
  shows "map_of (vertices (fst (decomposeTask g cd))) k = map_of (vertices g) k"
proof -
  let ?dims = "case cd of Some ds \<Rightarrow> ds | None \<Rightarrow> defaultDimensions"
  from assms(3) have "\<forall>j < length ?dims. k \<noteq> ''2.'' @ show_nat (0 + j + 1)" by simp
  from decompose_loop_vertices_other [OF assms(2) this, of "[]"] assms(1)
  show ?thesis
    by (cases "decompose_loop g 0 ?dims []")
       (auto simp add: decomposeTask_def Let_def split: sum.splits)
qed

lemma example_decomposed:
  "currentStage (fst (decomposeTask
      (fst (initialize (new_graph True)
              (JStr ''Investigate the role of skin microbiome in disease'') JUndefined JUndefined))
      None)) = 2"
  "map_has (layers (fst (decomposeTask
      (fst (initialize (new_graph True)
              (JStr ''Investigate the role of skin microbiome in disease'') JUndefined JUndefined))
      None))) ''base''"
  "map_of (vertices (fst (decomposeTask
      (fst (initialize (new_graph True)
              (JStr ''Investigate the role of skin microbiome in disease'') JUndefined JUndefined))
      None))) ''2.6'' = Some (dimensionNode ''2.6'' ''Potential Biases'')"
  "map_of (vertices (fst (decomposeTask
      (fst (initialize (new_graph True)
              (JStr ''Investigate the role of skin microbiome in disease'') JUndefined JUndefined))
      None))) ''3.6.2'' = None"
proof -
  let ?g = "fst (initialize (new_graph True)
              (JStr ''Investigate the role of skin microbiome in disease'') JUndefined JUndefined)"
  have s: "currentStage ?g = 1" and b: "map_has (layers ?g) ''base''"
    by (rule example_initialize)+
  show "currentStage (fst (decomposeTask ?g None)) = 2"
    by (rule decomposeTask_success(2) [OF s b])
  from decomposeTask_success(3) [OF s b, of None] b
  show "map_has (layers (fst (decomposeTask ?g None))) ''base''"
    by (simp add: map_has_keys)
  from decomposeTask_success(4) [OF s b, where j = 5 and cd = None]
  show "map_of (vertices (fst (decomposeTask ?g None))) ''2.6''
          = Some (dimensionNode ''2.6'' ''Potential Biases'')"
    by (simp add: defaultDimensions_def)
  have "\<forall>j. ''3.6.2'' \<noteq> ''2.'' @ show_nat (j + 1)" by simp
  from decomposeTask_other_keys [OF s b this, of None]
  show "map_of (vertices (fst (decomposeTask ?g None))) ''3.6.2'' = None"
    by (simp add: example_initialize(1))
qed

lemma create_hypothesis_vertices_map:
  "map_of (vertices (fst (create_hypothesis g d dn i h))) k
     = (case validateHypothesis h i of
          Inl e \<Rightarrow> map_of (vertices g) k
        | Inr vh \<Rightarrow>
            if k = ''3.'' @ dn @ ''.'' @ show_nat (i + 1)
            then Some (hypothesisNode (''3.'' @ dn @ ''.'' @ show_nat (i + 1)) dn i vh)
            else map_of (vertices g) k)"
  by (simp add: create_hypothesis_def Let_def split: sum.splits)

lemma hypotheses_loop_vertices_other:
  "\<forall>j < length items. \<not> isl (validateHypothesis (items ! j) (idx + j)) \<longrightarrow>
       k \<noteq> ''3.'' @ dn @ ''.'' @ show_nat (idx + j + 1) \<Longrightarrow>
   map_of (vertices (fst (hypotheses_loop g d dn idx items ns es))) k = map_of (vertices g) k"
proof (induction items arbitrary: g idx ns es)
  case Nil
  then show ?case by simp
next
  case (Cons h items)
  obtain g' r where c: "create_hypothesis g d dn idx h = (g', r)" by (cases "create_hypothesis g d dn idx h")
  from Cons.prems have h0: "\<not> isl (validateHypothesis h idx) \<longrightarrow> k \<noteq> ''3.'' @ dn @ ''.'' @ show_nat (idx + 1)"
    by force
  from create_hypothesis_vertices_map [of g d dn idx h k] c h0
  have v: "map_of (vertices g') k = map_of (vertices g) k"
    by (cases "validateHypothesis h idx") simp_all
  from Cons.prems
  have rest: "\<forall>j < length items. \<not> isl (validateHypothesis (items ! j) (idx + 1 + j)) \<longrightarrow>
                 k \<noteq> ''3.'' @ dn @ ''.'' @ show_nat (idx + 1 + j + 1)"
    by force
  from Cons.IH [OF rest, of g'] c v show ?case by (cases r) simp_all
qed

lemma hypotheses_loop_vertices_created:
  "j < length items \<Longrightarrow> validateHypothesis (items ! j) (idx + j) = Inr vh \<Longrightarrow>
   map_of (vertices (fst (hypotheses_loop g d dn idx items ns es)))
          (''3.'' @ dn @ ''.'' @ show_nat (idx + j + 1))
     = Some (hypothesisNode (''3.'' @ dn @ ''.'' @ show_nat (idx + j + 1)) dn (idx + j) vh)"
proof (induction items arbitrary: g idx ns es j)
  case Nil
  then show ?case by simp
next
  case (Cons h items)
  obtain g' r where c: "create_hypothesis g d dn idx h = (g', r)" by (cases "create_hypothesis g d dn idx h")
  show ?case
  proof (cases j)
    case 0
    with Cons.prems have v: "validateHypothesis h idx = Inr vh" by simp
    from create_hypothesis_vertices_map [of g d dn idx h "''3.'' @ dn @ ''.'' @ show_nat (idx + 1)"] c v
    have m: "map_of (vertices g') (''3.'' @ dn @ ''.'' @ show_nat (idx + 1))
               = Some (hypothesisNode (''3.'' @ dn @ ''.'' @ show_nat (idx + 1)) dn idx vh)"
      by simp
    have "\<forall>i < length items. \<not> isl (validateHypothesis (items ! i) (idx + 1 + i)) \<longrightarrow>
            ''3.'' @ dn @ ''.'' @ show_nat (idx + 1) \<noteq> ''3.'' @ dn @ ''.'' @ show_nat (idx + 1 + i + 1)"
      using show_nat_inj by fastforce
    from hypotheses_loop_vertices_other [OF this, of g' d] m c 0
    show ?thesis by (cases r) simp_all
  next
    case (Suc j')
    with Cons.prems have "j' < length items" "validateHypothesis (items ! j') (idx + 1 + j') = Inr vh"
      by simp_all
    from Cons.IH [OF this, of g'] c Suc show ?thesis by (cases r) simp_all
  qed
qed

lemma generateHypotheses_vertices:
  assumes "currentStage g = 2"
    and "map_has (layers g) ''theoretical'' \<or> map_has (layers g) ''base''"
    and "matches_dimension_format did"
    and "map_of (vertices g) did = Some n"
    and "node_type n = ''dimension''"
    and "3 \<le> length hs" and "length hs \<le> 5"
  shows "map_of (vertices (fst (generateHypotheses g (JStr did) (JArr hs) cfg))) k
       = map_of (vertices (fst (hypotheses_loop g did (drop 2 did) 0
             (take (maxHypotheses (validateHypothesisConfig (with_default cfg (JObj [])))) hs) [] []))) k"
proof -
  obtain g' ns es where l: "hypotheses_loop g did (drop 2 did) 0
             (take (maxHypotheses (validateHypothesisConfig (with_default cfg (JObj [])))) hs) [] []
             = (g', ns, es)"
    by (metis prod_cases3)
  from generateHypotheses_run [OF assms, of cfg] l show ?thesis by (cases "ns = []") simp_all
qed

lemma hypothesisNode_fields:
  "node_id (hypothesisNode nid dn i vh) = nid"
  "node_type (hypothesisNode nid dn i vh) = ''hypothesis''"
  "content (hypothesisNode nid dn i vh) = vh_content vh"
  "md_epistemic_status (metadata (hypothesisNode nid dn i vh)) = ''hypothetical''"
  by (simp_all add: hypothesisNode_def Let_def createNodeMetadata_def)

text \<open>
  C5: at cursor 2, for an existing dimension node and an array of 3 to 5 items, of which
  the first \<open>maxHypotheses\<close> are processed. If at least one processed item passes
  \<^verbatim>\<open>_validateHypothesis\<close>, \<^verbatim>\<open>generateHypotheses\<close> returns the success object, the
  cursor is 3, one node id is returned for each item that passed, and the errors list
  holds one entry for each item that failed, with the number of the item. If no
  processed item passes, it returns the failure object and the cursor stays at 2. In
  both cases the vertex map holds the hypothesis node of every item that passed under
  its id \<open>3.d.k\<close>, and the id of an item that failed is left as it was. The statement
  is then instantiated at a batch of five items whose second item is the empty string
  (success, four nodes, one error, no node \<open>3.6.2\<close>), at a batch of three invalid
  items (failure, cursor 2), and at a batch of three items whose impact score is the
  string \<open>1.0000000000000001\<close>, which is read as 1 (success, three nodes).
\<close>

theorem generateHypotheses_partial_failure:
  fixes g :: graph and did :: string and hs :: "jsval list" and cfg :: jsval
  defines "items \<equiv> take (maxHypotheses (validateHypothesisConfig (with_default cfg (JObj [])))) hs"
  defines "out \<equiv> generateHypotheses g (JStr did) (JArr hs) cfg"
  assumes "currentStage g = 2"
    and "map_has (layers g) ''theoretical'' \<or> map_has (layers g) ''base''"
    and "matches_dimension_format did"
    and "map_of (vertices g) did = Some n"
    and "node_type n = ''dimension''"
    and "3 \<le> length hs" and "length hs \<le> 5"
  shows "((\<exists>j < length items. \<not> isl (validateHypothesis (items ! j) j)) \<longrightarrow>
            hyp_success (snd out) \<and> currentStage (fst out) = 3
            \<and> hypothesis_nodes (snd out)
                = map (\<lambda>(j, h). ''3.'' @ drop 2 did @ ''.'' @ show_nat (j + 1))
                    (filter (\<lambda>(j, h). \<not> isl (validateHypothesis h j)) (enumerate 0 items))
            \<and> result_errors (snd out)
                = map (\<lambda>(j, h). (j + 1, projl (validateHypothesis h j)))
                    (filter (\<lambda>(j, h). isl (validateHypothesis h j)) (enumerate 0 items)))
       \<and> ((\<forall>j < length items. isl (validateHypothesis (items ! j) j)) \<longrightarrow>
            \<not> hyp_success (snd out) \<and> currentStage (fst out) = 2)
       \<and> (\<forall>j < length items. \<forall>vh. validateHypothesis (items ! j) j = Inr vh \<longrightarrow>
            map_of (vertices (fst out)) (''3.'' @ drop 2 did @ ''.'' @ show_nat (j + 1))
              = Some (hypothesisNode (''3.'' @ drop 2 did @ ''.'' @ show_nat (j + 1)) (drop 2 did) j vh))
       \<and> (\<forall>j < length items. isl (validateHypothesis (items ! j) j) \<longrightarrow>
            map_of (vertices (fst out)) (''3.'' @ drop 2 did @ ''.'' @ show_nat (j + 1))
              = map_of (vertices g) (''3.'' @ drop 2 did @ ''.'' @ show_nat (j + 1)))"
proof -
  obtain g' ns es where l: "hypotheses_loop g did (drop 2 did) 0 items [] [] = (g', ns, es)"
    by (metis prod_cases3)
  from hypotheses_loop_result [OF assms(4), of did "drop 2 did" 0 items "[]" "[]"] l
  have ns: "ns = map (\<lambda>(j, h). ''3.'' @ drop 2 did @ ''.'' @ show_nat (j + 1))
                    (filter (\<lambda>(j, h). \<not> isl (validateHypothesis h j)) (enumerate 0 items))"
    and es: "es = map (\<lambda>(j, h). (j + 1, projl (validateHypothesis h j)))
                    (filter (\<lambda>(j, h). isl (validateHypothesis h j)) (enumerate 0 items))"
    by simp_all
  from hypotheses_loop_frame [of g did "drop 2 did" 0 items "[]" "[]"] l assms(3)
  have st: "currentStage g' = 2" by simp
  from generateHypotheses_run [OF assms(3-9), of cfg] l
  have out: "out = (if ns = [] then (g', HypFailure (NoHypotheses es) 2 ''decomposition'')
          else (g'\<lparr> currentStage := 3, meta_stage := ''hypothesis_planning'' \<rparr>,
                HypSuccess ns 3 ''hypothesis_planning''
                  (if es \<noteq> [] then Some es else None)
                  (if es \<noteq> [] then Some [show_nat (length es) @ '' hypotheses failed to create'']
                   else None)))"
    by (simp add: out_def items_def)
  have ne: "ns \<noteq> [] \<longleftrightarrow> (\<exists>j < length items. \<not> isl (validateHypothesis (items ! j) j))"
    using filter_enumerate_nonempty [of "\<lambda>j h. \<not> isl (validateHypothesis h j)" items]
    by (simp add: ns)
  have vs: "\<And>k. map_of (vertices (fst out)) k = map_of (vertices g') k"
    using out by (cases "ns = []") simp_all
  have created: "\<forall>j < length items. \<forall>vh. validateHypothesis (items ! j) j = Inr vh \<longrightarrow>
            map_of (vertices (fst out)) (''3.'' @ drop 2 did @ ''.'' @ show_nat (j + 1))
              = Some (hypothesisNode (''3.'' @ drop 2 did @ ''.'' @ show_nat (j + 1)) (drop 2 did) j vh)"
  proof (intro allI impI)
    fix j vh assume j: "j < length items" and v: "validateHypothesis (items ! j) j = Inr vh"
    from hypotheses_loop_vertices_created [of j items 0 vh g did "drop 2 did" "[]" "[]"] j v l
    show "map_of (vertices (fst out)) (''3.'' @ drop 2 did @ ''.'' @ show_nat (j + 1))
              = Some (hypothesisNode (''3.'' @ drop 2 did @ ''.'' @ show_nat (j + 1)) (drop 2 did) j vh)"
      by (simp add: vs)
  qed
  have untouched: "\<forall>j < length items. isl (validateHypothesis (items ! j) j) \<longrightarrow>
            map_of (vertices (fst out)) (''3.'' @ drop 2 did @ ''.'' @ show_nat (j + 1))
              = map_of (vertices g) (''3.'' @ drop 2 did @ ''.'' @ show_nat (j + 1))"
  proof (intro allI impI)
    fix j assume j: "j < length items" and r: "isl (validateHypothesis (items ! j) j)"
    have "\<forall>i < length items. \<not> isl (validateHypothesis (items ! i) (0 + i)) \<longrightarrow>
            ''3.'' @ drop 2 did @ ''.'' @ show_nat (j + 1)
              \<noteq> ''3.'' @ drop 2 did @ ''.'' @ show_nat (0 + i + 1)"
    proof (intro allI impI)
      fix i assume "i < length items" and a: "\<not> isl (validateHypothesis (items ! i) (0 + i))"
      with r have "i \<noteq> j" by auto
      then show "''3.'' @ drop 2 did @ ''.'' @ show_nat (j + 1)
              \<noteq> ''3.'' @ drop 2 did @ ''.'' @ show_nat (0 + i + 1)"
        using show_nat_inj [of "j + 1" "i + 1"] by auto
    qed
    from hypotheses_loop_vertices_other [OF this, of g did "[]" "[]"] l
    show "map_of (vertices (fst out)) (''3.'' @ drop 2 did @ ''.'' @ show_nat (j + 1))
              = map_of (vertices g) (''3.'' @ drop 2 did @ ''.'' @ show_nat (j + 1))"
      by (simp add: vs)
  qed
  show ?thesis
  proof (cases "ns = []")
    case True
    with out st ne created untouched show ?thesis by auto
  next
    case False
    with out ne have "hyp_success (snd out)" "currentStage (fst out) = 3"
      "hypothesis_nodes (snd out) = ns" "result_errors (snd out) = es"
      by auto
    with ne False ns es created untouched show ?thesis by auto
  qed
qed

lemma validateHypothesis_string:
  "isl (validateHypothesis (JStr s) j) \<longleftrightarrow> length (trim s) = 0"
  by (simp add: validateHypothesis_def validateHypothesis_try_def Let_def)

lemma validateHypothesis_null: "isl (validateHypothesis JNull j)"
  by (simp add: validateHypothesis_def validateHypothesis_try_def Let_def)

text \<open>
  Items that the coercion decides: an impact score given as the string
  \<open>1.0000000000000001\<close> is read as the double 1 and accepted, the string
  \<open>1.0000000000000003\<close> is read as the next double above 1 and rejected, and an item
  whose impact score or tag cannot be converted fails with the wrapped
  \<^verbatim>\<open>TypeError\<close>.
\<close>

lemma validateHypothesis_examples:
  "validateHypothesis (JObj [(''content'', JStr ''H text''), (''impact_score'', JStr ''1.0000000000000001'')]) j
     = Inr \<lparr> vh_content = ''H text'', vh_confidence = None, vh_falsification_criteria = None,
             vh_plan = None, vh_impact_score = Some 1, vh_disciplinary_tags = None,
             vh_attribution = None, vh_needs_plan = True, vh_needs_falsification_criteria = True \<rparr>"
  "isl (validateHypothesis (JObj [(''content'', JStr ''H text''), (''impact_score'', JStr ''1.0000000000000003'')]) j)"
  "validateHypothesis (JObj [(''content'', JStr ''H text''),
                             (''impact_score'', JObj [(''toString'', JNull)])]) 0
     = Inl (McpInvalidParams ''Hypothesis 1 validation failed: Cannot convert object to primitive value'')"
  "validateHypothesis (JObj [(''content'', JStr ''H text''),
                             (''disciplinary_tags'', JArr [JStr ''a'', JObj [(''toString'', JNull)]])]) 0
     = Inl (McpInvalidParams ''Hypothesis 1 validation failed: Cannot convert object to primitive value'')"
proof -
  have tr: "trim ''H text'' = ''H text''" "trim ''a'' = ''a''" by (simp_all add: trim_def is_ws_def)
  show "validateHypothesis (JObj [(''content'', JStr ''H text''), (''impact_score'', JStr ''1.0000000000000001'')]) j
     = Inr \<lparr> vh_content = ''H text'', vh_confidence = None, vh_falsification_criteria = None,
             vh_plan = None, vh_impact_score = Some 1, vh_disciplinary_tags = None,
             vh_attribution = None, vh_needs_plan = True, vh_needs_falsification_criteria = True \<rparr>"
    by (simp add: validateHypothesis_def validateHypothesis_try_def validate_hypothesis_object_def
          Let_def tr Number_js_def StringToNumber_examples clean_optional_def)
  show "isl (validateHypothesis (JObj [(''content'', JStr ''H text''), (''impact_score'', JStr ''1.0000000000000003'')]) j)"
    by (simp add: validateHypothesis_def validateHypothesis_try_def validate_hypothesis_object_def
          Let_def tr Number_js_def clean_optional_def string_to_number_defs
          to_double_normal [where e = 0] pow2_def round_half_even_def)
  show "validateHypothesis (JObj [(''content'', JStr ''H text''),
                             (''impact_score'', JObj [(''toString'', JNull)])]) 0
     = Inl (McpInvalidParams ''Hypothesis 1 validation failed: Cannot convert object to primitive value'')"
    by (simp add: validateHypothesis_def validateHypothesis_try_def validate_hypothesis_object_def
          Let_def tr Number_js_def clean_optional_def cannot_convert_def)
  show "validateHypothesis (JObj [(''content'', JStr ''H text''),
                             (''disciplinary_tags'', JArr [JStr ''a'', JObj [(''toString'', JNull)]])]) 0
     = Inl (McpInvalidParams ''Hypothesis 1 validation failed: Cannot convert object to primitive value'')"
    by (simp add: validateHypothesis_def validateHypothesis_try_def validate_hypothesis_object_def
          Let_def tr Number_js_def clean_optional_def cannot_convert_def)
qed

lemma default_maxHypotheses:
  "maxHypotheses (validateHypothesisConfig (with_default JUndefined (JObj []))) = 5"
  by (simp add: maxHypotheses_def validateHypothesisConfig_def with_default_def)

lemma format_2_6: "matches_dimension_format ''2.6''"
  by (simp add: matches_dimension_format_def is_digit_def)

theorem generateHypotheses_partial_failure_witness:
  "hyp_success (snd (generateHypotheses
         (fst (decomposeTask
                     (fst (initialize (new_graph True)
                             (JStr ''Investigate the role of skin microbiome in disease'')
                             JUndefined JUndefined))
                     None))
         (JStr ''2.6'') (JArr [JStr ''H1 text'', JStr [], JStr ''H3 text'', JStr ''H4 text'', JStr ''H5 text'']) JUndefined))
   \<and> length (hypothesis_nodes (snd (generateHypotheses
         (fst (decomposeTask
                     (fst (initialize (new_graph True)
                             (JStr ''Investigate the role of skin microbiome in disease'')
                             JUndefined JUndefined))
                     None))
         (JStr ''2.6'') (JArr [JStr ''H1 text'', JStr [], JStr ''H3 text'', JStr ''H4 text'', JStr ''H5 text'']) JUndefined))) = 4
   \<and> length (result_errors (snd (generateHypotheses
         (fst (decomposeTask
                     (fst (initialize (new_graph True)
                             (JStr ''Investigate the role of skin microbiome in disease'')
                             JUndefined JUndefined))
                     None))
         (JStr ''2.6'') (JArr [JStr ''H1 text'', JStr [], JStr ''H3 text'', JStr ''H4 text'', JStr ''H5 text'']) JUndefined))) = 1
   \<and> currentStage (fst (generateHypotheses
         (fst (decomposeTask
                     (fst (initialize (new_graph True)
                             (JStr ''Investigate the role of skin microbiome in disease'')
                             JUndefined JUndefined))
                     None))
         (JStr ''2.6'') (JArr [JStr ''H1 text'', JStr [], JStr ''H3 text'', JStr ''H4 text'', JStr ''H5 text'']) JUndefined)) = 3
   \<and> map_option node_type (map_of (vertices (fst (generateHypotheses
         (fst (decomposeTask
                     (fst (initialize (new_graph True)
                             (JStr ''Investigate the role of skin microbiome in disease'')
                             JUndefined JUndefined))
                     None))
         (JStr ''2.6'') (JArr [JStr ''H1 text'', JStr [], JStr ''H3 text'', JStr ''H4 text'', JStr ''H5 text'']) JUndefined))) ''3.6.1'') = Some ''hypothesis''
   \<and> map_of (vertices (fst (generateHypotheses
         (fst (decomposeTask
                     (fst (initialize (new_graph True)
                             (JStr ''Investigate the role of skin microbiome in disease'')
                             JUndefined JUndefined))
                     None))
         (JStr ''2.6'') (JArr [JStr ''H1 text'', JStr [], JStr ''H3 text'', JStr ''H4 text'', JStr ''H5 text'']) JUndefined))) ''3.6.2'' = None
   \<and> map_option node_type (map_of (vertices (fst (generateHypotheses
         (fst (decomposeTask
                     (fst (initialize (new_graph True)
                             (JStr ''Investigate the role of skin microbiome in disease'')
                             JUndefined JUndefined))
                     None))
         (JStr ''2.6'') (JArr [JStr ''H1 text'', JStr [], JStr ''H3 text'', JStr ''H4 text'', JStr ''H5 text'']) JUndefined))) ''3.6.5'') = Some ''hypothesis''
   \<and> \<not> hyp_success (snd (generateHypotheses
         (fst (decomposeTask
                     (fst (initialize (new_graph True)
                             (JStr ''Investigate the role of skin microbiome in disease'')
                             JUndefined JUndefined))
                     None))
         (JStr ''2.6'') (JArr [JStr [], JStr ''  '', JNull]) JUndefined))
   \<and> currentStage (fst (generateHypotheses
         (fst (decomposeTask
                     (fst (initialize (new_graph True)
                             (JStr ''Investigate the role of skin microbiome in disease'')
                             JUndefined JUndefined))
                     None))
         (JStr ''2.6'') (JArr [JStr [], JStr ''  '', JNull]) JUndefined)) = 2
   \<and> hyp_success (snd (generateHypotheses
         (fst (decomposeTask
                     (fst (initialize (new_graph True)
                             (JStr ''Investigate the role of skin microbiome in disease'')
                             JUndefined JUndefined))
                     None))
         (JStr ''2.6'')
         (JArr [JObj [(''content'', JStr ''H text''), (''impact_score'', JStr ''1.0000000000000001'')],
            JObj [(''content'', JStr ''H text''), (''impact_score'', JStr ''1.0000000000000001'')],
            JObj [(''content'', JStr ''H text''), (''impact_score'', JStr ''1.0000000000000001'')]]) JUndefined))
   \<and> length (hypothesis_nodes (snd (generateHypotheses
         (fst (decomposeTask
                     (fst (initialize (new_graph True)
                             (JStr ''Investigate the role of skin microbiome in disease'')
                             JUndefined JUndefined))
                     None))
         (JStr ''2.6'')
         (JArr [JObj [(''content'', JStr ''H text''), (''impact_score'', JStr ''1.0000000000000001'')],
            JObj [(''content'', JStr ''H text''), (''impact_score'', JStr ''1.0000000000000001'')],
            JObj [(''content'', JStr ''H text''), (''impact_score'', JStr ''1.0000000000000001'')]]) JUndefined))) = 3
   \<and> currentStage (fst (generateHypotheses
         (fst (decomposeTask
                     (fst (initialize (new_graph True)
                             (JStr ''Investigate the role of skin microbiome in disease'')
                             JUndefined JUndefined))
                     None))
         (JStr ''2.6'')
         (JArr [JObj [(''content'', JStr ''H text''), (''impact_score'', JStr ''1.0000000000000001'')],
            JObj [(''content'', JStr ''H text''), (''impact_score'', JStr ''1.0000000000000001'')],
            JObj [(''content'', JStr ''H text''), (''impact_score'', JStr ''1.0000000000000001'')]]) JUndefined)) = 3
   \<and> map_option (\<lambda>n. md_impact_score (metadata n))
        (map_of (vertices (fst (generateHypotheses
         (fst (decomposeTask
                     (fst (initialize (new_graph True)
                             (JStr ''Investigate the role of skin microbiome in disease'')
                             JUndefined JUndefined))
                     None))
         (JStr ''2.6'')
         (JArr [JObj [(''content'', JStr ''H text''), (''impact_score'', JStr ''1.0000000000000001'')],
            JObj [(''content'', JStr ''H text''), (''impact_score'', JStr ''1.0000000000000001'')],
            JObj [(''content'', JStr ''H text''), (''impact_score'', JStr ''1.0000000000000001'')]]) JUndefined))) ''3.6.1'') = Some 1"
proof -
  have nt: "node_type (dimensionNode ''2.6'' ''Potential Biases'') = ''dimension''"
    by (simp add: dimensionNode_fields)
  have tr: "trim ''H1 text'' = ''H1 text''" "trim ''H3 text'' = ''H3 text''"
    "trim ''H4 text'' = ''H4 text''" "trim ''H5 text'' = ''H5 text''"
    "trim [] = []" "trim ''  '' = []"
    by (simp_all add: trim_def is_ws_def)
  note t5 = generateHypotheses_partial_failure
              [OF example_decomposed(1) disjI2 [OF example_decomposed(2)] format_2_6
                  example_decomposed(3) nt,
               of "[JStr ''H1 text'', JStr [], JStr ''H3 text'', JStr ''H4 text'', JStr ''H5 text'']" JUndefined]
  have e5: "\<exists>j < length (take (maxHypotheses (validateHypothesisConfig (with_default JUndefined (JObj []))))
                           [JStr ''H1 text'', JStr [], JStr ''H3 text'', JStr ''H4 text'', JStr ''H5 text'']).
              \<not> isl (validateHypothesis
                       (take (maxHypotheses (validateHypothesisConfig (with_default JUndefined (JObj []))))
                          [JStr ''H1 text'', JStr [], JStr ''H3 text'', JStr ''H4 text'', JStr ''H5 text''] ! j) j)"
    by (rule exI [of _ 0]) (simp add: default_maxHypotheses validateHypothesis_string tr)
  from t5 e5 have a: "hyp_success (snd (generateHypotheses
         (fst (decomposeTask
                     (fst (initialize (new_graph True)
                             (JStr ''Investigate the role of skin microbiome in disease'')
                             JUndefined JUndefined))
                     None))
         (JStr ''2.6'') (JArr [JStr ''H1 text'', JStr [], JStr ''H3 text'', JStr ''H4 text'', JStr ''H5 text'']) JUndefined))
   \<and> length (hypothesis_nodes (snd (generateHypotheses
         (fst (decomposeTask
                     (fst (initialize (new_graph True)
                             (JStr ''Investigate the role of skin microbiome in disease'')
                             JUndefined JUndefined))
                     None))
         (JStr ''2.6'') (JArr [JStr ''H1 text'', JStr [], JStr ''H3 text'', JStr ''H4 text'', JStr ''H5 text'']) JUndefined))) = 4
   \<and> length (result_errors (snd (generateHypotheses
         (fst (decomposeTask
                     (fst (initialize (new_graph True)
                             (JStr ''Investigate the role of skin microbiome in disease'')
                             JUndefined JUndefined))
                     None))
         (JStr ''2.6'') (JArr [JStr ''H1 text'', JStr [], JStr ''H3 text'', JStr ''H4 text'', JStr ''H5 text'']) JUndefined))) = 1
   \<and> currentStage (fst (generateHypotheses
         (fst (decomposeTask
                     (fst (initialize (new_graph True)
                             (JStr ''Investigate the role of skin microbiome in disease'')
                             JUndefined JUndefined))
                     None))
         (JStr ''2.6'') (JArr [JStr ''H1 text'', JStr [], JStr ''H3 text'', JStr ''H4 text'', JStr ''H5 text'']) JUndefined)) = 3"
    by (simp add: default_maxHypotheses validateHypothesis_string tr enumerate_simps)
  obtain v1 where v1: "validateHypothesis (JStr ''H1 text'') 0 = Inr v1"
    using validateHypothesis_string [of "''H1 text''" 0] tr by (cases "validateHypothesis (JStr ''H1 text'') 0") auto
  obtain v5 where v5: "validateHypothesis (JStr ''H5 text'') 4 = Inr v5"
    using validateHypothesis_string [of "''H5 text''" 4] tr by (cases "validateHypothesis (JStr ''H5 text'') 4") auto
  have r2: "isl (validateHypothesis (JStr []) 1)"
    by (simp add: validateHypothesis_string tr)
  from t5 have c: "\<forall>j < 5. \<forall>vh. validateHypothesis ([JStr ''H1 text'', JStr [], JStr ''H3 text'', JStr ''H4 text'', JStr ''H5 text''] ! j) j = Inr vh \<longrightarrow>
            map_of (vertices (fst (generateHypotheses
         (fst (decomposeTask
                     (fst (initialize (new_graph True)
                             (JStr ''Investigate the role of skin microbiome in disease'')
                             JUndefined JUndefined))
                     None))
         (JStr ''2.6'') (JArr [JStr ''H1 text'', JStr [], JStr ''H3 text'', JStr ''H4 text'', JStr ''H5 text'']) JUndefined))) (''3.'' @ drop 2 ''2.6'' @ ''.'' @ show_nat (j + 1))
              = Some (hypothesisNode (''3.'' @ drop 2 ''2.6'' @ ''.'' @ show_nat (j + 1)) (drop 2 ''2.6'') j vh)"
    and u: "\<forall>j < 5. isl (validateHypothesis ([JStr ''H1 text'', JStr [], JStr ''H3 text'', JStr ''H4 text'', JStr ''H5 text''] ! j) j) \<longrightarrow>
            map_of (vertices (fst (generateHypotheses
         (fst (decomposeTask
                     (fst (initialize (new_graph True)
                             (JStr ''Investigate the role of skin microbiome in disease'')
                             JUndefined JUndefined))
                     None))
         (JStr ''2.6'') (JArr [JStr ''H1 text'', JStr [], JStr ''H3 text'', JStr ''H4 text'', JStr ''H5 text'']) JUndefined))) (''3.'' @ drop 2 ''2.6'' @ ''.'' @ show_nat (j + 1))
              = map_of (vertices (fst (decomposeTask
            (fst (initialize (new_graph True)
                    (JStr ''Investigate the role of skin microbiome in disease'')
                    JUndefined JUndefined))
            None))) (''3.'' @ drop 2 ''2.6'' @ ''.'' @ show_nat (j + 1))"
    by (simp_all add: default_maxHypotheses)
  from c [rule_format, of 0 v1] v1
  have n1: "map_option node_type (map_of (vertices (fst (generateHypotheses
         (fst (decomposeTask
                     (fst (initialize (new_graph True)
                             (JStr ''Investigate the role of skin microbiome in disease'')
                             JUndefined JUndefined))
                     None))
         (JStr ''2.6'') (JArr [JStr ''H1 text'', JStr [], JStr ''H3 text'', JStr ''H4 text'', JStr ''H5 text'']) JUndefined))) ''3.6.1'') = Some ''hypothesis''"
    by (simp add: hypothesisNode_fields show_nat_lt10 digit_char_def)
  from c [rule_format, of 4 v5] v5
  have n5: "map_option node_type (map_of (vertices (fst (generateHypotheses
         (fst (decomposeTask
                     (fst (initialize (new_graph True)
                             (JStr ''Investigate the role of skin microbiome in disease'')
                             JUndefined JUndefined))
                     None))
         (JStr ''2.6'') (JArr [JStr ''H1 text'', JStr [], JStr ''H3 text'', JStr ''H4 text'', JStr ''H5 text'']) JUndefined))) ''3.6.5'') = Some ''hypothesis''"
    by (simp add: hypothesisNode_fields show_nat_lt10 digit_char_def)
  from u [rule_format, of 1] r2
  have n2: "map_of (vertices (fst (generateHypotheses
         (fst (decomposeTask
                     (fst (initialize (new_graph True)
                             (JStr ''Investigate the role of skin microbiome in disease'')
                             JUndefined JUndefined))
                     None))
         (JStr ''2.6'') (JArr [JStr ''H1 text'', JStr [], JStr ''H3 text'', JStr ''H4 text'', JStr ''H5 text'']) JUndefined))) ''3.6.2'' = None"
    by (simp add: example_decomposed(4) show_nat_lt10 digit_char_def)
  note t0 = generateHypotheses_partial_failure
              [OF example_decomposed(1) disjI2 [OF example_decomposed(2)] format_2_6
                  example_decomposed(3) nt,
               of "[JStr [], JStr ''  '', JNull]" JUndefined]
  have e0: "\<forall>j < length (take (maxHypotheses (validateHypothesisConfig (with_default JUndefined (JObj []))))
                           [JStr [], JStr ''  '', JNull]).
              isl (validateHypothesis
                       (take (maxHypotheses (validateHypothesisConfig (with_default JUndefined (JObj []))))
                          [JStr [], JStr ''  '', JNull] ! j) j)"
    by (simp add: default_maxHypotheses validateHypothesis_string validateHypothesis_null tr
          less_Suc_eq numeral_3_eq_3)
  from t0 e0 have b: "\<not> hyp_success (snd (generateHypotheses
         (fst (decomposeTask
                     (fst (initialize (new_graph True)
                             (JStr ''Investigate the role of skin microbiome in disease'')
                             JUndefined JUndefined))
                     None))
         (JStr ''2.6'') (JArr [JStr [], JStr ''  '', JNull]) JUndefined)) \<and> currentStage (fst (generateHypotheses
         (fst (decomposeTask
                     (fst (initialize (new_graph True)
                             (JStr ''Investigate the role of skin microbiome in disease'')
                             JUndefined JUndefined))
                     None))
         (JStr ''2.6'') (JArr [JStr [], JStr ''  '', JNull]) JUndefined)) = 2"
    by simp
  note vr = validateHypothesis_examples(1)
  note t3 = generateHypotheses_partial_failure
              [OF example_decomposed(1) disjI2 [OF example_decomposed(2)] format_2_6
                  example_decomposed(3) nt,
               of "[JObj [(''content'', JStr ''H text''), (''impact_score'', JStr ''1.0000000000000001'')],
            JObj [(''content'', JStr ''H text''), (''impact_score'', JStr ''1.0000000000000001'')],
            JObj [(''content'', JStr ''H text''), (''impact_score'', JStr ''1.0000000000000001'')]]" JUndefined]
  have e3: "\<exists>j < length (take (maxHypotheses (validateHypothesisConfig (with_default JUndefined (JObj []))))
                           [JObj [(''content'', JStr ''H text''), (''impact_score'', JStr ''1.0000000000000001'')],
            JObj [(''content'', JStr ''H text''), (''impact_score'', JStr ''1.0000000000000001'')],
            JObj [(''content'', JStr ''H text''), (''impact_score'', JStr ''1.0000000000000001'')]]).
              \<not> isl (validateHypothesis
                       (take (maxHypotheses (validateHypothesisConfig (with_default JUndefined (JObj []))))
                          [JObj [(''content'', JStr ''H text''), (''impact_score'', JStr ''1.0000000000000001'')],
            JObj [(''content'', JStr ''H text''), (''impact_score'', JStr ''1.0000000000000001'')],
            JObj [(''content'', JStr ''H text''), (''impact_score'', JStr ''1.0000000000000001'')]] ! j) j)"
    by (rule exI [of _ 0]) (simp add: default_maxHypotheses vr)
  from t3 e3 have a3: "hyp_success (snd (generateHypotheses
         (fst (decomposeTask
                     (fst (initialize (new_graph True)
                             (JStr ''Investigate the role of skin microbiome in disease'')
                             JUndefined JUndefined))
                     None))
         (JStr ''2.6'')
         (JArr [JObj [(''content'', JStr ''H text''), (''impact_score'', JStr ''1.0000000000000001'')],
            JObj [(''content'', JStr ''H text''), (''impact_score'', JStr ''1.0000000000000001'')],
            JObj [(''content'', JStr ''H text''), (''impact_score'', JStr ''1.0000000000000001'')]]) JUndefined))
   \<and> length (hypothesis_nodes (snd (generateHypotheses
         (fst (decomposeTask
                     (fst (initialize (new_graph True)
                             (JStr ''Investigate the role of skin microbiome in disease'')
                             JUndefined JUndefined))
                     None))
         (JStr ''2.6'')
         (JArr [JObj [(''content'', JStr ''H text''), (''impact_score'', JStr ''1.0000000000000001'')],
            JObj [(''content'', JStr ''H text''), (''impact_score'', JStr ''1.0000000000000001'')],
            JObj [(''content'', JStr ''H text''), (''impact_score'', JStr ''1.0000000000000001'')]]) JUndefined))) = 3
   \<and> currentStage (fst (generateHypotheses
         (fst (decomposeTask
                     (fst (initialize (new_graph True)
                             (JStr ''Investigate the role of skin microbiome in disease'')
                             JUndefined JUndefined))
                     None))
         (JStr ''2.6'')
         (JArr [JObj [(''content'', JStr ''H text''), (''impact_score'', JStr ''1.0000000000000001'')],
            JObj [(''content'', JStr ''H text''), (''impact_score'', JStr ''1.0000000000000001'')],
            JObj [(''content'', JStr ''H text''), (''impact_score'', JStr ''1.0000000000000001'')]]) JUndefined)) = 3"
    by (simp add: default_maxHypotheses vr enumerate_simps)
  from t3 have c3: "\<forall>j < 3. \<forall>vh. validateHypothesis ([JObj [(''content'', JStr ''H text''), (''impact_score'', JStr ''1.0000000000000001'')],
            JObj [(''content'', JStr ''H text''), (''impact_score'', JStr ''1.0000000000000001'')],
            JObj [(''content'', JStr ''H text''), (''impact_score'', JStr ''1.0000000000000001'')]] ! j) j = Inr vh \<longrightarrow>
            map_of (vertices (fst (generateHypotheses
         (fst (decomposeTask
                     (fst (initialize (new_graph True)
                             (JStr ''Investigate the role of skin microbiome in disease'')
                             JUndefined JUndefined))
                     None))
         (JStr ''2.6'')
         (JArr [JObj [(''content'', JStr ''H text''), (''impact_score'', JStr ''1.0000000000000001'')],
            JObj [(''content'', JStr ''H text''), (''impact_score'', JStr ''1.0000000000000001'')],
            JObj [(''content'', JStr ''H text''), (''impact_score'', JStr ''1.0000000000000001'')]]) JUndefined))) (''3.'' @ drop 2 ''2.6'' @ ''.'' @ show_nat (j + 1))
              = Some (hypothesisNode (''3.'' @ drop 2 ''2.6'' @ ''.'' @ show_nat (j + 1)) (drop 2 ''2.6'') j vh)"
    by (simp add: default_maxHypotheses)
  from c3 [rule_format, of 0] vr [of 0]
  have n3: "map_option (\<lambda>n. md_impact_score (metadata n))
        (map_of (vertices (fst (generateHypotheses
         (fst (decomposeTask
                     (fst (initialize (new_graph True)
                             (JStr ''Investigate the role of skin microbiome in disease'')
                             JUndefined JUndefined))
                     None))
         (JStr ''2.6'')
         (JArr [JObj [(''content'', JStr ''H text''), (''impact_score'', JStr ''1.0000000000000001'')],
            JObj [(''content'', JStr ''H text''), (''impact_score'', JStr ''1.0000000000000001'')],
            JObj [(''content'', JStr ''H text''), (''impact_score'', JStr ''1.0000000000000001'')]]) JUndefined))) ''3.6.1'') = Some 1"
    by (simp add: hypothesisNode_def createNodeMetadata_def validateImpactScore_def Let_def
          show_nat_lt10 digit_char_def)
  from a n1 n2 n5 b a3 n3 show ?thesis by blast
qed

lemma validateDimensionNodeId_Inr:
  "validateDimensionNodeId d vs = Inr did \<Longrightarrow> d = JStr did"
  by (auto simp add: validateDimensionNodeId_def split: jsval.splits if_splits)

lemma validateHypothesesArray_Inr:
  "validateHypothesesArray hyps = Inr hs \<longleftrightarrow> hyps = JArr hs \<and> 3 \<le> length hs \<and> length hs \<le> 5"
  by (auto simp add: validateHypothesesArray_def split: jsval.splits)

lemma generateHypotheses_try_shape:
  "(\<exists>e. generateHypotheses_try g d hyps cfg = (g, Inl e))
   \<or> (\<exists>hs did dn. hyps = JArr hs \<and> 3 \<le> length hs \<and> length hs \<le> 5
         \<and> generateHypotheses_try g d hyps cfg =
             (case hypotheses_loop g did dn 0 (take (maxHypotheses (validateHypothesisConfig cfg)) hs)
                     [] [] of
                (g', ns, es) \<Rightarrow>
                  if ns = [] then (g', Inl (NoHypotheses es))
                  else (g'\<lparr> currentStage := 3, meta_stage := ''hypothesis_planning'' \<rparr>,
                        Inr (HypSuccess ns 3 ''hypothesis_planning''
                          (if es \<noteq> [] then Some es else None)
                          (if es \<noteq> [] then Some [show_nat (length es) @ '' hypotheses failed to create'']
                           else None)))))"
proof (cases "currentStage g \<noteq> 2")
  case True
  then show ?thesis by (simp add: generateHypotheses_try_def)
next
  case st: False
  show ?thesis
  proof (cases "validateDimensionNodeId d (vertices g)")
    case (Inl e)
    with st show ?thesis by (simp add: generateHypotheses_try_def)
  next
    case (Inr did)
    show ?thesis
    proof (cases "map_of (vertices g) did")
      case None
      with st Inr show ?thesis by (simp add: generateHypotheses_try_def)
    next
      case (Some n)
      show ?thesis
      proof (cases "node_type n \<noteq> ''dimension''")
        case True
        with st Inr Some show ?thesis by (simp add: generateHypotheses_try_def)
      next
        case ty: False
        show ?thesis
        proof (cases "validateHypothesesArray hyps")
          case (Inl e)
          with st Inr Some ty show ?thesis by (simp add: generateHypotheses_try_def)
        next
          case hsr: (Inr hs)
          then have h: "hyps = JArr hs" "3 \<le> length hs" "length hs \<le> 5"
            by (simp_all add: validateHypothesesArray_Inr)
          show ?thesis
          proof (cases "length (split_on CHR ''.'' did) < 2")
            case True
            with st Inr Some ty hsr show ?thesis by (simp add: generateHypotheses_try_def Let_def)
          next
            case False
            with st Inr Some ty hsr
            have "generateHypotheses_try g d hyps cfg =
               (case hypotheses_loop g did (split_on CHR ''.'' did ! 1) 0
                       (take (maxHypotheses (validateHypothesisConfig cfg)) hs) [] [] of
                  (g', ns, es) \<Rightarrow>
                    if ns = [] then (g', Inl (NoHypotheses es))
                    else (g'\<lparr> currentStage := 3, meta_stage := ''hypothesis_planning'' \<rparr>,
                          Inr (HypSuccess ns 3 ''hypothesis_planning''
                            (if es \<noteq> [] then Some es else None)
                            (if es \<noteq> [] then Some [show_nat (length es) @ '' hypotheses failed to create'']
                             else None))))"
              by (simp add: generateHypotheses_try_def Let_def stageNames_def split: prod.splits)
            with h show ?thesis by blast
          qed
        qed
      qed
    qed
  qed
qed

lemma maxHypotheses_config:
  "maxHypotheses (validateHypothesisConfig (with_default cfg (JObj [])))
     = (case Number_js (get_prop cfg ''max_hypotheses'') of
          Inr (Fin m) \<Rightarrow> if 1 \<le> m \<and> m \<le> 5 then nat \<lfloor>m\<rfloor> else 5
        | _ \<Rightarrow> 5)"
proof (cases cfg)
  case (JObj kvs)
  show ?thesis
  proof (cases "Number_js (get_prop cfg ''max_hypotheses'')")
    case (Inl e)
    with JObj show ?thesis
      by (auto simp add: maxHypotheses_def validateHypothesisConfig_def with_default_def Let_def)
  next
    case (Inr num)
    show ?thesis
    proof (cases num)
      case (Fin m)
      have "m \<le> 5 \<Longrightarrow> nat \<lfloor>m\<rfloor> \<le> 5" by linarith
      moreover have "1 \<le> m \<Longrightarrow> nat \<lfloor>m\<rfloor> \<noteq> 0" by linarith
      moreover have "0 < m \<Longrightarrow> \<not> 1 \<le> m \<Longrightarrow> nat \<lfloor>m\<rfloor> = 0" by linarith
      ultimately show ?thesis using JObj Inr Fin
        by (auto simp add: maxHypotheses_def validateHypothesisConfig_def with_default_def Let_def
              Number_js_def)
    qed (use JObj Inr in \<open>auto simp add: maxHypotheses_def validateHypothesisConfig_def
                                with_default_def Let_def Number_js_def split: if_splits\<close>)
  qed
qed (simp_all add: maxHypotheses_def validateHypothesisConfig_def with_default_def Let_def Number_js_def)

lemma maxHypotheses_range: "1 \<le> maxHypotheses mh \<and> maxHypotheses mh \<le> 5"
  by (simp add: maxHypotheses_def split: option.splits)

text \<open>
  C6, as stated, fails in its bound: with \<^verbatim>\<open>max_hypotheses\<close> set to 0 the claimed
  bound is \<open>min(0, 5) = 0\<close>, but the configuration check takes 0 for an invalid value
  and falls back to 5, so three valid items create three hypothesis nodes.
\<close>

theorem generateHypotheses_zero_maximum:
  "length (hypothesis_nodes (snd (generateHypotheses
         (fst (decomposeTask
                     (fst (initialize (new_graph True)
                             (JStr ''Investigate the role of skin microbiome in disease'')
                             JUndefined JUndefined))
                     None))
         (JStr ''2.6'') (JArr [JStr ''H1 text'', JStr ''H2 text'', JStr ''H3 text'']) (JObj [(''max_hypotheses'', JNum (Fin 0))])))) = 3
   \<and> Number_js (get_prop (JObj [(''max_hypotheses'', JNum (Fin 0))]) ''max_hypotheses'') = Inr (Fin 0)"
proof -
  have nt: "node_type (dimensionNode ''2.6'' ''Potential Biases'') = ''dimension''"
    by (simp add: dimensionNode_fields)
  have tr: "trim ''H1 text'' = ''H1 text''" "trim ''H2 text'' = ''H2 text''"
    "trim ''H3 text'' = ''H3 text''"
    by (simp_all add: trim_def is_ws_def)
  have m: "maxHypotheses (validateHypothesisConfig
             (with_default (JObj [(''max_hypotheses'', JNum (Fin 0))]) (JObj []))) = 5"
    by (simp add: maxHypotheses_def validateHypothesisConfig_def with_default_def Number_js_def)
  note ok = disjI2 [OF example_decomposed(2), of "map_has (layers (fst (decomposeTask
            (fst (initialize (new_graph True)
                    (JStr ''Investigate the role of skin microbiome in disease'')
                    JUndefined JUndefined))
            None))) ''theoretical''"]
  note run = generateHypotheses_run
               [OF example_decomposed(1) ok format_2_6 example_decomposed(3) nt,
                of "[JStr ''H1 text'', JStr ''H2 text'', JStr ''H3 text'']" "JObj [(''max_hypotheses'', JNum (Fin 0))]"]
  note res = hypotheses_loop_result [OF ok, of "''2.6''" "drop 2 ''2.6''" 0 "[JStr ''H1 text'', JStr ''H2 text'', JStr ''H3 text'']" "[]" "[]"]
  have n: "Number_js (get_prop (JObj [(''max_hypotheses'', JNum (Fin 0))]) ''max_hypotheses'') = Inr (Fin 0)"
    by (simp add: Number_js_def)
  from run res m n show ?thesis
    by (simp add: case_prod_beta validateHypothesis_string tr enumerate_simps)
qed

text \<open>
  C6, amended: \<^verbatim>\<open>generateHypotheses\<close> rejects every hypotheses argument that is not
  an array of 3 to 5 items, whatever the items are: it returns the failure object and
  leaves the graph as it was, and at cursor 2 with an existing dimension node the error
  is the invalid-parameter error for the field \<open>hypotheses\<close>. In every call it creates
  at most \<open>m\<close> hypothesis nodes, where \<open>m\<close> is the integer part of
  \<^verbatim>\<open>config.max_hypotheses\<close> when that value coerces to a number from 1 to 5, and 5 in
  every other case (absent, not a number, not convertible, below 1, above 5). The
  coerced value is a double: the string \<open>1.9999999999999999\<close> is read as 2 and gives
  the bound 2.
\<close>

theorem generateHypotheses_collection_rule:
  "((case hyps of JArr hs \<Rightarrow> length hs < 3 \<or> 5 < length hs | _ \<Rightarrow> True) \<longrightarrow>
       fst (generateHypotheses g d hyps cfg) = g
       \<and> \<not> hyp_success (snd (generateHypotheses g d hyps cfg))
       \<and> (currentStage g = 2 \<and> matches_dimension_format did \<and> d = JStr did
          \<and> map_option node_type (map_of (vertices g) did) = Some ''dimension'' \<longrightarrow>
            (\<exists>expected. snd (generateHypotheses g d hyps cfg)
                          = HypFailure (InvalidParams ''hypotheses'' expected hyps) 2 ''decomposition'')))
   \<and> length (hypothesis_nodes (snd (generateHypotheses g d hyps cfg)))
        \<le> maxHypotheses (validateHypothesisConfig (with_default cfg (JObj [])))
   \<and> length (vertices (fst (generateHypotheses g d hyps cfg)))
        \<le> length (vertices g) + maxHypotheses (validateHypothesisConfig (with_default cfg (JObj [])))
   \<and> maxHypotheses (validateHypothesisConfig (with_default cfg (JObj [])))
        = (case Number_js (get_prop cfg ''max_hypotheses'') of
             Inr (Fin m) \<Rightarrow> if 1 \<le> m \<and> m \<le> 5 then nat \<lfloor>m\<rfloor> else 5
           | _ \<Rightarrow> 5)
   \<and> 1 \<le> maxHypotheses (validateHypothesisConfig (with_default cfg (JObj [])))
   \<and> maxHypotheses (validateHypothesisConfig (with_default cfg (JObj []))) \<le> 5"
proof -
  let ?cfg = "with_default cfg (JObj [])"
  let ?m = "maxHypotheses (validateHypothesisConfig ?cfg)"
  let ?out = "generateHypotheses g d hyps cfg"
  have out: "?out = (case generateHypotheses_try g d hyps ?cfg of
                       (g', Inr r) \<Rightarrow> (g', r)
                     | (g', Inl e) \<Rightarrow>
                         (g', HypFailure e (currentStage g') (stage_name_or_unknown (currentStage g'))))"
    by (simp add: generateHypotheses_def Let_def)
  have reject: "(case hyps of JArr hs \<Rightarrow> length hs < 3 \<or> 5 < length hs | _ \<Rightarrow> True) \<Longrightarrow>
                 fst ?out = g \<and> \<not> hyp_success (snd ?out)"
  proof -
    assume bad: "case hyps of JArr hs \<Rightarrow> length hs < 3 \<or> 5 < length hs | _ \<Rightarrow> True"
    from generateHypotheses_try_shape [of g d hyps ?cfg] bad
    obtain e where "generateHypotheses_try g d hyps ?cfg = (g, Inl e)" by fastforce
    with out show ?thesis by simp
  qed
  have err: "(case hyps of JArr hs \<Rightarrow> length hs < 3 \<or> 5 < length hs | _ \<Rightarrow> True) \<Longrightarrow>
             currentStage g = 2 \<and> matches_dimension_format did \<and> d = JStr did
               \<and> map_option node_type (map_of (vertices g) did) = Some ''dimension'' \<Longrightarrow>
             \<exists>expected. snd ?out = HypFailure (InvalidParams ''hypotheses'' expected hyps) 2 ''decomposition''"
  proof -
    assume bad: "case hyps of JArr hs \<Rightarrow> length hs < 3 \<or> 5 < length hs | _ \<Rightarrow> True"
    assume pre: "currentStage g = 2 \<and> matches_dimension_format did \<and> d = JStr did
               \<and> map_option node_type (map_of (vertices g) did) = Some ''dimension''"
    then obtain n where n: "map_of (vertices g) did = Some n" "node_type n = ''dimension''" by auto
    from pre have ne: "did \<noteq> []" by (auto simp add: matches_dimension_format_def)
    from n have "map_has (vertices g) did" by (simp add: map_has_def)
    with pre ne have v: "validateDimensionNodeId d (vertices g) = Inr did"
      by (simp add: validateDimensionNodeId_def)
    from bad obtain expected where "validateHypothesesArray hyps = Inl (InvalidParams ''hypotheses'' expected hyps)"
      by (auto simp add: validateHypothesesArray_def split: jsval.splits)
    with pre v n have "generateHypotheses_try g d hyps ?cfg = (g, Inl (InvalidParams ''hypotheses'' expected hyps))"
      by (simp add: generateHypotheses_try_def)
    with out pre show ?thesis by simp
  qed
  have bound: "length (hypothesis_nodes (snd ?out)) \<le> ?m
               \<and> length (vertices (fst ?out)) \<le> length (vertices g) + ?m"
  proof -
    from generateHypotheses_try_shape [of g d hyps ?cfg]
    consider (a) e where "generateHypotheses_try g d hyps ?cfg = (g, Inl e)"
      | (b) hs did' dn where "generateHypotheses_try g d hyps ?cfg =
             (case hypotheses_loop g did' dn 0 (take ?m hs) [] [] of
                (g', ns, es) \<Rightarrow>
                  if ns = [] then (g', Inl (NoHypotheses es))
                  else (g'\<lparr> currentStage := 3, meta_stage := ''hypothesis_planning'' \<rparr>,
                        Inr (HypSuccess ns 3 ''hypothesis_planning''
                          (if es \<noteq> [] then Some es else None)
                          (if es \<noteq> [] then Some [show_nat (length es) @ '' hypotheses failed to create'']
                           else None))))"
      by blast
    then show ?thesis
    proof cases
      case a
      with out show ?thesis by simp
    next
      case b
      obtain g' ns es where l: "hypotheses_loop g did' dn 0 (take ?m hs) [] [] = (g', ns, es)"
        by (metis prod_cases3)
      from hypotheses_loop_frame [of g did' dn 0 "take ?m hs" "[]" "[]"] l
      have "length ns + length es = length (take ?m hs)"
        and "length (vertices g') \<le> length (vertices g) + length (take ?m hs)"
        by simp_all
      then have "length ns \<le> ?m" and "length (vertices g') \<le> length (vertices g) + ?m"
        by simp_all
      with b l out show ?thesis by (cases "ns = []") simp_all
    qed
  qed
  from reject err bound maxHypotheses_config [of cfg] maxHypotheses_range
  show ?thesis by blast
qed

theorem generateHypotheses_collection_rule_witness:
  "fst (generateHypotheses
         (fst (decomposeTask
                     (fst (initialize (new_graph True)
                             (JStr ''Investigate the role of skin microbiome in disease'')
                             JUndefined JUndefined))
                     None))
         (JStr ''2.6'') (JArr [JStr ''H1 text'', JStr ''H2 text'']) JUndefined) = (fst (decomposeTask
            (fst (initialize (new_graph True)
                    (JStr ''Investigate the role of skin microbiome in disease'')
                    JUndefined JUndefined))
            None))
   \<and> \<not> hyp_success (snd (generateHypotheses
         (fst (decomposeTask
                     (fst (initialize (new_graph True)
                             (JStr ''Investigate the role of skin microbiome in disease'')
                             JUndefined JUndefined))
                     None))
         (JStr ''2.6'') (JArr [JStr ''H1 text'', JStr ''H2 text'']) JUndefined))
   \<and> (\<exists>expected. snd (generateHypotheses
         (fst (decomposeTask
                     (fst (initialize (new_graph True)
                             (JStr ''Investigate the role of skin microbiome in disease'')
                             JUndefined JUndefined))
                     None))
         (JStr ''2.6'') (JArr [JStr ''H1 text'', JStr ''H2 text'']) JUndefined) = HypFailure (InvalidParams ''hypotheses'' expected (JArr [JStr ''H1 text'', JStr ''H2 text'']))
                                 2 ''decomposition'')
   \<and> length (hypothesis_nodes (snd (generateHypotheses
         (fst (decomposeTask
                     (fst (initialize (new_graph True)
                             (JStr ''Investigate the role of skin microbiome in disease'')
                             JUndefined JUndefined))
                     None))
         (JStr ''2.6'') (JArr [JStr ''H1 text'', JStr [], JStr ''H3 text'', JStr ''H4 text'', JStr ''H5 text'']) (JObj [(''max_hypotheses'', JNum (Fin 2))])))) \<le> 2
   \<and> maxHypotheses (validateHypothesisConfig (with_default (JObj [(''max_hypotheses'', JStr ''1.9999999999999999'')]) (JObj []))) = 2
   \<and> hypothesis_nodes (snd (generateHypotheses
         (fst (decomposeTask
                     (fst (initialize (new_graph True)
                             (JStr ''Investigate the role of skin microbiome in disease'')
                             JUndefined JUndefined))
                     None))
         (JStr ''2.6'') (JArr [JStr ''H1 text'', JStr ''H2 text'', JStr ''H3 text'', JStr ''H4 text'', JStr ''H5 text'']) (JObj [(''max_hypotheses'', JStr ''1.9999999999999999'')]))) = [''3.6.1'', ''3.6.2'']"
proof -
  have nt: "map_option node_type (map_of (vertices (fst (decomposeTask
            (fst (initialize (new_graph True)
                    (JStr ''Investigate the role of skin microbiome in disease'')
                    JUndefined JUndefined))
            None))) ''2.6'') = Some ''dimension''"
    by (simp add: example_decomposed(3) dimensionNode_fields)
  note t2 = generateHypotheses_collection_rule
              [of "JArr [JStr ''H1 text'', JStr ''H2 text'']" "(fst (decomposeTask
            (fst (initialize (new_graph True)
                    (JStr ''Investigate the role of skin microbiome in disease'')
                    JUndefined JUndefined))
            None))" "JStr ''2.6''" JUndefined "''2.6''"]
  from t2 example_decomposed(1) format_2_6 nt
  have a: "fst (generateHypotheses
         (fst (decomposeTask
                     (fst (initialize (new_graph True)
                             (JStr ''Investigate the role of skin microbiome in disease'')
                             JUndefined JUndefined))
                     None))
         (JStr ''2.6'') (JArr [JStr ''H1 text'', JStr ''H2 text'']) JUndefined) = (fst (decomposeTask
            (fst (initialize (new_graph True)
                    (JStr ''Investigate the role of skin microbiome in disease'')
                    JUndefined JUndefined))
            None))
   \<and> \<not> hyp_success (snd (generateHypotheses
         (fst (decomposeTask
                     (fst (initialize (new_graph True)
                             (JStr ''Investigate the role of skin microbiome in disease'')
                             JUndefined JUndefined))
                     None))
         (JStr ''2.6'') (JArr [JStr ''H1 text'', JStr ''H2 text'']) JUndefined))
   \<and> (\<exists>expected. snd (generateHypotheses
         (fst (decomposeTask
                     (fst (initialize (new_graph True)
                             (JStr ''Investigate the role of skin microbiome in disease'')
                             JUndefined JUndefined))
                     None))
         (JStr ''2.6'') (JArr [JStr ''H1 text'', JStr ''H2 text'']) JUndefined) = HypFailure (InvalidParams ''hypotheses'' expected (JArr [JStr ''H1 text'', JStr ''H2 text'']))
                                 2 ''decomposition'')"
    by simp
  note t5 = generateHypotheses_collection_rule
              [of "JArr [JStr ''H1 text'', JStr [], JStr ''H3 text'', JStr ''H4 text'', JStr ''H5 text'']" "(fst (decomposeTask
            (fst (initialize (new_graph True)
                    (JStr ''Investigate the role of skin microbiome in disease'')
                    JUndefined JUndefined))
            None))" "JStr ''2.6''" "JObj [(''max_hypotheses'', JNum (Fin 2))]" "''2.6''"]
  from t5 have b: "length (hypothesis_nodes (snd (generateHypotheses
         (fst (decomposeTask
                     (fst (initialize (new_graph True)
                             (JStr ''Investigate the role of skin microbiome in disease'')
                             JUndefined JUndefined))
                     None))
         (JStr ''2.6'') (JArr [JStr ''H1 text'', JStr [], JStr ''H3 text'', JStr ''H4 text'', JStr ''H5 text'']) (JObj [(''max_hypotheses'', JNum (Fin 2))])))) \<le> 2"
    by (simp add: Number_js_def)
  note tr = generateHypotheses_collection_rule
              [of "JArr [JStr ''H1 text'', JStr ''H2 text'', JStr ''H3 text'', JStr ''H4 text'', JStr ''H5 text'']" "(fst (decomposeTask
                     (fst (initialize (new_graph True)
                             (JStr ''Investigate the role of skin microbiome in disease'')
                             JUndefined JUndefined))
                     None))" "JStr ''2.6''" "(JObj [(''max_hypotheses'', JStr ''1.9999999999999999'')])" "''2.6''"]
  from tr have m: "maxHypotheses (validateHypothesisConfig (with_default (JObj [(''max_hypotheses'', JStr ''1.9999999999999999'')]) (JObj []))) = 2"
    by (simp add: Number_js_def StringToNumber_examples)
  have nd: "node_type (dimensionNode ''2.6'' ''Potential Biases'') = ''dimension''"
    by (simp add: dimensionNode_fields)
  have trm: "trim ''H1 text'' = ''H1 text''" "trim ''H2 text'' = ''H2 text''"
    by (simp_all add: trim_def is_ws_def)
  note ok = disjI2 [OF example_decomposed(2), of "map_has (layers (fst (decomposeTask
                     (fst (initialize (new_graph True)
                             (JStr ''Investigate the role of skin microbiome in disease'')
                             JUndefined JUndefined))
                     None))) ''theoretical''"]
  note run = generateHypotheses_run
               [OF example_decomposed(1) ok format_2_6 example_decomposed(3) nd,
                of "[JStr ''H1 text'', JStr ''H2 text'', JStr ''H3 text'', JStr ''H4 text'', JStr ''H5 text'']" "(JObj [(''max_hypotheses'', JStr ''1.9999999999999999'')])"]
  note res = hypotheses_loop_result [OF ok, of "''2.6''" "drop 2 ''2.6''" 0 "[JStr ''H1 text'', JStr ''H2 text'']" "[]" "[]"]
  from run res m have c: "hypothesis_nodes (snd (generateHypotheses
         (fst (decomposeTask
                     (fst (initialize (new_graph True)
                             (JStr ''Investigate the role of skin microbiome in disease'')
                             JUndefined JUndefined))
                     None))
         (JStr ''2.6'') (JArr [JStr ''H1 text'', JStr ''H2 text'', JStr ''H3 text'', JStr ''H4 text'', JStr ''H5 text'']) (JObj [(''max_hypotheses'', JStr ''1.9999999999999999'')]))) = [''3.6.1'', ''3.6.2'']"
    by (simp add: case_prod_beta validateHypothesis_string trm enumerate_simps show_nat_lt10
          digit_char_def)
  from a b m c show ?thesis by blast
qed

section \<open>The root node along sequences of operations\<close>

lemma set_map_set: "set (map_set k v m) \<subseteq> insert (k, v) (set m)"
  by (induction m) auto

lemma root_invariant_map_set:
  assumes "root_invariant g" and "node_type v = ''root'' \<longleftrightarrow> k = ''n0''"
  shows "distinct (map fst (map_set k v (vertices g)))
         \<and> (\<forall>(k', n) \<in> set (map_set k v (vertices g)). node_type n = ''root'' \<longleftrightarrow> k' = ''n0'')"
proof -
  from assms(1) have d: "distinct (map fst (vertices g))"
    and r: "\<forall>(k, n) \<in> set (vertices g). node_type n = ''root'' \<longleftrightarrow> k = ''n0''"
    by (simp_all add: root_invariant_def)
  from d have "distinct (map fst (map_set k v (vertices g)))" by (rule distinct_map_set)
  moreover from r assms(2) set_map_set [of k v "vertices g"]
  have "\<forall>(k', n) \<in> set (map_set k v (vertices g)). node_type n = ''root'' \<longleftrightarrow> k' = ''n0''"
    by blast
  ultimately show ?thesis by simp
qed

lemma root_invariant_new: "root_invariant (new_graph ml)"
  by (simp add: root_invariant_def new_graph_def Let_def)

lemma root_invariant_initialize: "root_invariant (fst (initialize g td ic cfg))"
proof (cases "init_success (snd (initialize g td ic cfg))")
  case True
  then obtain d vc sc where "currentStage g = 0" "validateTaskDescription td = Inr d"
    "validateConfidenceArray
       (with_default ic (JArr [JNum (Fin 0.8), JNum (Fin 0.8), JNum (Fin 0.8), JNum (Fin 0.8)]))
       ''initial_confidence'' = Inr vc"
    "validateConfig (with_default cfg (JObj [])) = Inr sc"
    using initialize_success_iff [of g td ic cfg] by blast
  from initialize_success(1) [OF this]
  show ?thesis by (simp add: root_invariant_def rootNode_def Let_def)
next
  case False
  from initialize_failed [OF this] show ?thesis by (simp add: root_invariant_def)
qed

lemma root_invariant_decompose_loop:
  "root_invariant g \<Longrightarrow> root_invariant (fst (decompose_loop g idx dims acc))"
proof (induction dims arbitrary: g idx acc)
  case Nil
  then show ?case by simp
next
  case (Cons d dims)
  let ?id = "''2.'' @ show_nat (idx + 1)"
  have ty: "node_type (dimensionNode ?id d) = ''root'' \<longleftrightarrow> ?id = ''n0''"
    by (simp add: dimensionNode_fields)
  let ?g1 = "g\<lparr> vertices := map_set ?id (dimensionNode ?id d) (vertices g),
                 nodeTypes := set_add ''dimension'' (nodeTypes g) \<rparr>"
  from root_invariant_map_set [OF Cons.prems ty]
  have i1: "root_invariant ?g1" by (simp add: root_invariant_def)
  show ?case
  proof (cases "map_has (layers g) ''base''")
    case False
    with i1 show ?thesis by (simp add: Let_def)
  next
    case True
    let ?g3 = "?g1\<lparr> layers := layer_add_node ''base'' ?id (layers g),
                    edges := map_set (''e_n0_'' @ ?id) (decompositionEdge ?id) (edges g) \<rparr>"
    from i1 have "root_invariant ?g3" by (simp add: root_invariant_def)
    from Cons.IH [OF this, of "idx + 1" "acc @ [?id]"] True
    show ?thesis by (simp add: Let_def)
  qed
qed

lemma root_invariant_decomposeTask:
  "root_invariant g \<Longrightarrow> root_invariant (fst (decomposeTask g cd))"
proof -
  assume i: "root_invariant g"
  let ?dims = "case cd of Some ds \<Rightarrow> ds | None \<Rightarrow> defaultDimensions"
  from root_invariant_decompose_loop [OF i, of 0 ?dims "[]"]
  have "root_invariant (fst (decompose_loop g 0 ?dims []))" .
  with i show ?thesis
    by (cases "decompose_loop g 0 ?dims []")
       (auto simp add: decomposeTask_def Let_def root_invariant_def split: sum.splits)
qed

lemma root_invariant_create_hypothesis:
  "root_invariant g \<Longrightarrow> root_invariant (fst (create_hypothesis g d dn i h))"
proof -
  assume inv: "root_invariant g"
  show ?thesis
  proof (cases "validateHypothesis h i")
    case (Inl e)
    with inv show ?thesis by (simp add: create_hypothesis_def Let_def)
  next
    case (Inr vh)
    let ?id = "''3.'' @ dn @ ''.'' @ show_nat (i + 1)"
    have ty: "node_type (hypothesisNode ?id dn i vh) = ''root'' \<longleftrightarrow> ?id = ''n0''"
      by (simp add: hypothesisNode_def Let_def)
    from root_invariant_map_set [OF inv ty] Inr
    show ?thesis by (simp add: create_hypothesis_def Let_def root_invariant_def)
  qed
qed

lemma root_invariant_hypotheses_loop:
  "root_invariant g \<Longrightarrow> root_invariant (fst (hypotheses_loop g d dn idx items ns es))"
proof (induction items arbitrary: g idx ns es)
  case Nil
  then show ?case by simp
next
  case (Cons h items)
  obtain g' r where c: "create_hypothesis g d dn idx h = (g', r)" by (cases "create_hypothesis g d dn idx h")
  from root_invariant_create_hypothesis [OF Cons.prems, of d dn idx h] c
  have "root_invariant g'" by simp
  with c Cons.IH [of g'] show ?case by (cases r) simp_all
qed

lemma root_invariant_generateHypotheses:
  "root_invariant g \<Longrightarrow> root_invariant (fst (generateHypotheses g d hyps cfg))"
proof -
  assume inv: "root_invariant g"
  let ?cfg = "with_default cfg (JObj [])"
  have out: "generateHypotheses g d hyps cfg =
                    (case generateHypotheses_try g d hyps ?cfg of
                       (g', Inr r) \<Rightarrow> (g', r)
                     | (g', Inl e) \<Rightarrow>
                         (g', HypFailure e (currentStage g') (stage_name_or_unknown (currentStage g'))))"
    by (simp add: generateHypotheses_def Let_def)
  from generateHypotheses_try_shape [of g d hyps ?cfg]
  consider (a) e where "generateHypotheses_try g d hyps ?cfg = (g, Inl e)"
    | (b) hs did dn where "generateHypotheses_try g d hyps ?cfg =
             (case hypotheses_loop g did dn 0
                     (take (maxHypotheses (validateHypothesisConfig ?cfg)) hs) [] [] of
                (g', ns, es) \<Rightarrow>
                  if ns = [] then (g', Inl (NoHypotheses es))
                  else (g'\<lparr> currentStage := 3, meta_stage := ''hypothesis_planning'' \<rparr>,
                        Inr (HypSuccess ns 3 ''hypothesis_planning''
                          (if es \<noteq> [] then Some es else None)
                          (if es \<noteq> [] then Some [show_nat (length es) @ '' hypotheses failed to create'']
                           else None))))"
    by blast
  then show ?thesis
  proof cases
    case a
    with out inv show ?thesis by simp
  next
    case b
    obtain g' ns es where l: "hypotheses_loop g did dn 0
                     (take (maxHypotheses (validateHypothesisConfig ?cfg)) hs) [] [] = (g', ns, es)"
      by (metis prod_cases3)
    from root_invariant_hypotheses_loop [OF inv, of did dn 0
            "take (maxHypotheses (validateHypothesisConfig ?cfg)) hs" "[]" "[]"] l
    have "root_invariant g'" by simp
    with b l out show ?thesis by (cases "ns = []") (simp_all add: root_invariant_def)
  qed
qed

lemma root_invariant_step: "root_invariant g \<Longrightarrow> root_invariant (step g op)"
  by (cases op)
     (simp_all add: root_invariant_initialize root_invariant_decomposeTask
        root_invariant_generateHypotheses)

lemma root_invariant_run: "root_invariant g \<Longrightarrow> root_invariant (run g ops)"
  unfolding run_def
  by (induction ops arbitrary: g) (simp_all add: root_invariant_step)

lemma decompose_loop_root:
  "map_of (vertices (fst (decompose_loop g idx dims acc))) ''n0'' = map_of (vertices g) ''n0''"
proof (induction dims arbitrary: g idx acc)
  case Nil
  then show ?case by simp
next
  case (Cons d dims)
  let ?id = "''2.'' @ show_nat (idx + 1)"
  let ?g1 = "g\<lparr> vertices := map_set ?id (dimensionNode ?id d) (vertices g),
                 nodeTypes := set_add ''dimension'' (nodeTypes g) \<rparr>"
  show ?case
  proof (cases "map_has (layers g) ''base''")
    case False
    then show ?thesis by (simp add: Let_def)
  next
    case True
    let ?g3 = "?g1\<lparr> layers := layer_add_node ''base'' ?id (layers g),
                    edges := map_set (''e_n0_'' @ ?id) (decompositionEdge ?id) (edges g) \<rparr>"
    from Cons.IH [of ?g3 "idx + 1" "acc @ [?id]"] True
    show ?thesis by (simp add: Let_def)
  qed
qed

lemma decomposeTask_root:
  "map_of (vertices (fst (decomposeTask g cd))) ''n0'' = map_of (vertices g) ''n0''"
proof -
  let ?dims = "case cd of Some ds \<Rightarrow> ds | None \<Rightarrow> defaultDimensions"
  from decompose_loop_root [of g 0 ?dims "[]"]
  show ?thesis
    by (cases "decompose_loop g 0 ?dims []")
       (auto simp add: decomposeTask_def Let_def split: sum.splits)
qed

lemma create_hypothesis_root:
  "map_of (vertices (fst (create_hypothesis g d dn i h))) ''n0'' = map_of (vertices g) ''n0''"
  by (simp add: create_hypothesis_def Let_def split: sum.splits)

lemma hypotheses_loop_root:
  "map_of (vertices (fst (hypotheses_loop g d dn idx items ns es))) ''n0'' = map_of (vertices g) ''n0''"
proof (induction items arbitrary: g idx ns es)
  case Nil
  then show ?case by simp
next
  case (Cons h items)
  obtain g' r where c: "create_hypothesis g d dn idx h = (g', r)" by (cases "create_hypothesis g d dn idx h")
  from create_hypothesis_root [of g d dn idx h] c
  have "map_of (vertices g') ''n0'' = map_of (vertices g) ''n0''" by simp
  with c Cons.IH [of g'] show ?case by (cases r) simp_all
qed

lemma generateHypotheses_root:
  "map_of (vertices (fst (generateHypotheses g d hyps cfg))) ''n0'' = map_of (vertices g) ''n0''"
proof -
  let ?cfg = "with_default cfg (JObj [])"
  have out: "generateHypotheses g d hyps cfg =
                    (case generateHypotheses_try g d hyps ?cfg of
                       (g', Inr r) \<Rightarrow> (g', r)
                     | (g', Inl e) \<Rightarrow>
                         (g', HypFailure e (currentStage g') (stage_name_or_unknown (currentStage g'))))"
    by (simp add: generateHypotheses_def Let_def)
  from generateHypotheses_try_shape [of g d hyps ?cfg]
  consider (a) e where "generateHypotheses_try g d hyps ?cfg = (g, Inl e)"
    | (b) hs did dn where "generateHypotheses_try g d hyps ?cfg =
             (case hypotheses_loop g did dn 0
                     (take (maxHypotheses (validateHypothesisConfig ?cfg)) hs) [] [] of
                (g', ns, es) \<Rightarrow>
                  if ns = [] then (g', Inl (NoHypotheses es))
                  else (g'\<lparr> currentStage := 3, meta_stage := ''hypothesis_planning'' \<rparr>,
                        Inr (HypSuccess ns 3 ''hypothesis_planning''
                          (if es \<noteq> [] then Some es else None)
                          (if es \<noteq> [] then Some [show_nat (length es) @ '' hypotheses failed to create'']
                           else None))))"
    by blast
  then show ?thesis
  proof cases
    case a
    with out show ?thesis by simp
  next
    case b
    obtain g' ns es where l: "hypotheses_loop g did dn 0
                     (take (maxHypotheses (validateHypothesisConfig ?cfg)) hs) [] [] = (g', ns, es)"
      by (metis prod_cases3)
    from hypotheses_loop_root [of g did dn 0
            "take (maxHypotheses (validateHypothesisConfig ?cfg)) hs" "[]" "[]"] l
    have "map_of (vertices g') ''n0'' = map_of (vertices g) ''n0''" by simp
    with b l out show ?thesis by (cases "ns = []") simp_all
  qed
qed

lemma initialize_root:
  "map_of (vertices (fst (initialize g td ic cfg))) ''n0'' \<noteq> None \<Longrightarrow> currentStage g = 0"
proof -
  assume a: "map_of (vertices (fst (initialize g td ic cfg))) ''n0'' \<noteq> None"
  have "init_success (snd (initialize g td ic cfg))"
  proof (rule ccontr)
    assume "\<not> init_success (snd (initialize g td ic cfg))"
    from initialize_failed [OF this] a show False by simp
  qed
  then show ?thesis using initialize_success_iff [of g td ic cfg] by blast
qed

lemma filter_key_le_1:
  "distinct (map fst m) \<Longrightarrow> length (filter (\<lambda>p. fst p = a) m) \<le> 1"
proof (induction m)
  case Nil
  then show ?case by simp
next
  case (Cons kv m)
  show ?case
  proof (cases "fst kv = a")
    case True
    with Cons.prems have "a \<notin> fst ` set m" by simp
    then have "filter (\<lambda>p. fst p = a) m = []" by (force simp add: filter_empty_conv)
    with True show ?thesis by simp
  next
    case False
    with Cons show ?thesis by simp
  qed
qed

text \<open>
  C4: in every state reached from a new graph by any sequence of the five operations the
  vertex map holds at most one entry that is stored under \<open>n0\<close> or is of kind \<open>root\<close>,
  and a node is of kind \<open>root\<close> exactly when its key is \<open>n0\<close>. A call that leaves a
  root entry under \<open>n0\<close> that was not there before is a call of \<^verbatim>\<open>initialize\<close> on a
  graph whose cursor is 0, whatever the graph.
\<close>

theorem single_root:
  "length (filter (\<lambda>(k, n). k = ''n0'' \<or> node_type n = ''root'')
             (vertices (run (new_graph ml) ops))) \<le> 1
   \<and> (\<forall>(k, n) \<in> set (vertices (run (new_graph ml) ops)). node_type n = ''root'' \<longleftrightarrow> k = ''n0'')
   \<and> (map_of (vertices (step g op)) ''n0'' \<noteq> None
       \<and> map_of (vertices (step g op)) ''n0'' \<noteq> map_of (vertices g) ''n0'' \<longrightarrow>
         (\<exists>td ic cfg. op = OpInitialize td ic cfg) \<and> currentStage g = 0)"
proof -
  let ?vs = "vertices (run (new_graph ml) ops)"
  from root_invariant_run [OF root_invariant_new, of ml ops]
  have d: "distinct (map fst ?vs)"
    and r: "\<forall>(k, n) \<in> set ?vs. node_type n = ''root'' \<longleftrightarrow> k = ''n0''"
    by (simp_all add: root_invariant_def)
  from r have "filter (\<lambda>(k, n). k = ''n0'' \<or> node_type n = ''root'') ?vs
                = filter (\<lambda>p. fst p = ''n0'') ?vs"
    by (intro filter_cong) auto
  with filter_key_le_1 [OF d, of "''n0''"]
  have one: "length (filter (\<lambda>(k, n). k = ''n0'' \<or> node_type n = ''root'') ?vs) \<le> 1" by simp
  have ins: "map_of (vertices (step g op)) ''n0'' \<noteq> None
       \<and> map_of (vertices (step g op)) ''n0'' \<noteq> map_of (vertices g) ''n0'' \<longrightarrow>
         (\<exists>td ic cfg. op = OpInitialize td ic cfg) \<and> currentStage g = 0"
  proof (cases op)
    case (OpInitialize td ic cfg)
    with initialize_root [of g td ic cfg] show ?thesis by simp
  qed (simp_all add: decomposeTask_root generateHypotheses_root)
  from one r ins show ?thesis by blast
qed

theorem single_root_witness:
  "map_of (vertices (step (new_graph True) (OpInitialize (JStr ''Investigate the role of skin microbiome in disease'') JUndefined JUndefined))) ''n0'' \<noteq> None
   \<and> currentStage (new_graph True) = 0
   \<and> length (filter (\<lambda>(k, n). k = ''n0'' \<or> node_type n = ''root'')
               (vertices (run (new_graph True)
                            [OpInitialize (JStr ''Investigate the role of skin microbiome in disease'') JUndefined JUndefined, OpDecompose None,
                             OpInitialize (JStr ''Investigate the role of skin microbiome in disease'') JUndefined JUndefined,
                             OpInitialize (JStr ''Investigate the role of skin microbiome in disease'') JUndefined JUndefined]))) \<le> 1"
proof -
  note t = single_root
             [of True "[OpInitialize (JStr ''Investigate the role of skin microbiome in disease'') JUndefined JUndefined, OpDecompose None,
                        OpInitialize (JStr ''Investigate the role of skin microbiome in disease'') JUndefined JUndefined,
                        OpInitialize (JStr ''Investigate the role of skin microbiome in disease'') JUndefined JUndefined]"
                 "new_graph True" "OpInitialize (JStr ''Investigate the role of skin microbiome in disease'') JUndefined JUndefined"]
  have h1: "map_of (vertices (step (new_graph True) (OpInitialize (JStr ''Investigate the role of skin microbiome in disease'') JUndefined JUndefined))) ''n0''
              \<noteq> None"
    by (simp add: example_initialize(1))
  have h2: "map_of (vertices (step (new_graph True) (OpInitialize (JStr ''Investigate the role of skin microbiome in disease'') JUndefined JUndefined))) ''n0''
              \<noteq> map_of (vertices (new_graph True)) ''n0''"
    by (simp add: example_initialize(1) new_graph_vertices)
  from t h1 h2 show ?thesis by blast
qed

section \<open>What the operations return and what they raise\<close>

lemma toLowerCase_examples:
  "toLowerCase ''xml'' = ''xml''" "toLowerCase ''JSON'' = ''json''"
  by code_simp+

lemma new_graph_edges: "edges (new_graph b) = []"
  by (simp add: new_graph_def Let_def)

lemma no_edges_no_raise: "edges g = [] \<Longrightarrow> \<not> analyzeLayerConnectivity_raises g"
  by (simp add: analyzeLayerConnectivity_raises_def analyzeLayerConnectivity_error_def
        List.map_filter_simps)

lemma exportGraph_builds:
  "\<not> analyzeLayerConnectivity_raises g \<Longrightarrow>
   exportGraph g format =
     (case with_default format (JStr ''json'') of
        JStr f \<Rightarrow>
          if toLowerCase f = ''json'' then
            Inr (JsonDocument (getGraphSummary g) (map snd (vertices g)) (map snd (edges g)))
          else if toLowerCase f = ''yaml'' then Inr (YamlDocument (getGraphSummary g))
          else Inl (Error (''Unsupported export format: '' @ f))
      | JNull \<Rightarrow> Inl (TypeError ''Cannot read properties of null (reading 'toLowerCase')'')
      | _ \<Rightarrow> Inl (TypeError ''format.toLowerCase is not a function''))"
  by (simp add: exportGraph_def analyzeLayerConnectivity_raises_def Let_def)

lemma exportGraph_data_raises:
  "analyzeLayerConnectivity_raises g \<Longrightarrow> \<exists>m. exportGraph g format = Inl (TypeError m)"
proof -
  assume "analyzeLayerConnectivity_raises g"
  then obtain e where e: "analyzeLayerConnectivity_error g = Some e"
    by (auto simp add: analyzeLayerConnectivity_raises_def)
  then obtain err errs where l: "List.map_filter (\<lambda>(k, e). edge_connectivity_error g e) (edges g) = err # errs"
    and "e = err"
    by (auto simp add: analyzeLayerConnectivity_error_def split: list.splits)
  then have "err \<in> set (List.map_filter (\<lambda>(k, e). edge_connectivity_error g e) (edges g))" by simp
  then obtain k ed where "edge_connectivity_error g ed = Some err"
    by (auto simp add: List.map_filter_def)
  then obtain m where "err = TypeError m"
    by (auto simp add: edge_connectivity_error_def Let_def split: option.splits if_splits)
  with e \<open>e = err\<close> show ?thesis by (simp add: exportGraph_def Let_def)
qed

text \<open>
  C3, as stated, fails: on a new graph \<^verbatim>\<open>decomposeTask\<close> raises the wrong-stage
  error, and \<^verbatim>\<open>exportGraph\<close> raises on the format \<open>xml\<close>. Neither method has a
  \<^verbatim>\<open>try\<close>, so the error leaves the method.
\<close>

theorem operations_raise:
  "snd (decomposeTask (new_graph True) None)
     = Inl (Error ''Cannot decompose. Current stage: 0, expected: 1'')
   \<and> exportGraph (new_graph True) (JStr ''xml'') = Inl (Error ''Unsupported export format: xml'')"
  using exportGraph_builds [OF no_edges_no_raise [OF new_graph_edges [of True]], of "JStr ''xml''"]
  by (simp add: decomposeTask_wrong_stage new_graph_stage with_default_def toLowerCase_examples)

text \<open>
  C3, amended: \<^verbatim>\<open>initialize\<close> and \<^verbatim>\<open>generateHypotheses\<close> raise nothing past
  their own boundary: for every input each returns its result object, either the success
  object with the payload or the failure object with the error. The other three
  operations have no such boundary of their own: \<^verbatim>\<open>decomposeTask\<close> raises when the
  cursor is not 1, \<^verbatim>\<open>exportGraph\<close> raises on a format that is a string other than
  \<open>json\<close> or \<open>yaml\<close> in any letter case or is not a string, and returns the document
  for those two formats when building the export data raises nothing, and
  \<^verbatim>\<open>getGraphSummary\<close> returns the summary object, which has no success flag. When
  building the export data raises nothing, what \<^verbatim>\<open>exportGraph\<close> raises is the
  \<^verbatim>\<open>Error\<close> of its switch for a string and a \<^verbatim>\<open>TypeError\<close> for a value that is
  not a string; otherwise it is the \<^verbatim>\<open>TypeError\<close> of the data.
\<close>

theorem operation_boundaries:
  "((\<exists>ws. snd (initialize g td ic cfg) = InitSuccess ''n0'' 1 ''initialization'' active_parameters ws)
     \<or> (\<exists>e. snd (initialize g td ic cfg) = InitFailure e 0))
   \<and> ((\<exists>ns es ws. snd (generateHypotheses g d hyps c) = HypSuccess ns 3 ''hypothesis_planning'' es ws
                    \<and> ns \<noteq> [])
       \<or> (\<exists>e. snd (generateHypotheses g d hyps c)
                = HypFailure e (currentStage (fst (generateHypotheses g d hyps c)))
                    (stage_name_or_unknown (currentStage (fst (generateHypotheses g d hyps c))))))
   \<and> (currentStage g \<noteq> 1 \<longrightarrow>
        snd (decomposeTask g dims)
          = Inl (Error (''Cannot decompose. Current stage: '' @ show_nat (currentStage g)
                        @ '', expected: 1'')))
   \<and> (toLowerCase f \<noteq> ''json'' \<and> toLowerCase f \<noteq> ''yaml'' \<longrightarrow>
        (\<exists>e. exportGraph g (JStr f) = Inl e))
   \<and> (\<not> is_string fmt \<and> fmt \<noteq> JUndefined \<longrightarrow> (\<exists>e. exportGraph g fmt = Inl e))
   \<and> (\<not> analyzeLayerConnectivity_raises g \<and> (toLowerCase f = ''json'' \<or> toLowerCase f = ''yaml'') \<longrightarrow>
        (\<exists>doc. exportGraph g (JStr f) = Inr doc))
   \<and> summary_current_stage (getGraphSummary g) = currentStage g
   \<and> vertices_count (getGraphSummary g) = length (vertices g)
   \<and> (\<not> analyzeLayerConnectivity_raises g \<and> toLowerCase f \<noteq> ''json'' \<and> toLowerCase f \<noteq> ''yaml'' \<longrightarrow>
        exportGraph g (JStr f) = Inl (Error (''Unsupported export format: '' @ f)))
   \<and> (\<not> is_string fmt \<and> fmt \<noteq> JUndefined \<longrightarrow> (\<exists>m. exportGraph g fmt = Inl (TypeError m)))
   \<and> (analyzeLayerConnectivity_raises g \<longrightarrow> (\<exists>m. exportGraph g fmt = Inl (TypeError m)))"
proof -
  have i: "(\<exists>ws. snd (initialize g td ic cfg) = InitSuccess ''n0'' 1 ''initialization'' active_parameters ws)
     \<or> (\<exists>e. snd (initialize g td ic cfg) = InitFailure e 0)"
    using initialize_result_shape [of g td ic cfg] by blast
  let ?cfg = "with_default c (JObj [])"
  have out: "generateHypotheses g d hyps c =
                    (case generateHypotheses_try g d hyps ?cfg of
                       (g', Inr r) \<Rightarrow> (g', r)
                     | (g', Inl e) \<Rightarrow>
                         (g', HypFailure e (currentStage g') (stage_name_or_unknown (currentStage g'))))"
    by (simp add: generateHypotheses_def Let_def)
  have h: "(\<exists>ns es ws. snd (generateHypotheses g d hyps c) = HypSuccess ns 3 ''hypothesis_planning'' es ws
                    \<and> ns \<noteq> [])
       \<or> (\<exists>e. snd (generateHypotheses g d hyps c)
                = HypFailure e (currentStage (fst (generateHypotheses g d hyps c)))
                    (stage_name_or_unknown (currentStage (fst (generateHypotheses g d hyps c)))))"
  proof -
    from generateHypotheses_try_shape [of g d hyps ?cfg]
    consider (a) e where "generateHypotheses_try g d hyps ?cfg = (g, Inl e)"
      | (b) hs did dn where "generateHypotheses_try g d hyps ?cfg =
             (case hypotheses_loop g did dn 0
                     (take (maxHypotheses (validateHypothesisConfig ?cfg)) hs) [] [] of
                (g', ns, es) \<Rightarrow>
                  if ns = [] then (g', Inl (NoHypotheses es))
                  else (g'\<lparr> currentStage := 3, meta_stage := ''hypothesis_planning'' \<rparr>,
                        Inr (HypSuccess ns 3 ''hypothesis_planning''
                          (if es \<noteq> [] then Some es else None)
                          (if es \<noteq> [] then Some [show_nat (length es) @ '' hypotheses failed to create'']
                           else None))))"
      by blast
    then show ?thesis
    proof cases
      case a
      with out show ?thesis by simp
    next
      case b
      obtain g' ns es where l: "hypotheses_loop g did dn 0
                     (take (maxHypotheses (validateHypothesisConfig ?cfg)) hs) [] [] = (g', ns, es)"
        by (metis prod_cases3)
      with b out show ?thesis by (cases "ns = []") simp_all
    qed
  qed
  have dt: "currentStage g \<noteq> 1 \<longrightarrow>
        snd (decomposeTask g dims)
          = Inl (Error (''Cannot decompose. Current stage: '' @ show_nat (currentStage g)
                        @ '', expected: 1''))"
    by (simp add: decomposeTask_wrong_stage)
  have e4: "\<not> analyzeLayerConnectivity_raises g \<and> toLowerCase f \<noteq> ''json'' \<and> toLowerCase f \<noteq> ''yaml'' \<longrightarrow>
        exportGraph g (JStr f) = Inl (Error (''Unsupported export format: '' @ f))"
    by (simp add: exportGraph_builds with_default_def)
  have e6: "analyzeLayerConnectivity_raises g \<longrightarrow> (\<exists>m. exportGraph g fmt = Inl (TypeError m))"
    using exportGraph_data_raises [of g fmt] by blast
  have e5: "\<not> is_string fmt \<and> fmt \<noteq> JUndefined \<longrightarrow> (\<exists>m. exportGraph g fmt = Inl (TypeError m))"
  proof (cases "analyzeLayerConnectivity_raises g")
    case True
    with e6 show ?thesis by blast
  next
    case False
    then show ?thesis by (cases fmt) (simp_all add: exportGraph_builds with_default_def)
  qed
  have e1: "toLowerCase f \<noteq> ''json'' \<and> toLowerCase f \<noteq> ''yaml'' \<longrightarrow>
        (\<exists>e. exportGraph g (JStr f) = Inl e)"
  proof (cases "analyzeLayerConnectivity_raises g")
    case True
    with exportGraph_data_raises [of g "JStr f"] show ?thesis by blast
  next
    case False
    with e4 show ?thesis by blast
  qed
  from e5 have e2: "\<not> is_string fmt \<and> fmt \<noteq> JUndefined \<longrightarrow> (\<exists>e. exportGraph g fmt = Inl e)"
    by blast
  have e3: "\<not> analyzeLayerConnectivity_raises g \<and> (toLowerCase f = ''json'' \<or> toLowerCase f = ''yaml'') \<longrightarrow>
        (\<exists>doc. exportGraph g (JStr f) = Inr doc)"
    by (auto simp add: exportGraph_builds with_default_def)
  have s: "summary_current_stage (getGraphSummary g) = currentStage g
           \<and> vertices_count (getGraphSummary g) = length (vertices g)"
    by (simp add: getGraphSummary_def)
  from i h dt e1 e2 e3 s e4 e5 e6 show ?thesis by blast
qed

theorem operation_boundaries_witness:
  "(\<exists>e. snd (initialize (new_graph True) JNull JUndefined JUndefined) = InitFailure e 0)
   \<and> snd (decomposeTask (new_graph True) (Some [''Scope'']))
       = Inl (Error ''Cannot decompose. Current stage: 0, expected: 1'')
   \<and> exportGraph (new_graph True) (JStr ''xml'') = Inl (Error ''Unsupported export format: xml'')
   \<and> (\<exists>m. exportGraph (new_graph True) (JNum (Fin 1)) = Inl (TypeError m))
   \<and> (\<exists>doc. exportGraph (new_graph True) (JStr ''JSON'') = Inr doc)"
proof -
  have nr: "\<not> analyzeLayerConnectivity_raises (new_graph True)"
    by (rule no_edges_no_raise [OF new_graph_edges])
  have ni: "\<not> init_success (snd (initialize (new_graph True) JNull JUndefined JUndefined))"
    by (simp add: initialize_success_iff validateTaskDescription_def)
  note a = operation_boundaries
             [of "new_graph True" JNull JUndefined JUndefined _ _ _ "Some [''Scope'']" "''xml''"
                 "JNum (Fin 1)"]
  note b = operation_boundaries [where g = "new_graph True" and f = "''JSON''"]
  from a have "(\<exists>ws. snd (initialize (new_graph True) JNull JUndefined JUndefined)
                      = InitSuccess ''n0'' 1 ''initialization'' active_parameters ws)
     \<or> (\<exists>e. snd (initialize (new_graph True) JNull JUndefined JUndefined) = InitFailure e 0)"
    by blast
  with ni have c1: "\<exists>e. snd (initialize (new_graph True) JNull JUndefined JUndefined) = InitFailure e 0"
    by auto
  from a new_graph_stage [of True]
  have c2: "snd (decomposeTask (new_graph True) (Some [''Scope'']))
       = Inl (Error ''Cannot decompose. Current stage: 0, expected: 1'')"
    by simp
  from a nr have c3: "exportGraph (new_graph True) (JStr ''xml'') = Inl (Error ''Unsupported export format: xml'')"
    by (simp add: toLowerCase_examples)
  from a have c4: "\<exists>m. exportGraph (new_graph True) (JNum (Fin 1)) = Inl (TypeError m)"
    by simp
  from b nr have c5: "\<exists>doc. exportGraph (new_graph True) (JStr ''JSON'') = Inr doc"
    by (simp add: toLowerCase_examples)
  from c1 c2 c3 c4 c5 show ?thesis by blast
qed

section \<open>The base layer on reachable graphs\<close>

text \<open>
  The statements above about \<^verbatim>\<open>decomposeTask\<close> and \<^verbatim>\<open>generateHypotheses\<close> assume
  a base layer. Every graph reached from a new graph has one once its cursor has left 0,
  because a successful \<^verbatim>\<open>initialize\<close> creates the layers when they are missing and
  no operation removes a layer.
\<close>

lemma generateHypotheses_layers:
  "map fst (layers (fst (generateHypotheses g d hyps cfg))) = map fst (layers g)"
proof -
  let ?cfg = "with_default cfg (JObj [])"
  have out: "generateHypotheses g d hyps cfg =
                    (case generateHypotheses_try g d hyps ?cfg of
                       (g', Inr r) \<Rightarrow> (g', r)
                     | (g', Inl e) \<Rightarrow>
                         (g', HypFailure e (currentStage g') (stage_name_or_unknown (currentStage g'))))"
    by (simp add: generateHypotheses_def Let_def)
  from generateHypotheses_try_shape [of g d hyps ?cfg]
  consider (a) e where "generateHypotheses_try g d hyps ?cfg = (g, Inl e)"
    | (b) hs did dn where "generateHypotheses_try g d hyps ?cfg =
             (case hypotheses_loop g did dn 0
                     (take (maxHypotheses (validateHypothesisConfig ?cfg)) hs) [] [] of
                (g', ns, es) \<Rightarrow>
                  if ns = [] then (g', Inl (NoHypotheses es))
                  else (g'\<lparr> currentStage := 3, meta_stage := ''hypothesis_planning'' \<rparr>,
                        Inr (HypSuccess ns 3 ''hypothesis_planning''
                          (if es \<noteq> [] then Some es else None)
                          (if es \<noteq> [] then Some [show_nat (length es) @ '' hypotheses failed to create'']
                           else None))))"
    by blast
  then show ?thesis
  proof cases
    case a
    with out show ?thesis by simp
  next
    case b
    obtain g' ns es where l: "hypotheses_loop g did dn 0
                     (take (maxHypotheses (validateHypothesisConfig ?cfg)) hs) [] [] = (g', ns, es)"
      by (metis prod_cases3)
    from hypotheses_loop_frame [of g did dn 0
            "take (maxHypotheses (validateHypothesisConfig ?cfg)) hs" "[]" "[]"] l
    have "map fst (layers g') = map fst (layers g)" by simp
    with b l out show ?thesis by (cases "ns = []") simp_all
  qed
qed

lemma base_layer_step:
  assumes "1 \<le> currentStage g \<longrightarrow> map_has (layers g) ''base''"
  shows "1 \<le> currentStage (step g op) \<longrightarrow> map_has (layers (step g op)) ''base''"
proof (cases op)
  case (OpInitialize td ic cfg)
  show ?thesis
  proof (cases "init_success (snd (initialize g td ic cfg))")
    case True
    then obtain d vc sc where "currentStage g = 0" "validateTaskDescription td = Inr d"
      "validateConfidenceArray
         (with_default ic (JArr [JNum (Fin 0.8), JNum (Fin 0.8), JNum (Fin 0.8), JNum (Fin 0.8)]))
         ''initial_confidence'' = Inr vc"
      "validateConfig (with_default cfg (JObj [])) = Inr sc"
      using initialize_success_iff [of g td ic cfg] by blast
    from initialize_success(3) [OF this] OpInitialize show ?thesis by simp
  next
    case False
    from initialize_failed [OF this] OpInitialize show ?thesis by simp
  qed
next
  case (OpDecompose cd)
  show ?thesis
  proof (cases "currentStage g = 1")
    case True
    with assms have b: "map_has (layers g) ''base''" by simp
    from decomposeTask_success(3) [OF True b, of cd] b OpDecompose
    show ?thesis by (simp add: map_has_keys)
  next
    case False
    with assms OpDecompose show ?thesis by (simp add: decomposeTask_wrong_stage)
  qed
next
  case (OpGenerateHypotheses d hyps cfg)
  show ?thesis
  proof (cases "currentStage g = 2")
    case True
    with assms have "map_has (layers g) ''base''" by simp
    with generateHypotheses_layers [of g d hyps cfg] OpGenerateHypotheses
    show ?thesis by (simp add: map_has_keys)
  next
    case False
    with assms OpGenerateHypotheses show ?thesis by (simp add: generateHypotheses_wrong_stage)
  qed
next
  case OpGetSummary
  with assms show ?thesis by simp
next
  case (OpExportGraph fmt)
  with assms show ?thesis by simp
qed

lemma reachable_base_layer:
  "1 \<le> currentStage (run (new_graph ml) ops) \<longrightarrow> map_has (layers (run (new_graph ml) ops)) ''base''"
proof -
  have "\<And>g. (1 \<le> currentStage g \<longrightarrow> map_has (layers g) ''base'') \<Longrightarrow>
            1 \<le> currentStage (foldl step g ops) \<longrightarrow> map_has (layers (foldl step g ops)) ''base''"
  proof (induction ops)
    case Nil
    then show ?case by simp
  next
    case (Cons op ops)
    from Cons.IH [OF base_layer_step [OF Cons.prems, of op]] show ?case by simp
  qed
  from this [of "new_graph ml"] show ?thesis by (simp add: run_def new_graph_stage)
qed

end
